(* ===== verification/Prelude.thy ===== *)
theory Prelude
  imports Main "HOL-Library.Sublist"
begin

text \<open>
  Shared vocabulary of the video-consultation development: the names of the
  identifiers the components exchange, the collections of simplification rules
  the component theories fill, and generic lemmas on lists and maps that the
  component proofs share.
\<close>

section \<open>Identifiers\<close>

text \<open>
  Room, participant and role values come from the URL of the video-call route
  (\<open>useParams\<close>, \<open>useSearchParams\<close>) and travel as JSON strings, so they are
  strings here.
\<close>

type_synonym room = string
type_synonym user_id = string

section \<open>Rule collections\<close>

text \<open>
  \<open>ws_simps\<close> collects the equations of the signaling transport's operations,
  \<open>pc_simps\<close> those of the peer-connection model, \<open>call_simps\<close> those of the
  video-call component; the component proofs use them with \<open>simp add:\<close>.
\<close>

named_theorems ws_simps "equations of the signaling transport"
named_theorems pc_simps "equations of the peer-connection model"
named_theorems call_simps "equations of the video-call component"

section \<open>JavaScript built-ins\<close>

text \<open>JavaScript's \<open>String.prototype.includes\<close> is contiguous-substring search.\<close>

definition js_includes :: "string \<Rightarrow> string \<Rightarrow> bool" where
  "js_includes s t = sublist t s"

text \<open>JavaScript truthiness of a string that may be null: null and the empty string are false.\<close>

definition js_truthy :: "string option \<Rightarrow> bool" where
  "js_truthy v = (case v of None \<Rightarrow> False | Some s \<Rightarrow> s \<noteq> [])"

text \<open>\<open>String.prototype.split\<close> on one character.\<close>

fun js_split :: "char \<Rightarrow> string \<Rightarrow> string list" where
  "js_split c [] = [[]]"
| "js_split c (x # xs) = (let r = js_split c xs in if x = c then [] # r else (x # hd r) # tl r)"

text \<open>The publications of an operation that publishes at most once.\<close>

definition opt_list :: "'a option \<Rightarrow> 'a list" where
  "opt_list x = (case x of None \<Rightarrow> [] | Some y \<Rightarrow> [y])"

text \<open>
  A field of a JSON object as JavaScript reads it: absent (\<open>undefined\<close>), \<open>null\<close>,
  or a string.
\<close>

datatype json_str = JUndefined | JNull | JString string

text \<open>A template literal \<open>`${v}`\<close> and JavaScript truthiness of such a value.\<close>

fun js_tmpl :: "json_str \<Rightarrow> string" where
  "js_tmpl JUndefined = ''undefined''"
| "js_tmpl JNull = ''null''"
| "js_tmpl (JString s) = s"

fun js_truthy_j :: "json_str \<Rightarrow> bool" where
  "js_truthy_j (JString s) = (s \<noteq> [])"
| "js_truthy_j _ = False"

text \<open>Case folding of an ASCII letter, as \<open>toLowerCase\<close> and case-insensitive matching do.\<close>

definition ascii_lower :: "char \<Rightarrow> char" where
  "ascii_lower c = (if (65::nat) \<le> of_char c \<and> of_char c \<le> (90::nat) then char_of (of_char c + (32::nat)) else c)"

section \<open>Generic lemmas\<close>

lemma js_includes_code [code]: "js_includes s t = sublist t s"
  by (simp add: js_includes_def)

lemma js_includes_Nil [simp]: "js_includes s []"
  by (simp add: js_includes_def)

lemma js_includes_append_right [simp]: "js_includes (a @ t @ b) t"
  by (auto simp add: js_includes_def sublist_def)

lemma js_truthy_simps [simp]: "js_truthy None = False" "js_truthy (Some s) = (s \<noteq> [])"
  by (simp_all add: js_truthy_def)

lemma js_truthy_Some: "js_truthy v \<Longrightarrow> v \<noteq> None"
  by (cases v) simp_all

lemma js_split_nonempty: "js_split c s \<noteq> []"
  by (induction s) (simp_all add: Let_def)

lemma js_split_no_sep: "c \<notin> set a \<Longrightarrow> js_split c (a @ b) = (a @ hd (js_split c b)) # tl (js_split c b)"
  by (induction a) (auto simp: Let_def js_split_nonempty)

lemma js_split_sep: "c \<notin> set a \<Longrightarrow> js_split c (a @ c # b) = a # js_split c b"
  using js_split_no_sep[of c a "c # b"] by (simp add: Let_def)

lemma js_split_single: "c \<notin> set a \<Longrightarrow> js_split c a = [a]"
  using js_split_no_sep[of c a "[]"] by simp

lemma opt_list_simps [simp]: "opt_list None = []" "opt_list (Some y) = [y]"
  by (simp_all add: opt_list_def)

lemma set_opt_list [simp]: "set (opt_list x) = set_option x"
  by (cases x) simp_all

text \<open>Counting the elements of a list that satisfy a test.\<close>

lemma length_filter_append_single [simp]:
  "length (filter P (xs @ [x])) = length (filter P xs) + (if P x then 1 else 0)"
  by simp

lemma length_filter_removeAll_mem:
  assumes "x \<in> set xs" "distinct xs" "P x"
  shows "length (filter P (removeAll x xs)) + 1 = length (filter P xs)"
  using assms
proof (induction xs)
  case Nil
  then show ?case by simp
next
  case (Cons y ys)
  show ?case
  proof (cases "y = x")
    case True
    with Cons.prems have "x \<notin> set ys" by simp
    then have "removeAll x ys = ys" by simp
    with True Cons.prems show ?thesis by simp
  next
    case False
    with Cons show ?thesis by auto
  qed
qed

lemma removeAll_notin_id [simp]: "x \<notin> set xs \<Longrightarrow> removeAll x xs = xs"
  by simp

lemma filter_idem_same [simp]: "filter P (filter P xs) = filter P xs"
  by simp

text \<open>Map updates that undo each other.\<close>

lemma map_upd_restore:
  "m k = None \<Longrightarrow> (m(k \<mapsto> v))(k := None) = m"
  by (rule ext) simp

end
