(* ===== verification/Signaling.thy ===== *)
theory Signaling
  imports Prelude
begin

text \<open>
  The signaling transport, \<open>src/src/services/WebSocketService.js\<close>: one process-wide
  object holding a STOMP client (\<open>stompClient\<close>, null when not connected) and a
  map \<open>messageHandlers\<close> from room identifier to the STOMP subscription made for it.
  The relay's side of the transport (which subscriptions of this browser it delivers
  to) is part of the state as \<open>relay_subs\<close>, so that what the object forgets and what
  the relay still delivers can be told apart. Every STOMP client object the service
  creates gets a fresh generation number; a subscription records the client
  that made it.
\<close>

section \<open>State\<close>

record subscription =
  sub_id :: nat
  sub_gen :: nat
  sub_room :: room

record ws_service =
  stompClient :: "nat option"
  messageHandlers :: "room \<rightharpoonup> subscription"
  relay_subs :: "subscription list"
  client_count :: nat
  sub_count :: nat

text \<open>The constructor: no client, an empty handler map, nothing at the relay.\<close>

definition ws_init :: ws_service where
  "ws_init = \<lparr>stompClient = None, messageHandlers = Map.empty, relay_subs = [],
              client_count = 0, sub_count = 0\<rparr>"

section \<open>Operations\<close>

text \<open>
  \<open>connect\<close> replaces \<open>stompClient\<close> by a new client over a new SockJS socket. It
  does not disconnect the client it replaces. The \<open>onConnected\<close> callback runs later,
  when the relay answers; the caller keeps it pending under the generation returned
  here. The error callback only logs, so a failed connection is a callback that never
  runs.
\<close>

definition connect :: "ws_service \<Rightarrow> ws_service \<times> nat" where
  "connect s = (s\<lparr>stompClient := Some (client_count s), client_count := Suc (client_count s)\<rparr>,
                client_count s)"

text \<open>
  \<open>subscribe\<close>: with no client it logs and returns; otherwise it subscribes to
  \<open>/topic/room/roomId\<close> and stores the subscription under the room, overwriting (not
  unsubscribing) an earlier one for the same room.
\<close>

definition subscribe :: "ws_service \<Rightarrow> room \<Rightarrow> ws_service" where
  "subscribe s r =
     (case stompClient s of
        None \<Rightarrow> s
      | Some g \<Rightarrow>
          (let b = \<lparr>sub_id = sub_count s, sub_gen = g, sub_room = r\<rparr>
           in s\<lparr>relay_subs := relay_subs s @ [b],
                messageHandlers := (messageHandlers s)(r \<mapsto> b),
                sub_count := Suc (sub_count s)\<rparr>))"

text \<open>\<open>unsubscribe\<close>: cancels the stored subscription of the room, if any, and deletes it.\<close>

definition unsubscribe :: "ws_service \<Rightarrow> room \<Rightarrow> ws_service" where
  "unsubscribe s r =
     (case messageHandlers s r of
        None \<Rightarrow> s
      | Some b \<Rightarrow> s\<lparr>relay_subs := removeAll b (relay_subs s),
                     messageHandlers := (messageHandlers s)(r := None)\<rparr>)"

text \<open>
  \<open>sendMessage\<close>: with no client it logs and returns; otherwise the message is
  published to \<open>/app/room/roomId\<close>. The result is the publication handed to the relay.
\<close>

definition sendMessage :: "ws_service \<Rightarrow> room \<Rightarrow> 'm \<Rightarrow> (room \<times> 'm) option" where
  "sendMessage s r m = (case stompClient s of None \<Rightarrow> None | Some _ \<Rightarrow> Some (r, m))"

text \<open>
  \<open>disconnect\<close>: closes the current client, whose subscriptions the relay then drops,
  and sets \<open>stompClient\<close> to null. The handler map is left as it is.
\<close>

definition disconnect :: "ws_service \<Rightarrow> ws_service" where
  "disconnect s =
     (case stompClient s of
        None \<Rightarrow> s
      | Some g \<Rightarrow> s\<lparr>relay_subs := filter (\<lambda>b. sub_gen b \<noteq> g) (relay_subs s),
                     stompClient := None\<rparr>)"

text \<open>
  The relay delivers a message published to a room once to every live
  subscription of that room: \<open>listeners s r\<close> copies reach this browser.
\<close>

definition listeners :: "ws_service \<Rightarrow> room \<Rightarrow> nat" where
  "listeners s r = length (filter (\<lambda>b. sub_room b = r) (relay_subs s))"

section \<open>Well-formedness\<close>

text \<open>
  Subscription identifiers are distinct and below the counter, generations are below
  the client counter, the current client is one that was created, and every stored
  handler is filed under its own room and was issued by this object.
\<close>

definition ws_wf :: "ws_service \<Rightarrow> bool" where
  "ws_wf s \<longleftrightarrow>
     distinct (map sub_id (relay_subs s)) \<and>
     (\<forall>b\<in>set (relay_subs s). sub_id b < sub_count s \<and> sub_gen b < client_count s) \<and>
     (\<forall>g. stompClient s = Some g \<longrightarrow> g < client_count s) \<and>
     (\<forall>r b. messageHandlers s r = Some b \<longrightarrow> sub_room b = r \<and> sub_id b < sub_count s)"

text \<open>
  A service after \<open>connect\<close> and \<open>subscribe('R1', ...)\<close>: client 0, one
  subscription to room R1.
\<close>

definition demo_ws :: ws_service where
  "demo_ws = subscribe (fst (connect ws_init)) ''R1''"

declare connect_def [ws_simps] subscribe_def [ws_simps] unsubscribe_def [ws_simps]
  sendMessage_def [ws_simps] disconnect_def [ws_simps] listeners_def [ws_simps]

section \<open>Lemmas\<close>

lemma ws_wf_init: "ws_wf ws_init"
  by (simp add: ws_wf_def ws_init_def)

lemma connect_wf: "ws_wf s \<Longrightarrow> ws_wf (fst (connect s))"
  by (auto simp: ws_wf_def connect_def)

lemma subscribe_wf: "ws_wf s \<Longrightarrow> ws_wf (subscribe s r)"
  by (fastforce simp: ws_wf_def subscribe_def Let_def split: option.splits)

lemma unsubscribe_wf: "ws_wf s \<Longrightarrow> ws_wf (unsubscribe s r)"
  by (auto simp: ws_wf_def unsubscribe_def distinct_map_filter removeAll_filter_not_eq split: option.splits)

lemma disconnect_wf: "ws_wf s \<Longrightarrow> ws_wf (disconnect s)"
  by (auto simp: ws_wf_def disconnect_def distinct_map_filter split: option.splits)

text \<open>
  \<open>unsubscribe\<close> is idempotent: a second call for the same room is a no-op.
\<close>

theorem unsubscribe_idem: "unsubscribe (unsubscribe s r) r = unsubscribe s r"
  by (simp add: unsubscribe_def split: option.splits)

text \<open>
  \<open>disconnect\<close> is idempotent.
\<close>

theorem disconnect_idem: "disconnect (disconnect s) = disconnect s"
  by (simp add: disconnect_def split: option.splits)

text \<open>
  \<open>sendMessage\<close> publishes nothing exactly when there is no STOMP client:
  the message is dropped (logged) rather than queued or reported to the caller.
\<close>

theorem sendMessage_None_iff: "sendMessage s r m = None \<longleftrightarrow> stompClient s = None"
  by (simp add: sendMessage_def split: option.splits)

lemma ws_wf_fresh_sub:
  assumes "ws_wf s"
  shows "\<lparr>sub_id = sub_count s, sub_gen = g, sub_room = r\<rparr> \<notin> set (relay_subs s)"
  using assms by (auto simp: ws_wf_def)

lemma ws_wf_distinct: "ws_wf s \<Longrightarrow> distinct (relay_subs s)"
  by (auto simp: ws_wf_def distinct_map)

lemma subscribe_listeners:
  "stompClient s \<noteq> None \<Longrightarrow> listeners (subscribe s r) r = Suc (listeners s r)"
  by (auto simp: subscribe_def listeners_def Let_def)

text \<open>
  C27. Subscribing twice to the same room and then unsubscribing leaves one more live
  subscription than before: \<open>subscribe\<close> overwrites the stored subscription
  without cancelling it, so the relay keeps delivering each message of the room
  once more than the handler map accounts for.
\<close>

theorem resubscribe_unsubscribe_leaks:
  assumes wf: "ws_wf s" and conn: "stompClient s = Some g"
  shows "listeners (unsubscribe (subscribe (subscribe s r) r) r) r = Suc (listeners s r)"
proof -
  let ?s1 = "subscribe s r"
  let ?s2 = "subscribe ?s1 r"
  let ?b = "\<lparr>sub_id = sub_count ?s1, sub_gen = g, sub_room = r\<rparr>"
  have wf1: "ws_wf ?s1" using wf by (rule subscribe_wf)
  have c1: "stompClient ?s1 = Some g" using conn by (simp add: subscribe_def Let_def)
  have h2: "messageHandlers ?s2 r = Some ?b" using c1 by (simp add: subscribe_def Let_def)
  have r2: "relay_subs ?s2 = relay_subs ?s1 @ [?b]" using c1 by (simp add: subscribe_def Let_def)
  have "?b \<notin> set (relay_subs ?s1)" using wf1 by (rule ws_wf_fresh_sub)
  then have "removeAll ?b (relay_subs ?s2) = relay_subs ?s1" using r2 by simp
  then have "listeners (unsubscribe ?s2 r) r = listeners ?s1 r"
    using h2 by (simp add: unsubscribe_def listeners_def)
  then show ?thesis using conn by (simp add: subscribe_listeners)
qed

text \<open>
  C28. On a connected, well-formed service with no subscription for a room,
  \<open>unsubscribe\<close> undoes \<open>subscribe\<close>: the relay's subscriptions and the
  handler map are back to what they were.
\<close>

theorem subscribe_unsubscribe_roundtrip:
  assumes wf: "ws_wf s" and conn: "stompClient s = Some g" and fresh: "messageHandlers s r = None"
  shows "relay_subs (unsubscribe (subscribe s r) r) = relay_subs s \<and>
         messageHandlers (unsubscribe (subscribe s r) r) = messageHandlers s"
proof -
  let ?b = "\<lparr>sub_id = sub_count s, sub_gen = g, sub_room = r\<rparr>"
  have "?b \<notin> set (relay_subs s)" using wf by (rule ws_wf_fresh_sub)
  with conn fresh show ?thesis
    by (simp add: subscribe_def unsubscribe_def Let_def fun_upd_idem)
qed

lemma disconnect_drops_client_subs:
  "stompClient s = Some g \<Longrightarrow> b \<in> set (relay_subs (disconnect s)) \<Longrightarrow> sub_gen b \<noteq> g"
  by (simp add: disconnect_def)

text \<open>
  C29. \<open>disconnect\<close> does not clear \<open>messageHandlers\<close>: after it, the map
  still holds the subscriptions of the closed client.
\<close>

theorem disconnect_keeps_handlers: "messageHandlers (disconnect s) = messageHandlers s"
  by (simp add: disconnect_def split: option.splits)

lemma connect_keeps_relay_subs: "relay_subs (fst (connect s)) = relay_subs s"
  by (simp add: connect_def)

lemma demo_ws_wf: "ws_wf demo_ws"
  by (simp add: demo_ws_def subscribe_wf connect_wf ws_wf_init)

lemma demo_ws_client: "stompClient demo_ws = Some 0"
  by (simp add: demo_ws_def subscribe_def connect_def ws_init_def Let_def)

theorem resubscribe_unsubscribe_leaks_witness:
  "ws_wf demo_ws \<and> stompClient demo_ws = Some 0 \<and>
   listeners (unsubscribe (subscribe (subscribe demo_ws ''R1'') ''R1'') ''R1'') ''R1'' = 2"
proof -
  have "listeners demo_ws ''R1'' = 1"
    by (simp add: demo_ws_def subscribe_def connect_def ws_init_def listeners_def Let_def)
  then show ?thesis
    using resubscribe_unsubscribe_leaks[OF demo_ws_wf demo_ws_client, of "''R1''"] demo_ws_wf demo_ws_client
    by simp
qed

theorem subscribe_unsubscribe_roundtrip_witness:
  "ws_wf demo_ws \<and> stompClient demo_ws = Some 0 \<and> messageHandlers demo_ws ''R2'' = None \<and>
   relay_subs (unsubscribe (subscribe demo_ws ''R2'') ''R2'') = relay_subs demo_ws"
proof -
  have h: "messageHandlers demo_ws ''R2'' = None"
    by (simp add: demo_ws_def subscribe_def connect_def ws_init_def Let_def)
  show ?thesis
    using subscribe_unsubscribe_roundtrip[OF demo_ws_wf demo_ws_client h] demo_ws_wf demo_ws_client h
    by simp
qed

end
