(* ===== verification/Media.thy ===== *)
theory Media
  imports Prelude
begin

text \<open>
  Local media of \<open>src/src/components/VideoCall.jsx\<close>: the tracks of a captured
  stream, the operations the component applies to them (enable/disable by kind,
  stop), and the classification of a failed \<open>getUserMedia\<close> into the message the
  component shows (\<open>requestMediaPermissions\<close>, lines 68-84). A track is the browser
  object the stream and the peer connection share; it is identified by \<open>track_id\<close>.
\<close>

section \<open>Tracks and streams\<close>

text \<open>
  Track objects are shared: the captured \<open>MediaStream\<close>, the peer connection's
  senders and every closure that captured the stream see the same objects. The
  browser's tracks are therefore a store (\<open>track_store\<close>, every track ever
  captured), and a stream is the list of identifiers of its tracks.
\<close>

datatype track_kind = Audio | Video

record track =
  track_id :: nat
  kind :: track_kind
  enabled :: bool
  live :: bool

type_synonym stream = "nat list"
type_synonym track_store = "track list"

text \<open>
  \<open>localStream.getAudioTracks().forEach(t => t.enabled = !t.enabled)\<close> and its
  video twin (\<open>toggleAudio\<close>, \<open>toggleVideo\<close>): every track of the kind in the stream flips.
\<close>

definition toggle_tracks :: "track_kind \<Rightarrow> stream \<Rightarrow> track_store \<Rightarrow> track_store" where
  "toggle_tracks k st ts =
     map (\<lambda>t. if track_id t \<in> set st \<and> kind t = k then t\<lparr>enabled := \<not> enabled t\<rparr> else t) ts"

text \<open>\<open>stream.getTracks().forEach(track => track.stop())\<close> in \<open>cleanup\<close>.\<close>

definition stop_tracks :: "stream \<Rightarrow> track_store \<Rightarrow> track_store" where
  "stop_tracks st ts = map (\<lambda>t. if track_id t \<in> set st then t\<lparr>live := False\<rparr> else t) ts"

text \<open>A camera or microphone is still capturing.\<close>

definition capturing :: "track_store \<Rightarrow> bool" where
  "capturing ts \<longleftrightarrow> (\<exists>t\<in>set ts. live t)"

section \<open>Errors of media acquisition\<close>

text \<open>A rejected \<open>getUserMedia\<close> or a thrown \<open>Error\<close>: a DOM exception's name and message.\<close>

record js_error =
  err_name :: string
  err_message :: string

text \<open>The error \<open>requestMediaPermissions\<close> throws itself outside a secure context.\<close>

definition https_error :: js_error where
  "https_error = \<lparr>err_name = ''Error'',
                  err_message = ''Video calls require HTTPS in production environment''\<rparr>"

text \<open>The message chosen in the \<open>catch\<close> block of \<open>requestMediaPermissions\<close>.\<close>

definition media_error_message :: "js_error \<Rightarrow> string" where
  "media_error_message e =
     (if err_name e = ''NotAllowedError'' then
        ''Please allow camera and microphone access in your browser settings and click Retry.''
      else if err_name e = ''NotFoundError'' then
        ''No camera or microphone found. Please connect a device and click Retry.''
      else if err_name e = ''NotReadableError'' then
        ''Your camera or microphone is already in use by another application. Please close other applications and click Retry.''
      else if js_includes (err_message e) ''HTTPS'' then
        ''Video calls require a secure HTTPS connection in production. Please ensure you are using HTTPS.''
      else ''Failed to access media devices: '' @ err_message e)"

text \<open>
  The spec's taxonomy of acquisition failures (section 7), and the
  classification the code's \<open>if\<close> chain makes.
\<close>

datatype media_error_kind = PermissionDenied | DeviceNotFound | DeviceBusy | InsecureContext | Unknown

definition media_error_kind :: "js_error \<Rightarrow> media_error_kind" where
  "media_error_kind e =
     (if err_name e = ''NotAllowedError'' then PermissionDenied
      else if err_name e = ''NotFoundError'' then DeviceNotFound
      else if err_name e = ''NotReadableError'' then DeviceBusy
      else if js_includes (err_message e) ''HTTPS'' then InsecureContext
      else Unknown)"

text \<open>Two rejections of \<open>getUserMedia\<close> as browsers report them.\<close>

definition not_allowed_error :: js_error where
  "not_allowed_error = \<lparr>err_name = ''NotAllowedError'', err_message = ''Permission denied''\<rparr>"

definition not_found_error :: js_error where
  "not_found_error = \<lparr>err_name = ''NotFoundError'', err_message = ''Requested device not found''\<rparr>"

section \<open>The page's location\<close>

text \<open>\<open>window.location\<close>: the protocol and host name the secure-context test reads.\<close>

record location =
  protocol :: string
  hostname :: string

definition insecure :: "location \<Rightarrow> bool" where
  "insecure l \<longleftrightarrow> protocol l \<noteq> ''https:'' \<and> hostname l \<noteq> ''localhost''"

section \<open>Lemmas\<close>

lemma toggle_tracks_twice [simp]: "toggle_tracks k st (toggle_tracks k st ts) = ts"
  by (induction ts) (auto simp: toggle_tracks_def)

lemma toggle_tracks_other_kind:
  "k' \<noteq> k \<Longrightarrow> filter (\<lambda>t. kind t = k') (toggle_tracks k st ts) = filter (\<lambda>t. kind t = k') ts"
  by (induction ts) (auto simp: toggle_tracks_def)

lemma toggle_tracks_live [simp]: "map live (toggle_tracks k st ts) = map live ts"
  by (induction ts) (auto simp: toggle_tracks_def)

lemma toggle_tracks_ids [simp]: "map track_id (toggle_tracks k st ts) = map track_id ts"
  by (induction ts) (auto simp: toggle_tracks_def)

lemma stop_tracks_idem [simp]: "stop_tracks st (stop_tracks st ts) = stop_tracks st ts"
  by (induction ts) (auto simp: stop_tracks_def)

lemma stop_tracks_ids [simp]: "map track_id (stop_tracks st ts) = map track_id ts"
  by (induction ts) (auto simp: stop_tracks_def)

lemma stop_tracks_stops: "t \<in> set (stop_tracks st ts) \<Longrightarrow> track_id t \<in> set st \<Longrightarrow> \<not> live t"
  by (auto simp: stop_tracks_def)

lemma stop_tracks_other: "t \<in> set ts \<Longrightarrow> track_id t \<notin> set st \<Longrightarrow> t \<in> set (stop_tracks st ts)"
  by (force simp: stop_tracks_def)

text \<open>
  The error screen tells the failures apart: two acquisition errors of different
  kinds (permission denied, no device, device busy, insecure context, anything
  else) are shown with different messages.
\<close>

theorem media_error_message_distinct:
  "media_error_kind e \<noteq> media_error_kind e' \<Longrightarrow> media_error_message e \<noteq> media_error_message e'"
  by (auto simp: media_error_kind_def media_error_message_def split: if_splits)

theorem media_error_message_distinct_witness:
  "media_error_kind not_allowed_error \<noteq> media_error_kind not_found_error \<and>
   media_error_message not_allowed_error \<noteq> media_error_message not_found_error"
proof -
  have h: "media_error_kind not_allowed_error \<noteq> media_error_kind not_found_error"
    by (simp add: media_error_kind_def not_allowed_error_def not_found_error_def)
  show ?thesis using h media_error_message_distinct[OF h] by blast
qed

end
