(* ===== verification/Peer.thy ===== *)
theory Peer
  imports Prelude
begin

text \<open>
  The browser's \<open>RTCPeerConnection\<close>, which \<open>src/src/components/VideoCall.jsx\<close>
  drives. It is not code of the repository: it is modelled from the WebRTC
  contract the spec's section 6 names (the signaling-state machine of the
  offer/answer exchange), as far as the component's calls reach it. A session
  description is its type and the identifier of the connection that created it;
  an ICE candidate is the identifier of its connection and a serial number.
  Every operation that the browser rejects returns \<open>Inl\<close> with the DOM error.
\<close>

datatype sdp_type = OfferT | AnswerT

record sdesc =
  sdp_type :: sdp_type
  sdp_origin :: nat

type_synonym cand = "nat \<times> nat"

datatype sig_state = Stable | HaveLocalOffer | HaveRemoteOffer | PcClosed

datatype pc_error = InvalidStateError | TypeError

record pc =
  pc_id :: nat
  signaling :: sig_state
  local_desc :: "sdesc option"
  remote_desc :: "sdesc option"
  senders :: "nat list"
  remote_cands :: "cand list"

definition pc_new :: "nat \<Rightarrow> pc" where
  "pc_new i = \<lparr>pc_id = i, signaling = Stable, local_desc = None, remote_desc = None,
               senders = [], remote_cands = []\<rparr>"

definition pc_addTrack :: "pc \<Rightarrow> nat \<Rightarrow> pc_error + pc" where
  "pc_addTrack p t =
     (if signaling p = PcClosed then Inl InvalidStateError
      else Inr (p\<lparr>senders := senders p @ [t]\<rparr>))"

definition pc_createOffer :: "pc \<Rightarrow> pc_error + sdesc" where
  "pc_createOffer p =
     (if signaling p = PcClosed then Inl InvalidStateError
      else Inr \<lparr>sdp_type = OfferT, sdp_origin = pc_id p\<rparr>)"

definition pc_createAnswer :: "pc \<Rightarrow> pc_error + sdesc" where
  "pc_createAnswer p =
     (if signaling p = HaveRemoteOffer then Inr \<lparr>sdp_type = AnswerT, sdp_origin = pc_id p\<rparr>
      else Inl InvalidStateError)"

text \<open>Setting a description moves the signaling state as the WebRTC state diagram says.\<close>

definition pc_setLocalDescription :: "pc \<Rightarrow> sdesc \<Rightarrow> pc_error + pc" where
  "pc_setLocalDescription p d =
     (case (sdp_type d, signaling p) of
        (OfferT, Stable) \<Rightarrow> Inr (p\<lparr>signaling := HaveLocalOffer, local_desc := Some d\<rparr>)
      | (OfferT, HaveLocalOffer) \<Rightarrow> Inr (p\<lparr>local_desc := Some d\<rparr>)
      | (AnswerT, HaveRemoteOffer) \<Rightarrow> Inr (p\<lparr>signaling := Stable, local_desc := Some d\<rparr>)
      | _ \<Rightarrow> Inl InvalidStateError)"

definition pc_setRemoteDescription :: "pc \<Rightarrow> sdesc \<Rightarrow> pc_error + pc" where
  "pc_setRemoteDescription p d =
     (case (sdp_type d, signaling p) of
        (OfferT, Stable) \<Rightarrow> Inr (p\<lparr>signaling := HaveRemoteOffer, remote_desc := Some d\<rparr>)
      | (OfferT, HaveRemoteOffer) \<Rightarrow> Inr (p\<lparr>remote_desc := Some d\<rparr>)
      | (AnswerT, HaveLocalOffer) \<Rightarrow> Inr (p\<lparr>signaling := Stable, remote_desc := Some d\<rparr>)
      | _ \<Rightarrow> Inl InvalidStateError)"

text \<open>A remote candidate needs a remote description to be applied to.\<close>

definition pc_addIceCandidate :: "pc \<Rightarrow> cand \<Rightarrow> pc_error + pc" where
  "pc_addIceCandidate p c =
     (if signaling p = PcClosed \<or> remote_desc p = None then Inl InvalidStateError
      else Inr (p\<lparr>remote_cands := remote_cands p @ [c]\<rparr>))"

definition pc_close :: "pc \<Rightarrow> pc" where
  "pc_close p = p\<lparr>signaling := PcClosed\<rparr>"

text \<open>The offer/answer exchange is complete on this side.\<close>

definition negotiated :: "pc \<Rightarrow> bool" where
  "negotiated p \<longleftrightarrow> signaling p = Stable \<and> local_desc p \<noteq> None \<and> remote_desc p \<noteq> None"

declare pc_new_def [pc_simps] pc_addTrack_def [pc_simps] pc_createOffer_def [pc_simps]
  pc_createAnswer_def [pc_simps] pc_setLocalDescription_def [pc_simps]
  pc_setRemoteDescription_def [pc_simps] pc_addIceCandidate_def [pc_simps] pc_close_def [pc_simps]
  negotiated_def [pc_simps]

section \<open>Lemmas\<close>

text \<open>
  An answer is only accepted by a connection that has an offer of its own
  outstanding, and only a connection that accepted a remote offer can answer.
\<close>

lemma pc_setRemote_answer_needs_offer:
  "sdp_type d = AnswerT \<Longrightarrow> pc_setRemoteDescription p d = Inr p' \<Longrightarrow> signaling p = HaveLocalOffer"
  by (auto simp: pc_setRemoteDescription_def split: sig_state.splits)

lemma pc_createAnswer_needs_remote_offer:
  "pc_createAnswer p = Inr d \<Longrightarrow> signaling p = HaveRemoteOffer"
  by (simp add: pc_createAnswer_def split: if_splits)

lemma pc_close_idem [simp]: "pc_close (pc_close p) = pc_close p"
  by (simp add: pc_close_def)

lemma pc_closed_rejects_remote:
  "signaling p = PcClosed \<Longrightarrow> pc_setRemoteDescription p d = Inl InvalidStateError"
  by (simp add: pc_setRemoteDescription_def split: sdp_type.splits)

lemma pc_addIceCandidate_Inr:
  "pc_addIceCandidate p c = Inr p' \<longleftrightarrow>
     signaling p \<noteq> PcClosed \<and> remote_desc p \<noteq> None \<and> p' = p\<lparr>remote_cands := remote_cands p @ [c]\<rparr>"
  by (auto simp: pc_addIceCandidate_def)

end
