(* ===== verification/VideoCall.thy ===== *)
theory VideoCall
  imports Signaling Media Peer
begin

text \<open>
  The video-call component, \<open>src/src/components/VideoCall.jsx\<close>. Its React state
  (\<open>useState\<close> variables and the \<open>peerConnection\<close> ref) is the record \<open>call\<close>;
  together with the browser's resources (the track store, the supply of peer
  connection identifiers) and the process-wide \<open>WebSocketService\<close> it forms a
  \<open>browser\<close>. Every handler of the component is a function on a browser that
  returns the new browser and the publications it handed to the relay.

  The component's \<open>async\<close> functions stop at \<open>await\<close>; what resumes them is
  recorded in \<open>pending\<close>: \<open>KInitMedia\<close> and \<open>KRetryMedia\<close> wait for
  \<open>getUserMedia\<close> (from \<open>initializeCall\<close> and \<open>retryCall\<close>), \<open>KConnected g st\<close>
  is the \<open>onConnected\<close> callback given to the STOMP client of generation \<open>g\<close>, with
  the stream it captured. The awaits on the peer connection inside \<open>startCall\<close> and
  \<open>handleSignalingMessage\<close> are run to completion in one step.
\<close>

section \<open>State\<close>

datatype cont = KInitMedia | KRetryMedia | KConnected nat "stream option"

record remote_user =
  ru_id :: "string option"
  ru_name :: string
  ru_role :: "string option"

text \<open>A signaling message as the JSON object the code builds and reads.\<close>

record msg =
  mtype :: string
  mfrom :: "string option"
  muserName :: "string option"
  mrole :: "string option"
  msdp :: "sdesc option"
  mcandidate :: "cand option"

type_synonym pub = "room \<times> msg"

record call =
  loc :: location
  roomId :: room
  role :: "string option"
  userId :: "string option"
  userName :: string
  localStream :: "stream option"
  remoteStream :: "stream option"
  error :: "string option"
  isAudioEnabled :: bool
  isVideoEnabled :: bool
  isLoading :: bool
  remoteUser :: "remote_user option"
  peerConnection :: "pc option"
  pending :: "cont list"
  navigated :: "string option"
  mounted :: bool

record browser =
  vc :: call
  ws :: ws_service
  track_store :: track_store
  pc_count :: nat

section \<open>Rendering-time values\<close>

definition js_upper :: "char \<Rightarrow> char" where
  "js_upper c = (if (97::nat) \<le> of_char c \<and> of_char c \<le> (122::nat) then char_of (of_char c - (32::nat)) else c)"

text \<open>
  Line 11: \<open>searchParams.get('userName') || role.charAt(0).toUpperCase() + role.slice(1)\<close>.
  Without a user name and without a role the expression reads a property of null and
  the render throws: \<open>None\<close>.
\<close>

definition userName_of :: "string option \<Rightarrow> string option \<Rightarrow> string option" where
  "userName_of u r =
     (if js_truthy u then u
      else (case r of
              None \<Rightarrow> None
            | Some [] \<Rightarrow> Some []
            | Some (x # xs) \<Rightarrow> Some (js_upper x # xs)))"

text \<open>The first render: the initial values of the \<open>useState\<close> hooks (lines 6-23).\<close>

definition call_init ::
  "location \<Rightarrow> room \<Rightarrow> string option \<Rightarrow> string option \<Rightarrow> string option \<Rightarrow> call option" where
  "call_init l r rl u un =
     (case userName_of un rl of
        None \<Rightarrow> None
      | Some n \<Rightarrow> Some \<lparr>loc = l, roomId = r, role = rl, userId = u, userName = n,
                        localStream = None, remoteStream = None, error = None,
                        isAudioEnabled = True, isVideoEnabled = True, isLoading = True,
                        remoteUser = None, peerConnection = None, pending = [],
                        navigated = None, mounted = True\<rparr>)"

definition browser_init :: "call \<Rightarrow> browser" where
  "browser_init c = \<lparr>vc = c, ws = ws_init, track_store = [], pc_count = 0\<rparr>"

section \<open>Small updates shared by the handlers\<close>

definition set_call :: "browser \<Rightarrow> call \<Rightarrow> browser" where
  "set_call b c = b\<lparr>vc := c\<rparr>"

definition set_pc :: "browser \<Rightarrow> pc \<Rightarrow> browser" where
  "set_pc b p = b\<lparr>vc := (vc b)\<lparr>peerConnection := Some p\<rparr>\<rparr>"

definition set_error :: "browser \<Rightarrow> string \<Rightarrow> browser" where
  "set_error b e = b\<lparr>vc := (vc b)\<lparr>error := Some e\<rparr>\<rparr>"

definition pc_error_message :: "pc_error \<Rightarrow> string" where
  "pc_error_message e = (case e of InvalidStateError \<Rightarrow> ''InvalidStateError'' | TypeError \<Rightarrow> ''TypeError'')"

section \<open>Messages\<close>

definition offer_msg :: "call \<Rightarrow> sdesc \<Rightarrow> msg" where
  "offer_msg c d = \<lparr>mtype = ''offer'', mfrom = userId c, muserName = Some (userName c),
                    mrole = role c, msdp = Some d, mcandidate = None\<rparr>"

definition answer_msg :: "call \<Rightarrow> sdesc \<Rightarrow> msg" where
  "answer_msg c d = \<lparr>mtype = ''answer'', mfrom = userId c, muserName = Some (userName c),
                     mrole = role c, msdp = Some d, mcandidate = None\<rparr>"

definition ice_msg :: "call \<Rightarrow> cand \<Rightarrow> msg" where
  "ice_msg c x = \<lparr>mtype = ''ice-candidate'', mfrom = userId c, muserName = None,
                  mrole = None, msdp = None, mcandidate = Some x\<rparr>"

section \<open>Media acquisition: \<open>requestMediaPermissions\<close> (lines 42-85)\<close>

text \<open>
  Up to its \<open>await\<close>: \<open>setIsLoading(true)\<close>, then the secure-context test, whose
  \<open>throw\<close> lands in the function's own \<open>catch\<close> and returns null; otherwise the
  caller's continuation waits for \<open>getUserMedia\<close>.
\<close>

definition request_media :: "call \<Rightarrow> cont \<Rightarrow> call" where
  "request_media c k =
     (if insecure (loc c)
      then c\<lparr>isLoading := False, error := Some (media_error_message https_error)\<rparr>
      else c\<lparr>isLoading := True, pending := pending c @ [k]\<rparr>)"

text \<open>What \<open>getUserMedia\<close> resolves to: the captured tracks, or a DOM exception.\<close>

datatype media_outcome = Granted "track list" | Rejected js_error

section \<open>\<open>createPeerConnection\<close> and \<open>startCall\<close> (lines 133-190)\<close>

text \<open>\<open>stream.getTracks().forEach(track => pc.addTrack(track, stream))\<close>; a throw stops the loop.\<close>

fun add_tracks :: "pc \<Rightarrow> stream \<Rightarrow> pc_error + pc" where
  "add_tracks p [] = Inr p"
| "add_tracks p (t # ts) = (case pc_addTrack p t of Inl e \<Rightarrow> Inl e | Inr p' \<Rightarrow> add_tracks p' ts)"

text \<open>
  \<open>createPeerConnection\<close>: a new connection in the ref; the one it replaces is not
  closed. Its three callbacks are the handlers \<open>onIceCandidate\<close>, \<open>onTrack\<close> below
  and a logging one.
\<close>

definition createPeerConnection :: "browser \<Rightarrow> browser" where
  "createPeerConnection b =
     b\<lparr>vc := (vc b)\<lparr>peerConnection := Some (pc_new (pc_count b))\<rparr>, pc_count := Suc (pc_count b)\<rparr>"

text \<open>The doctor's half of \<open>startCall\<close>: create the offer, set it locally, publish it.\<close>

definition send_offer :: "browser \<Rightarrow> pc \<Rightarrow> browser \<times> pub list" where
  "send_offer b p =
     (case pc_createOffer p of
        Inl e \<Rightarrow> (set_error b (''Failed to start call: '' @ pc_error_message e), [])
      | Inr d \<Rightarrow>
          (case pc_setLocalDescription p d of
             Inl e \<Rightarrow> (set_error b (''Failed to start call: '' @ pc_error_message e), [])
           | Inr p' \<Rightarrow> (set_pc b p', opt_list (sendMessage (ws b) (roomId (vc b)) (offer_msg (vc b) d)))))"

definition startCall :: "browser \<Rightarrow> stream option \<Rightarrow> browser \<times> pub list" where
  "startCall b st =
     (case st of
        None \<Rightarrow> (b, [])
      | Some s \<Rightarrow>
          (let b1 = createPeerConnection b
           in case add_tracks (pc_new (pc_count b)) s of
                Inl e \<Rightarrow> (set_error b1 (''Failed to start call: '' @ pc_error_message e), [])
              | Inr p \<Rightarrow>
                  (if role (vc b) = Some ''doctor'' then send_offer (set_pc b1 p) p
                   else (set_pc b1 p, []))))"

section \<open>The mount effect and \<open>initializeCall\<close> (lines 87-120)\<close>

definition mount :: "browser \<Rightarrow> browser" where
  "mount b =
     (let c = vc b
      in if roomId c = [] \<or> \<not> js_truthy (role c) \<or> \<not> js_truthy (userId c)
         then set_error b ''Missing required parameters''
         else set_call b (request_media c KInitMedia))"

text \<open>
  The rest of \<open>initializeCall\<close> once the stream is there: the (second) secure-context
  test, then \<open>WebSocketService.connect\<close> with the callback that subscribes to the room
  and starts the call, kept pending under the new client's generation.
\<close>

definition init_after_media :: "browser \<Rightarrow> stream \<Rightarrow> browser" where
  "init_after_media b st =
     (if insecure (loc (vc b))
      then set_error b (''Failed to initialize call: '' @ err_message https_error)
      else (let (w, g) = connect (ws b)
            in b\<lparr>ws := w, vc := (vc b)\<lparr>pending := pending (vc b) @ [KConnected g (Some st)]\<rparr>\<rparr>))"

definition is_media_cont :: "cont \<Rightarrow> bool" where
  "is_media_cont k \<longleftrightarrow> k = KInitMedia \<or> k = KRetryMedia"

text \<open>
  \<open>getUserMedia\<close> settles: the earliest waiting acquisition resumes. On success,
  lines 61-67 (\<open>setLocalStream\<close>, \<open>setIsLoading(false)\<close>) and then the caller:
  \<open>initializeCall\<close> connects, \<open>retryCall\<close> calls \<open>startCall\<close> (line 274). On failure,
  the \<open>catch\<close> of lines 68-84.
\<close>

definition mediaResolved :: "browser \<Rightarrow> media_outcome \<Rightarrow> browser \<times> pub list" where
  "mediaResolved b out =
     (case find is_media_cont (pending (vc b)) of
        None \<Rightarrow> (b, [])
      | Some k \<Rightarrow>
          (let c0 = (vc b)\<lparr>pending := remove1 k (pending (vc b))\<rparr>
           in case out of
                Rejected e \<Rightarrow>
                  (set_call b (c0\<lparr>isLoading := False, error := Some (media_error_message e)\<rparr>), [])
              | Granted ts \<Rightarrow>
                  (let st = map track_id ts;
                       b1 = b\<lparr>track_store := track_store b @ ts,
                              vc := c0\<lparr>localStream := Some st, isLoading := False\<rparr>\<rparr>
                   in if k = KInitMedia then (init_after_media b1 st, [])
                      else startCall b1 (Some st))))"

definition connected_cont :: "nat \<Rightarrow> cont \<Rightarrow> bool" where
  "connected_cont g k = (case k of KConnected g' _ \<Rightarrow> g' = g | _ \<Rightarrow> False)"

text \<open>
  The relay accepted the STOMP client of generation \<open>g\<close>, the current one: its
  \<open>onConnected\<close> callback (lines 104-108) subscribes to the room on the service's
  current client and starts the call with the stream it captured.
\<close>

definition wsConnected :: "browser \<Rightarrow> nat \<Rightarrow> browser \<times> pub list" where
  "wsConnected b g =
     (case find (connected_cont g) (pending (vc b)) of
        Some (KConnected _ st) \<Rightarrow>
          (if stompClient (ws b) = Some g
           then startCall (b\<lparr>vc := (vc b)\<lparr>pending := remove1 (KConnected g st) (pending (vc b))\<rparr>,
                             ws := subscribe (ws b) (roomId (vc b))\<rparr>) st
           else (b, []))
      | _ \<Rightarrow> (b, []))"

section \<open>\<open>handleSignalingMessage\<close> (lines 192-241)\<close>

text \<open>
  The patient's answer to an offer: remote description, answer, local description,
  publication. A missing connection or description is a \<open>TypeError\<close> and a rejected
  step an \<open>InvalidStateError\<close>; both land in the outer \<open>catch\<close> and only log, and
  what the steps before the throw did to the connection stays done.
\<close>

definition on_offer :: "browser \<Rightarrow> msg \<Rightarrow> browser \<times> pub list" where
  "on_offer b m =
     (case (peerConnection (vc b), msdp m) of
        (Some p, Some d) \<Rightarrow>
          (case pc_setRemoteDescription p d of
             Inl _ \<Rightarrow> (b, [])
           | Inr p1 \<Rightarrow>
               (case pc_createAnswer p1 of
                  Inl _ \<Rightarrow> (set_pc b p1, [])
                | Inr a \<Rightarrow>
                    (case pc_setLocalDescription p1 a of
                       Inl _ \<Rightarrow> (set_pc b p1, [])
                     | Inr p2 \<Rightarrow> (set_pc b p2,
                                   opt_list (sendMessage (ws b) (roomId (vc b)) (answer_msg (vc b) a))))))
      | _ \<Rightarrow> (b, []))"

definition on_answer :: "browser \<Rightarrow> msg \<Rightarrow> browser" where
  "on_answer b m =
     (case (peerConnection (vc b), msdp m) of
        (Some p, Some d) \<Rightarrow>
          (case pc_setRemoteDescription p d of Inl _ \<Rightarrow> b | Inr p1 \<Rightarrow> set_pc b p1)
      | _ \<Rightarrow> b)"

text \<open>The inner \<open>try\<close> of lines 228-232 swallows a failed \<open>addIceCandidate\<close>.\<close>

definition on_ice :: "browser \<Rightarrow> msg \<Rightarrow> browser" where
  "on_ice b m =
     (case (peerConnection (vc b), mcandidate m) of
        (Some p, Some x) \<Rightarrow>
          (case pc_addIceCandidate p x of Inl _ \<Rightarrow> b | Inr p1 \<Rightarrow> set_pc b p1)
      | _ \<Rightarrow> b)"

text \<open>Lines 197-203: a message with a (truthy) user name updates the remote user.\<close>

definition note_remote_user :: "browser \<Rightarrow> msg \<Rightarrow> browser" where
  "note_remote_user b m =
     (case muserName m of
        Some n \<Rightarrow> (if n \<noteq> [] then b\<lparr>vc := (vc b)\<lparr>remoteUser :=
                     Some \<lparr>ru_id = mfrom m, ru_name = n, ru_role = mrole m\<rparr>\<rparr>\<rparr> else b)
      | None \<Rightarrow> b)"

definition handleSignalingMessage :: "browser \<Rightarrow> msg \<Rightarrow> browser \<times> pub list" where
  "handleSignalingMessage b m =
     (if mfrom m = userId (vc b) then (b, [])
      else (let b1 = note_remote_user b m
            in if mtype m = ''offer'' then
                 (if role (vc b) = Some ''patient'' then on_offer b1 m else (b1, []))
               else if mtype m = ''answer'' then
                 (if role (vc b) = Some ''doctor'' then (on_answer b1 m, []) else (b1, []))
               else if mtype m = ''ice-candidate'' then (on_ice b1 m, [])
               else (b1, [])))"

section \<open>The peer connection's callbacks (lines 169-189)\<close>

definition onIceCandidate :: "browser \<Rightarrow> cand option \<Rightarrow> pub list" where
  "onIceCandidate b x =
     (case x of None \<Rightarrow> [] | Some c \<Rightarrow> opt_list (sendMessage (ws b) (roomId (vc b)) (ice_msg (vc b) c)))"

definition onTrack :: "browser \<Rightarrow> stream \<Rightarrow> browser" where
  "onTrack b st = b\<lparr>vc := (vc b)\<lparr>remoteStream := Some st\<rparr>\<rparr>"

section \<open>User actions (lines 243-276)\<close>

definition toggleAudio :: "browser \<Rightarrow> browser" where
  "toggleAudio b =
     (case localStream (vc b) of
        None \<Rightarrow> b
      | Some st \<Rightarrow> b\<lparr>track_store := toggle_tracks Audio st (track_store b),
                     vc := (vc b)\<lparr>isAudioEnabled := \<not> isAudioEnabled (vc b)\<rparr>\<rparr>)"

definition toggleVideo :: "browser \<Rightarrow> browser" where
  "toggleVideo b =
     (case localStream (vc b) of
        None \<Rightarrow> b
      | Some st \<Rightarrow> b\<lparr>track_store := toggle_tracks Video st (track_store b),
                     vc := (vc b)\<lparr>isVideoEnabled := \<not> isVideoEnabled (vc b)\<rparr>\<rparr>)"

text \<open>
  \<open>cleanup\<close> (lines 122-131) reads \<open>localStream\<close> from the render that created it:
  the stream is a parameter. The effect's cleanup was created by the first render,
  where \<open>localStream\<close> is null; \<open>endCall\<close>'s by the current render.
\<close>

definition cleanup :: "browser \<Rightarrow> stream option \<Rightarrow> browser" where
  "cleanup b st =
     b\<lparr>track_store := (case st of None \<Rightarrow> track_store b | Some s \<Rightarrow> stop_tracks s (track_store b)),
       vc := (vc b)\<lparr>peerConnection := map_option pc_close (peerConnection (vc b))\<rparr>,
       ws := disconnect (unsubscribe (ws b) (roomId (vc b)))\<rparr>"

text \<open>Unmounting runs the effect's cleanup, with the first render's null stream.\<close>

definition unmount :: "browser \<Rightarrow> browser" where
  "unmount b = (let b1 = cleanup b None in b1\<lparr>vc := (vc b1)\<lparr>mounted := False\<rparr>\<rparr>)"

definition endCall :: "browser \<Rightarrow> browser" where
  "endCall b =
     (let b1 = cleanup b (localStream (vc b));
          dest = (if role (vc b) = Some ''patient'' then ''/patient-dashboard'' else ''/doctor-dashboard'')
      in unmount (b1\<lparr>vc := (vc b1)\<lparr>navigated := Some dest\<rparr>\<rparr>))"

definition retryCall :: "browser \<Rightarrow> browser" where
  "retryCall b = set_call b (request_media ((vc b)\<lparr>error := None\<rparr>) KRetryMedia)"

section \<open>Rendering (lines 278-352)\<close>

text \<open>
  What the component shows: the error screen with its Retry button when \<open>error\<close>
  is truthy, otherwise the call screen with its labels, indicators and buttons.
\<close>

record call_view =
  cv_name :: string
  cv_role :: "string option"
  cv_camera_off :: bool
  cv_mic_off :: bool
  cv_loading :: bool
  cv_remote :: "(string \<times> string option) option"
  cv_audio_button :: string
  cv_video_button :: string

datatype view = ErrorView string | CallView call_view

definition call_screen :: "call \<Rightarrow> call_view" where
  "call_screen c =
     \<lparr>cv_name = userName c, cv_role = role c,
      cv_camera_off = \<not> isVideoEnabled c, cv_mic_off = \<not> isAudioEnabled c,
      cv_loading = isLoading c,
      cv_remote = map_option (\<lambda>u. (ru_name u, ru_role u)) (remoteUser c),
      cv_audio_button = (if isAudioEnabled c then ''Mute'' else ''Unmute''),
      cv_video_button = (if isVideoEnabled c then ''Hide Video'' else ''Show Video'')\<rparr>"

definition render :: "call \<Rightarrow> view" where
  "render c =
     (case error c of
        Some e \<Rightarrow> (if e \<noteq> [] then ErrorView e else CallView (call_screen c))
      | None \<Rightarrow> CallView (call_screen c))"

section \<open>Invariants of the local media\<close>

text \<open>
  The \<open>isAudioEnabled\<close> flag mirrors the tracks: every audio track of the local
  stream is enabled exactly when the flag says so (and likewise for video).
\<close>

definition audio_mirror :: "browser \<Rightarrow> bool" where
  "audio_mirror b \<longleftrightarrow>
     (\<forall>st t. localStream (vc b) = Some st \<longrightarrow> t \<in> set (track_store b) \<longrightarrow>
        track_id t \<in> set st \<longrightarrow> kind t = Audio \<longrightarrow> enabled t = isAudioEnabled (vc b))"

text \<open>The transport part of \<open>cleanup\<close>.\<close>

definition teardown_ws :: "ws_service \<Rightarrow> room \<Rightarrow> ws_service" where
  "teardown_ws w r = disconnect (unsubscribe w r)"

declare request_media_def [call_simps] createPeerConnection_def [call_simps]
  set_call_def [call_simps] set_pc_def [call_simps] set_error_def [call_simps]
  mount_def [call_simps] toggleAudio_def [call_simps] toggleVideo_def [call_simps]
  cleanup_def [call_simps] unmount_def [call_simps] endCall_def [call_simps]
  retryCall_def [call_simps] onTrack_def [call_simps] note_remote_user_def [call_simps]

section \<open>Who a browser is, and what it may publish\<close>

text \<open>
  A browser's identity is fixed by its URL: the room, the role and the user id.
  A publication is in order when it carries the sender's id, and offers come only
  from the doctor's role and answers only from the patient's.
\<close>

definition ident :: "browser \<Rightarrow> room \<times> string option \<times> string option" where
  "ident b = (roomId (vc b), role (vc b), userId (vc b))"

definition pub_ok :: "browser \<Rightarrow> pub \<Rightarrow> bool" where
  "pub_ok b p \<longleftrightarrow> mfrom (snd p) = userId (vc b) \<and>
     (mtype (snd p) = ''offer'' \<longrightarrow> role (vc b) = Some ''doctor'') \<and>
     (mtype (snd p) = ''answer'' \<longrightarrow> role (vc b) = Some ''patient'')"

section \<open>Sample values\<close>

text \<open>
  A doctor's component in room R1 after its first render, and the same component
  in mid-call: local stream of an audio and a video track, an offer set locally on
  its peer connection, the signaling service connected and subscribed.
\<close>

definition demo_loc :: location where
  "demo_loc = \<lparr>protocol = ''https:'', hostname = ''clinic.example''\<rparr>"

definition demo_doctor :: call where
  "demo_doctor = \<lparr>loc = demo_loc, roomId = ''R1'', role = Some ''doctor'', userId = Some ''doc1'',
                  userName = ''drsmith'', localStream = None, remoteStream = None, error = None,
                  isAudioEnabled = True, isVideoEnabled = True, isLoading = True,
                  remoteUser = None, peerConnection = None, pending = [],
                  navigated = None, mounted = True\<rparr>"

definition demo_offer :: sdesc where
  "demo_offer = \<lparr>sdp_type = OfferT, sdp_origin = 0\<rparr>"

definition demo_offer_pc :: pc where
  "demo_offer_pc = (pc_new 0)\<lparr>signaling := HaveLocalOffer, local_desc := Some demo_offer, senders := [1, 2]\<rparr>"

definition demo_in_call :: browser where
  "demo_in_call =
     \<lparr>vc = demo_doctor\<lparr>localStream := Some [1, 2], isLoading := False, peerConnection := Some demo_offer_pc\<rparr>,
      ws = demo_ws,
      track_store = [\<lparr>track_id = 1, kind = Audio, enabled = True, live = True\<rparr>,
                     \<lparr>track_id = 2, kind = Video, enabled = True, live = True\<rparr>],
      pc_count = 1\<rparr>"

definition demo_answer :: msg where
  "demo_answer = \<lparr>mtype = ''answer'', mfrom = Some ''pat1'', muserName = Some ''jane'',
                  mrole = Some ''patient'', msdp = Some \<lparr>sdp_type = AnswerT, sdp_origin = 0\<rparr>,
                  mcandidate = None\<rparr>"

definition demo_candidate :: msg where
  "demo_candidate = \<lparr>mtype = ''ice-candidate'', mfrom = Some ''pat1'', muserName = None,
                     mrole = None, msdp = None, mcandidate = Some (7, 0)\<rparr>"

section \<open>Lemmas\<close>

lemma teardown_ws_idem: "teardown_ws (teardown_ws w r) r = teardown_ws w r"
  by (simp add: teardown_ws_def unsubscribe_def disconnect_def split: option.splits)

lemma cleanup_ws: "ws (cleanup b st) = teardown_ws (ws b) (roomId (vc b))"
  by (simp add: cleanup_def teardown_ws_def)

text \<open>
  C2. Loopback suppression: a signaling message whose \<open>from\<close> is the component's
  own user id changes nothing and publishes nothing, whatever its type.
\<close>

theorem handleSignalingMessage_loopback:
  "mfrom m = userId (vc b) \<Longrightarrow> handleSignalingMessage b m = (b, [])"
  by (simp add: handleSignalingMessage_def)

lemma sendMessage_pub: "p \<in> set (opt_list (sendMessage w r m)) \<Longrightarrow> p = (r, m)"
  by (simp add: sendMessage_def split: option.splits)

lemma on_offer_pubs:
  "p \<in> set (snd (on_offer b m)) \<Longrightarrow> mtype (snd p) = ''answer''"
  by (auto simp: on_offer_def answer_msg_def sendMessage_def
           split: option.splits sum.splits prod.splits)

lemma handleSignalingMessage_pubs:
  assumes "p \<in> set (snd (handleSignalingMessage b m))"
  shows "role (vc b) = Some ''patient'' \<and> mtype (snd p) = ''answer''"
  using assms on_offer_pubs by (auto simp: handleSignalingMessage_def Let_def split: if_splits)

lemma send_offer_pubs:
  "p \<in> set (snd (send_offer b q)) \<Longrightarrow> mtype (snd p) = ''offer''"
  by (auto simp: send_offer_def offer_msg_def sendMessage_def split: option.splits sum.splits)

lemma startCall_pubs:
  assumes "p \<in> set (snd (startCall b st))"
  shows "role (vc b) = Some ''doctor'' \<and> mtype (snd p) = ''offer''"
  using assms send_offer_pubs
  by (auto simp: startCall_def Let_def split: option.splits sum.splits if_splits)

lemma toggleAudio_twice: "toggleAudio (toggleAudio b) = b"
  by (simp add: toggleAudio_def split: option.splits)

lemma toggleAudio_video:
  "isVideoEnabled (vc (toggleAudio b)) = isVideoEnabled (vc b) \<and>
   filter (\<lambda>t. kind t = Video) (track_store (toggleAudio b)) = filter (\<lambda>t. kind t = Video) (track_store b)"
  by (simp add: toggleAudio_def toggle_tracks_other_kind split: option.splits)

lemma toggleAudio_mirror: "audio_mirror b \<Longrightarrow> audio_mirror (toggleAudio b)"
  by (auto simp: audio_mirror_def toggleAudio_def toggle_tracks_def split: option.splits)

text \<open>
  C14. With a local stream whose audio tracks agree with the mute flag, the Mute
  button flips the flag, flips the audio tracks with it (they still agree with the
  flag afterwards), leaves the video flag and every video track as they were, and a
  second click restores the component exactly.
\<close>

theorem toggleAudio_mute:
  assumes "audio_mirror b" "localStream (vc b) = Some st"
  shows "isAudioEnabled (vc (toggleAudio b)) = (\<not> isAudioEnabled (vc b)) \<and> audio_mirror (toggleAudio b) \<and>
         isVideoEnabled (vc (toggleAudio b)) = isVideoEnabled (vc b) \<and>
         filter (\<lambda>t. kind t = Video) (track_store (toggleAudio b)) = filter (\<lambda>t. kind t = Video) (track_store b) \<and>
         toggleAudio (toggleAudio b) = b"
  using assms toggleAudio_mirror[OF assms(1)] toggleAudio_video[of b] toggleAudio_twice[of b]
  by (simp add: toggleAudio_def)

text \<open>
  C12. Unmounting (navigating away without End Call) runs the effect's cleanup, which
  captured the first render's null \<open>localStream\<close>: no track is stopped, so the
  camera and microphone keep capturing.
\<close>

theorem unmount_tracks: "track_store (unmount b) = track_store b"
  by (simp add: unmount_def cleanup_def)

text \<open>
  Ending the call twice gives the same state as ending it once.
\<close>

theorem endCall_idem: "endCall (endCall b) = endCall b"
  by (simp add: endCall_def unmount_def cleanup_def teardown_ws_idem[unfolded teardown_ws_def]
        option.map_comp comp_def split: option.splits)

text \<open>
  C5. The doctor applies an answer only to an offer of its own: when handling an
  answer changes the peer connection, the connection had a local offer outstanding,
  and it is now stable with the answer as its remote description.
\<close>

theorem on_answer_needs_offer:
  assumes "peerConnection (vc b) = Some p" "peerConnection (vc (on_answer b m)) = Some p'" "p' \<noteq> p"
    and "msdp m = Some d" "sdp_type d = AnswerT"
  shows "signaling p = HaveLocalOffer \<and> signaling p' = Stable \<and> remote_desc p' = Some d"
  using assms
  by (auto simp: on_answer_def set_pc_def pc_setRemoteDescription_def split: sum.splits sig_state.splits)

lemma handleSignalingMessage_answer:
  assumes "mfrom m \<noteq> userId (vc b)" "mtype m = ''answer''" "role (vc b) = Some ''doctor''"
  shows "handleSignalingMessage b m = (on_answer (note_remote_user b m) m, [])"
  using assms by (simp add: handleSignalingMessage_def)

lemma note_remote_user_keeps [simp]:
  "peerConnection (vc (note_remote_user b m)) = peerConnection (vc b)"
  "ws (note_remote_user b m) = ws b"
  "track_store (note_remote_user b m) = track_store b"
  "roomId (vc (note_remote_user b m)) = roomId (vc b)"
  "role (vc (note_remote_user b m)) = role (vc b)"
  "userId (vc (note_remote_user b m)) = userId (vc b)"
  by (simp_all add: note_remote_user_def split: option.splits)

text \<open>
  C6. A remote ICE candidate from the other participant is added to the peer
  connection exactly when the connection is open and has a remote description;
  otherwise the failure is swallowed and the connection is unchanged. Nothing is
  published.
\<close>

theorem handleSignalingMessage_ice:
  assumes "mfrom m \<noteq> userId (vc b)" "mtype m = ''ice-candidate''"
    and "peerConnection (vc b) = Some p" "mcandidate m = Some x"
  shows "peerConnection (vc (fst (handleSignalingMessage b m))) =
           Some (if signaling p \<noteq> PcClosed \<and> remote_desc p \<noteq> None
                 then p\<lparr>remote_cands := remote_cands p @ [x]\<rparr> else p)
         \<and> snd (handleSignalingMessage b m) = []"
  using assms
  by (simp add: handleSignalingMessage_def Let_def on_ice_def set_pc_def pc_addIceCandidate_def)

text \<open>
  A rejected camera request resumes the waiting acquisition with the error
  screen: loading stops, the message of the error's kind is shown, nothing is
  published and the transport is untouched.
\<close>

theorem mediaResolved_rejected:
  assumes "find is_media_cont (pending (vc b)) = Some k"
  shows "mediaResolved b (Rejected e) =
           (b\<lparr>vc := (vc b)\<lparr>pending := remove1 k (pending (vc b)), isLoading := False,
                           error := Some (media_error_message e)\<rparr>\<rparr>, [])"
  using assms by (simp add: mediaResolved_def set_call_def)

text \<open>
  Retry after a failed first camera request starts the call without a
  transport: nothing is published (the offer is dropped) and the signaling service
  stays unconnected and unsubscribed.
\<close>

theorem retry_without_transport:
  assumes "pending (vc b) = []" "stompClient (ws b) = None" "\<not> insecure (loc (vc b))"
  shows "snd (mediaResolved (retryCall b) out) = [] \<and> ws (fst (mediaResolved (retryCall b) out)) = ws b"
  using assms
  by (auto simp: mediaResolved_def retryCall_def request_media_def set_call_def is_media_cont_def
       startCall_def send_offer_def sendMessage_def createPeerConnection_def set_pc_def set_error_def Let_def
       split: media_outcome.splits option.splits sum.splits)

text \<open>
  C13. A camera request that resolves after the component has unmounted is not
  discarded: the stream is kept capturing and the signaling service is connected
  anyway.
\<close>

theorem unmounted_media_connects:
  assumes "pending (vc b) = [KInitMedia]" "\<not> insecure (loc (vc b))"
  shows "stompClient (ws (fst (mediaResolved b (Granted ts)))) \<noteq> None \<and>
         track_store (fst (mediaResolved b (Granted ts))) = track_store b @ ts"
  using assms
  by (simp add: mediaResolved_def init_after_media_def is_media_cont_def connect_def Let_def)

text \<open>
  Missing room, role or user id: the effect sets the parameter error and
  starts nothing.
\<close>

theorem mount_missing_params:
  assumes "roomId (vc b) = [] \<or> \<not> js_truthy (role (vc b)) \<or> \<not> js_truthy (userId (vc b))"
  shows "mount b = b\<lparr>vc := (vc b)\<lparr>error := Some ''Missing required parameters''\<rparr>\<rparr>"
  using assms by (auto simp: mount_def set_error_def)

text \<open>
  C25. The first render throws (it reads \<open>role.charAt\<close> of null), so no component
  state exists to show an error, exactly when the URL has no role and its user name
  is absent or empty; every other URL renders, with the user name, or else the
  capitalised role, as the displayed name.
\<close>

theorem call_init_crash:
  "(call_init l r rl u un = None) = (rl = None \<and> \<not> js_truthy un) \<and>
   map_option userName (call_init l r rl u un) =
     (if js_truthy un then un else map_option (\<lambda>s. case s of [] \<Rightarrow> [] | x # xs \<Rightarrow> js_upper x # xs) rl)"
  by (auto simp: call_init_def userName_of_def js_truthy_def split: option.splits list.splits)

text \<open>
  C7. After \<open>endCall\<close> the signaling client is gone, the room has no stored
  subscription, the peer connection (if any) is closed, and the component is
  unmounted.
\<close>

theorem endCall_releases:
  "stompClient (ws (endCall b)) = None \<and> messageHandlers (ws (endCall b)) (roomId (vc b)) = None \<and>
   map_option signaling (peerConnection (vc (endCall b))) =
     map_option (\<lambda>_. PcClosed) (peerConnection (vc b)) \<and> \<not> mounted (vc (endCall b))"
  by (simp add: endCall_def unmount_def cleanup_def disconnect_def unsubscribe_def pc_close_def
         option.map_comp comp_def split: option.splits)

text \<open>
  C8. \<open>endCall\<close> stops every track of the current local stream.
\<close>

theorem endCall_stops_local:
  assumes "localStream (vc b) = Some st" "t \<in> set (track_store (endCall b))" "track_id t \<in> set st"
  shows "\<not> live t"
  using assms by (auto simp: endCall_def unmount_def cleanup_def stop_tracks_def)

section \<open>Frame and publication lemmas\<close>
lemma ident_simps [simp]:
  "ident (set_pc b p) = ident b" "ident (set_error b e) = ident b"
  "ident (createPeerConnection b) = ident b" "ident (note_remote_user b m) = ident b"
  "ident (b\<lparr>ws := w\<rparr>) = ident b" "ident (b\<lparr>track_store := ts\<rparr>) = ident b"
  by (simp_all add: ident_def call_simps split: option.splits)

lemma ident_send_offer: "ident (fst (send_offer b p)) = ident b"
  by (simp add: send_offer_def split: sum.splits)

lemma ident_startCall: "ident (fst (startCall b st)) = ident b"
  by (simp add: startCall_def ident_send_offer Let_def split: option.splits sum.splits)

lemma ident_mediaResolved: "ident (fst (mediaResolved b out)) = ident b"
  by (auto simp: mediaResolved_def init_after_media_def ident_def set_call_def set_error_def Let_def
       ident_startCall[of _ "Some _", unfolded ident_def, simplified]
       split: option.splits media_outcome.splits prod.splits)

lemma ident_wsConnected: "ident (fst (wsConnected b g)) = ident b"
proof -
  have "ident (fst (startCall b' st)) = ident b" if "ident b' = ident b" for b' st
    using that by (simp add: ident_startCall)
  then show ?thesis
    by (auto simp: wsConnected_def ident_def split: option.splits cont.splits)
qed

lemma ident_handleSignalingMessage: "ident (fst (handleSignalingMessage b m)) = ident b"
  by (auto simp: handleSignalingMessage_def on_offer_def on_answer_def on_ice_def Let_def
       split: option.splits sum.splits prod.splits)

lemma ident_user_actions [simp]:
  "ident (mount b) = ident b" "ident (toggleAudio b) = ident b" "ident (toggleVideo b) = ident b"
  "ident (endCall b) = ident b" "ident (retryCall b) = ident b" "ident (unmount b) = ident b"
  "ident (onTrack b st) = ident b"
  by (simp_all add: ident_def call_simps Let_def split: option.splits)

lemma pub_ok_startCall: "p \<in> set (snd (startCall b st)) \<Longrightarrow> pub_ok b p"
  by (auto simp: pub_ok_def startCall_def send_offer_def offer_msg_def sendMessage_def Let_def call_simps
       split: option.splits sum.splits if_splits)

lemma pub_ok_handleSignalingMessage: "p \<in> set (snd (handleSignalingMessage b m)) \<Longrightarrow> pub_ok b p"
  by (auto simp: pub_ok_def handleSignalingMessage_def on_offer_def answer_msg_def sendMessage_def Let_def
       split: option.splits sum.splits prod.splits if_splits)

lemma pub_ok_cong: "ident b' = ident b \<Longrightarrow> pub_ok b' p = pub_ok b p"
  by (simp add: pub_ok_def ident_def)

lemma pub_ok_mediaResolved: "p \<in> set (snd (mediaResolved b out)) \<Longrightarrow> pub_ok b p"
proof -
  have "pub_ok b p" if "p \<in> set (snd (startCall b' st))" "ident b' = ident b" for b' st
    using pub_ok_startCall[OF that(1)] pub_ok_cong[OF that(2)] by simp
  then show "p \<in> set (snd (mediaResolved b out)) \<Longrightarrow> pub_ok b p"
    by (auto simp: mediaResolved_def ident_def Let_def split: option.splits media_outcome.splits if_splits)
qed

lemma pub_ok_wsConnected: "p \<in> set (snd (wsConnected b g)) \<Longrightarrow> pub_ok b p"
proof -
  have "pub_ok b p" if "p \<in> set (snd (startCall b' st))" "ident b' = ident b" for b' st
    using pub_ok_startCall[OF that(1)] pub_ok_cong[OF that(2)] by simp
  then show "p \<in> set (snd (wsConnected b g)) \<Longrightarrow> pub_ok b p"
    by (auto simp: wsConnected_def ident_def split: option.splits cont.splits if_splits)
qed

lemma pub_ok_onIceCandidate: "p \<in> set (onIceCandidate b x) \<Longrightarrow> pub_ok b p"
  by (auto simp: pub_ok_def onIceCandidate_def ice_msg_def sendMessage_def split: option.splits)

lemma note_remote_user_core [simp]:
  "pending (vc (note_remote_user b m)) = pending (vc b)"
  "error (vc (note_remote_user b m)) = error (vc b)"
  by (simp_all add: note_remote_user_def split: option.splits)

section \<open>Witnesses\<close>

lemma demo_in_call_simps [simp]:
  "userId (vc demo_in_call) = Some ''doc1''" "role (vc demo_in_call) = Some ''doctor''"
  "peerConnection (vc demo_in_call) = Some demo_offer_pc" "localStream (vc demo_in_call) = Some [1, 2]"
  by (simp_all add: demo_in_call_def demo_doctor_def)

theorem handleSignalingMessage_loopback_witness:
  "mfrom (ice_msg (vc demo_in_call) (0, 0)) = userId (vc demo_in_call) \<and>
   handleSignalingMessage demo_in_call (ice_msg (vc demo_in_call) (0, 0)) = (demo_in_call, [])"
proof -
  have h: "mfrom (ice_msg (vc demo_in_call) (0, 0)) = userId (vc demo_in_call)"
    by (simp add: ice_msg_def)
  show ?thesis using h handleSignalingMessage_loopback[OF h] by simp
qed

theorem on_answer_needs_offer_witness:
  "peerConnection (vc (on_answer demo_in_call demo_answer)) =
     Some (demo_offer_pc\<lparr>signaling := Stable, remote_desc := Some \<lparr>sdp_type = AnswerT, sdp_origin = 0\<rparr>\<rparr>) \<and>
   signaling demo_offer_pc = HaveLocalOffer"
proof -
  let ?p' = "demo_offer_pc\<lparr>signaling := Stable, remote_desc := Some \<lparr>sdp_type = AnswerT, sdp_origin = 0\<rparr>\<rparr>"
  have h1: "peerConnection (vc (on_answer demo_in_call demo_answer)) = Some ?p'"
    by (simp add: on_answer_def demo_answer_def demo_offer_pc_def pc_setRemoteDescription_def
                  pc_new_def set_pc_def)
  have h2: "?p' \<noteq> demo_offer_pc" by (simp add: demo_offer_pc_def pc_new_def)
  have h3: "msdp demo_answer = Some \<lparr>sdp_type = AnswerT, sdp_origin = 0\<rparr>" by (simp add: demo_answer_def)
  show ?thesis
    using h1 on_answer_needs_offer[OF demo_in_call_simps(3) h1 h2 h3] by simp
qed

theorem handleSignalingMessage_ice_witness:
  "snd (handleSignalingMessage demo_in_call demo_candidate) = [] \<and>
   peerConnection (vc (fst (handleSignalingMessage demo_in_call demo_candidate))) = Some demo_offer_pc"
proof -
  have h1: "mfrom demo_candidate \<noteq> userId (vc demo_in_call)" by (simp add: demo_candidate_def)
  have h2: "mtype demo_candidate = ''ice-candidate''" by (simp add: demo_candidate_def)
  have h3: "mcandidate demo_candidate = Some (7, 0)" by (simp add: demo_candidate_def)
  have h4: "remote_desc demo_offer_pc = None" by (simp add: demo_offer_pc_def pc_new_def)
  show ?thesis using handleSignalingMessage_ice[OF h1 h2 demo_in_call_simps(3) h3] h4 by simp
qed

theorem endCall_stops_local_witness:
  "\<lparr>track_id = 1, kind = Audio, enabled = True, live = False\<rparr> \<in> set (track_store (endCall demo_in_call)) \<and>
   \<not> live \<lparr>track_id = 1, kind = Audio, enabled = True, live = False\<rparr>"
proof -
  have h: "\<lparr>track_id = 1, kind = Audio, enabled = True, live = False\<rparr> \<in> set (track_store (endCall demo_in_call))"
    by (simp add: endCall_def unmount_def cleanup_def stop_tracks_def demo_in_call_def demo_doctor_def)
  show ?thesis using h endCall_stops_local[OF demo_in_call_simps(4) h] by simp
qed

theorem toggleAudio_mute_witness:
  "audio_mirror demo_in_call \<and> \<not> isAudioEnabled (vc (toggleAudio demo_in_call)) \<and>
   audio_mirror (toggleAudio demo_in_call)"
proof -
  have h: "audio_mirror demo_in_call"
    by (simp add: audio_mirror_def demo_in_call_def demo_doctor_def)
  have s: "localStream (vc demo_in_call) = Some [1, 2]" by (simp add: demo_in_call_def demo_doctor_def)
  have "isAudioEnabled (vc demo_in_call)" by (simp add: demo_in_call_def demo_doctor_def)
  then show ?thesis using h toggleAudio_mute[OF h s] by simp
qed

theorem mediaResolved_rejected_witness:
  "find is_media_cont (pending (vc (mount (browser_init demo_doctor)))) = Some KInitMedia \<and>
   error (vc (fst (mediaResolved (mount (browser_init demo_doctor)) (Rejected not_allowed_error)))) =
     Some ''Please allow camera and microphone access in your browser settings and click Retry.''"
proof -
  have h: "find is_media_cont (pending (vc (mount (browser_init demo_doctor)))) = Some KInitMedia"
    by (simp add: mount_def browser_init_def demo_doctor_def demo_loc_def js_truthy_def insecure_def
                  set_call_def request_media_def is_media_cont_def)
  show ?thesis
    using h mediaResolved_rejected[OF h, of not_allowed_error]
    by (simp add: media_error_message_def not_allowed_error_def)
qed

theorem unmounted_media_connects_witness:
  "pending (vc (unmount (mount (browser_init demo_doctor)))) = [KInitMedia] \<and>
   \<not> insecure (loc (vc (unmount (mount (browser_init demo_doctor))))) \<and>
   stompClient (ws (fst (mediaResolved (unmount (mount (browser_init demo_doctor)))
                           (Granted [\<lparr>track_id = 1, kind = Video, enabled = True, live = True\<rparr>])))) \<noteq> None"
proof -
  have h1: "pending (vc (unmount (mount (browser_init demo_doctor)))) = [KInitMedia]"
    and h2: "\<not> insecure (loc (vc (unmount (mount (browser_init demo_doctor)))))"
    by (simp_all add: unmount_def cleanup_def mount_def browser_init_def demo_doctor_def demo_loc_def
                      js_truthy_def insecure_def set_call_def request_media_def)
  show ?thesis using h1 h2 unmounted_media_connects[OF h1 h2] by simp
qed

theorem retry_without_transport_witness:
  "pending (vc (fst (mediaResolved (mount (browser_init demo_doctor)) (Rejected not_allowed_error)))) = [] \<and>
   snd (mediaResolved (retryCall (fst (mediaResolved (mount (browser_init demo_doctor)) (Rejected not_allowed_error))))
          (Granted [\<lparr>track_id = 1, kind = Video, enabled = True, live = True\<rparr>])) = []"
proof -
  let ?b = "fst (mediaResolved (mount (browser_init demo_doctor)) (Rejected not_allowed_error))"
  have h1: "pending (vc ?b) = []" and h2: "stompClient (ws ?b) = None" and h3: "\<not> insecure (loc (vc ?b))"
    by (simp_all add: mediaResolved_def mount_def browser_init_def demo_doctor_def demo_loc_def ws_init_def
                      js_truthy_def insecure_def set_call_def request_media_def is_media_cont_def)
  show ?thesis using h1 retry_without_transport[OF h1 h2 h3] by simp
qed

theorem mount_missing_params_witness:
  "\<not> js_truthy (userId (vc (browser_init (demo_doctor\<lparr>userId := None\<rparr>)))) \<and>
   error (vc (mount (browser_init (demo_doctor\<lparr>userId := None\<rparr>)))) = Some ''Missing required parameters''"
proof -
  have h: "\<not> js_truthy (userId (vc (browser_init (demo_doctor\<lparr>userId := None\<rparr>))))"
    by (simp add: browser_init_def js_truthy_def)
  show ?thesis using h mount_missing_params[of "browser_init (demo_doctor\<lparr>userId := None\<rparr>)"] by simp
qed

end
