(* ===== verification/System.thy ===== *)
theory System
  imports VideoCall
begin

text \<open>
  A consultation: the doctor's browser and the patient's browser, each running the
  video-call component over its own \<open>WebSocketService\<close>, and the relay between
  them. The relay delivers a publication on a room to every live subscription of the
  room, the sender's own included, in order (the spec assumes FIFO per room); what
  a browser has been delivered and not yet handled waits in its inbox. A
  consultation moves by events: the user's actions, the browser's and the relay's
  completions, and the handling of the next delivered message.
\<close>

datatype side = Doc | Pat

record sys =
  doc :: browser
  pat :: browser
  doc_inbox :: "msg list"
  pat_inbox :: "msg list"

definition browser_at :: "sys \<Rightarrow> side \<Rightarrow> browser" where
  "browser_at s x = (case x of Doc \<Rightarrow> doc s | Pat \<Rightarrow> pat s)"

definition inbox_at :: "sys \<Rightarrow> side \<Rightarrow> msg list" where
  "inbox_at s x = (case x of Doc \<Rightarrow> doc_inbox s | Pat \<Rightarrow> pat_inbox s)"

definition put_browser :: "sys \<Rightarrow> side \<Rightarrow> browser \<Rightarrow> sys" where
  "put_browser s x b = (case x of Doc \<Rightarrow> s\<lparr>doc := b\<rparr> | Pat \<Rightarrow> s\<lparr>pat := b\<rparr>)"

definition put_inbox :: "sys \<Rightarrow> side \<Rightarrow> msg list \<Rightarrow> sys" where
  "put_inbox s x ms = (case x of Doc \<Rightarrow> s\<lparr>doc_inbox := ms\<rparr> | Pat \<Rightarrow> s\<lparr>pat_inbox := ms\<rparr>)"

text \<open>One publication reaches each browser once per live subscription of its room.\<close>

definition publish :: "sys \<Rightarrow> pub \<Rightarrow> sys" where
  "publish s p =
     (case p of (r, m) \<Rightarrow>
        s\<lparr>doc_inbox := doc_inbox s @ replicate (listeners (ws (doc s)) r) m,
          pat_inbox := pat_inbox s @ replicate (listeners (ws (pat s)) r) m\<rparr>)"

definition publish_all :: "sys \<Rightarrow> pub list \<Rightarrow> sys" where
  "publish_all s ps = foldl publish s ps"

text \<open>An event and the browser it happens in.\<close>

datatype event =
    Mount side
  | Media side media_outcome
  | WsUp side nat
  | Deliver side
  | Ice side "cand option"
  | Track side stream
  | ToggleA side
  | ToggleV side
  | End side
  | Retry side
  | Unmount side

text \<open>
  A handler's result: its new browser, then its publications go to the relay.
  ICE candidates are discovered, and remote tracks arrive, only for a connection
  with a local (respectively remote) description: the browser's guards on these
  events.
\<close>

definition apply_handler :: "sys \<Rightarrow> side \<Rightarrow> browser \<times> pub list \<Rightarrow> sys" where
  "apply_handler s x r = publish_all (put_browser s x (fst r)) (snd r)"

definition has_local :: "browser \<Rightarrow> bool" where
  "has_local b = (case peerConnection (vc b) of None \<Rightarrow> False | Some p \<Rightarrow> local_desc p \<noteq> None)"

definition has_remote :: "browser \<Rightarrow> bool" where
  "has_remote b = (case peerConnection (vc b) of None \<Rightarrow> False | Some p \<Rightarrow> remote_desc p \<noteq> None)"

fun sys_step :: "sys \<Rightarrow> event \<Rightarrow> sys" where
  "sys_step s (Mount x) = put_browser s x (mount (browser_at s x))"
| "sys_step s (Media x out) = apply_handler s x (mediaResolved (browser_at s x) out)"
| "sys_step s (WsUp x g) = apply_handler s x (wsConnected (browser_at s x) g)"
| "sys_step s (Deliver x) =
     (case inbox_at s x of
        [] \<Rightarrow> s
      | m # ms \<Rightarrow> apply_handler (put_inbox s x ms) x (handleSignalingMessage (browser_at s x) m))"
| "sys_step s (Ice x c) =
     (if has_local (browser_at s x) then publish_all s (onIceCandidate (browser_at s x) c) else s)"
| "sys_step s (Track x st) =
     (if has_remote (browser_at s x) then put_browser s x (onTrack (browser_at s x) st) else s)"
| "sys_step s (ToggleA x) = put_browser s x (toggleAudio (browser_at s x))"
| "sys_step s (ToggleV x) = put_browser s x (toggleVideo (browser_at s x))"
| "sys_step s (End x) = put_browser s x (endCall (browser_at s x))"
| "sys_step s (Retry x) = put_browser s x (retryCall (browser_at s x))"
| "sys_step s (Unmount x) = put_browser s x (unmount (browser_at s x))"

fun run :: "sys \<Rightarrow> event list \<Rightarrow> sys" where
  "run s [] = s"
| "run s (e # es) = run (sys_step s e) es"

definition sys_init :: "call \<Rightarrow> call \<Rightarrow> sys" where
  "sys_init dc pcl = \<lparr>doc = browser_init dc, pat = browser_init pcl, doc_inbox = [], pat_inbox = []\<rparr>"

text \<open>The states a consultation can reach from its first render.\<close>

inductive reachable :: "call \<Rightarrow> call \<Rightarrow> sys \<Rightarrow> bool" for dc pcl where
  init: "reachable dc pcl (sys_init dc pcl)"
| step: "reachable dc pcl s \<Longrightarrow> reachable dc pcl (sys_step s e)"

text \<open>The call is up: both connections completed the offer/answer exchange.\<close>

definition call_connected :: "sys \<Rightarrow> bool" where
  "call_connected s \<longleftrightarrow>
     (case (peerConnection (vc (doc s)), peerConnection (vc (pat s))) of
        (Some p, Some q) \<Rightarrow> negotiated p \<and> negotiated q
      | _ \<Rightarrow> False)"

section \<open>A consultation in room R1\<close>

definition secure_loc :: location where
  "secure_loc = \<lparr>protocol = ''https:'', hostname = ''clinic.example''\<rparr>"

definition doc_call :: call where
  "doc_call = the (call_init secure_loc ''R1'' (Some ''doctor'') (Some ''doc1'') (Some ''drsmith''))"

definition pat_call :: call where
  "pat_call = the (call_init secure_loc ''R1'' (Some ''patient'') (Some ''pat1'') (Some ''jane''))"

definition doc_tracks :: "track list" where
  "doc_tracks = [\<lparr>track_id = 1, kind = Audio, enabled = True, live = True\<rparr>,
                 \<lparr>track_id = 2, kind = Video, enabled = True, live = True\<rparr>]"

definition pat_tracks :: "track list" where
  "pat_tracks = [\<lparr>track_id = 11, kind = Audio, enabled = True, live = True\<rparr>,
                 \<lparr>track_id = 12, kind = Video, enabled = True, live = True\<rparr>]"

definition permission_denied :: js_error where
  "permission_denied = \<lparr>err_name = ''NotAllowedError'', err_message = ''Permission denied''\<rparr>"

text \<open>Patient first: the patient is in the room when the doctor's offer goes out.\<close>

definition patient_first :: "event list" where
  "patient_first = [Mount Pat, Media Pat (Granted pat_tracks), WsUp Pat 0,
                    Mount Doc, Media Doc (Granted doc_tracks), WsUp Doc 0,
                    Deliver Pat, Deliver Doc, Deliver Doc, Deliver Pat]"

text \<open>
  The doctor denies the camera at first, then grants it and presses Retry; the
  patient is in the room throughout.
\<close>

definition doctor_retry :: "event list" where
  "doctor_retry = [Mount Pat, Media Pat (Granted pat_tracks), WsUp Pat 0,
                   Mount Doc, Media Doc (Rejected permission_denied),
                   Retry Doc, Media Doc (Granted doc_tracks)]"

section \<open>Invariants and the deadlock predicate\<close>

definition msg_from_role :: "call \<Rightarrow> call \<Rightarrow> msg \<Rightarrow> bool" where
  "msg_from_role dc pcl m \<longleftrightarrow>
     (mtype m = ''offer'' \<longrightarrow>
        (mfrom m = userId dc \<and> role dc = Some ''doctor'') \<or> (mfrom m = userId pcl \<and> role pcl = Some ''doctor'')) \<and>
     (mtype m = ''answer'' \<longrightarrow>
        (mfrom m = userId dc \<and> role dc = Some ''patient'') \<or> (mfrom m = userId pcl \<and> role pcl = Some ''patient''))"

definition home :: "call \<Rightarrow> call \<Rightarrow> side \<Rightarrow> call" where
  "home dc pcl x = (case x of Doc \<Rightarrow> dc | Pat \<Rightarrow> pcl)"

definition sys_inv :: "call \<Rightarrow> call \<Rightarrow> sys \<Rightarrow> bool" where
  "sys_inv dc pcl s \<longleftrightarrow>
     (\<forall>x. ident (browser_at s x) = ident (browser_init (home dc pcl x)) \<and>
          (\<forall>m\<in>set (inbox_at s x). msg_from_role dc pcl m))"

definition network_event :: "event \<Rightarrow> bool" where
  "network_event e =
     (case e of Deliver _ \<Rightarrow> True | Ice _ _ \<Rightarrow> True | Track _ _ \<Rightarrow> True | WsUp _ _ \<Rightarrow> True
              | Media _ _ \<Rightarrow> True | ToggleA _ \<Rightarrow> True | ToggleV _ \<Rightarrow> True | _ \<Rightarrow> False)"

definition quiet :: "browser \<Rightarrow> bool" where
  "quiet b \<longleftrightarrow> pending (vc b) = [] \<and> error (vc b) = None \<and>
     (case peerConnection (vc b) of None \<Rightarrow> False | Some p \<Rightarrow> remote_desc p = None)"

definition stuck :: "sys \<Rightarrow> bool" where
  "stuck s \<longleftrightarrow> quiet (doc s) \<and> quiet (pat s) \<and> \<not> has_local (pat s) \<and>
     list_all (\<lambda>m. mtype m = ''ice-candidate'') (doc_inbox s @ pat_inbox s)"

definition same_core :: "browser \<Rightarrow> browser \<Rightarrow> bool" where
  "same_core b' b \<longleftrightarrow> pending (vc b') = pending (vc b) \<and> error (vc b') = error (vc b) \<and>
     peerConnection (vc b') = peerConnection (vc b)"

definition doctor_first :: "event list" where
  "doctor_first = [Mount Doc, Media Doc (Granted doc_tracks), WsUp Doc 0, Deliver Doc,
                   Mount Pat, Media Pat (Granted pat_tracks), WsUp Pat 0]"

section \<open>Lemmas\<close>

lemma browser_at_put_browser [simp]:
  "browser_at (put_browser s x b) y = (if y = x then b else browser_at s y)"
  by (cases x; cases y) (simp_all add: browser_at_def put_browser_def)

lemma inbox_at_put_browser [simp]: "inbox_at (put_browser s x b) y = inbox_at s y"
  by (cases x; cases y) (simp_all add: inbox_at_def put_browser_def)

lemma browser_at_put_inbox [simp]: "browser_at (put_inbox s x ms) y = browser_at s y"
  by (cases x; cases y) (simp_all add: browser_at_def put_inbox_def)

lemma inbox_at_put_inbox [simp]:
  "inbox_at (put_inbox s x ms) y = (if y = x then ms else inbox_at s y)"
  by (cases x; cases y) (simp_all add: inbox_at_def put_inbox_def)

lemma browser_at_publish [simp]: "browser_at (publish s p) y = browser_at s y"
  by (cases y) (simp_all add: browser_at_def publish_def split: prod.splits)

lemma inbox_at_publish: "set (inbox_at (publish s p) y) \<subseteq> set (inbox_at s y) \<union> {snd p}"
  by (cases y) (auto simp: inbox_at_def publish_def split: prod.splits)

lemma browser_at_publish_all [simp]: "browser_at (publish_all s ps) y = browser_at s y"
  by (induction ps arbitrary: s) (simp_all add: publish_all_def)

lemma inbox_at_publish_all:
  "set (inbox_at (publish_all s ps) y) \<subseteq> set (inbox_at s y) \<union> snd ` set ps"

proof (induction ps arbitrary: s)
  case Nil
  then show ?case by (simp add: publish_all_def)

next
  case (Cons p ps)
  have "set (inbox_at (publish_all (publish s p) ps) y) \<subseteq> set (inbox_at (publish s p) y) \<union> snd ` set ps"
    by (rule Cons.IH)
  with inbox_at_publish[of s p y] show ?case by (auto simp: publish_all_def)

qed

lemma doc_pat_browser_at: "doc s = browser_at s Doc" "pat s = browser_at s Pat"
  by (simp_all add: browser_at_def)

lemma pub_ok_msg_from_role:
  "pub_ok b p \<Longrightarrow> ident b = ident (browser_init (home dc pcl x)) \<Longrightarrow> msg_from_role dc pcl (snd p)"
  by (cases x) (simp_all add: pub_ok_def ident_def browser_init_def home_def msg_from_role_def)

lemma sys_inv_apply_handler:
  assumes inv: "sys_inv dc pcl s" and id: "ident b' = ident (browser_at s x)"
    and ok: "\<And>p. p \<in> set ps \<Longrightarrow> pub_ok (browser_at s x) p"
  shows "sys_inv dc pcl (apply_handler s x (b', ps))"
  unfolding sys_inv_def

proof
  fix y
  have idx: "ident (browser_at s x) = ident (browser_init (home dc pcl x))"
    using inv by (simp add: sys_inv_def)
  have new: "msg_from_role dc pcl m" if "m \<in> snd ` set ps" for m
    using that ok idx pub_ok_msg_from_role by blast
  have old: "\<forall>m\<in>set (inbox_at s y). msg_from_role dc pcl m"
    using inv by (simp add: sys_inv_def)
  have "set (inbox_at (apply_handler s x (b', ps)) y) \<subseteq> set (inbox_at s y) \<union> snd ` set ps"
    using inbox_at_publish_all[of "put_browser s x b'" ps y] by (simp add: apply_handler_def)
  with old new have "\<forall>m\<in>set (inbox_at (apply_handler s x (b', ps)) y). msg_from_role dc pcl m"
    by blast
  moreover have "ident (browser_at (apply_handler s x (b', ps)) y) = ident (browser_init (home dc pcl y))"
    using inv id by (simp add: apply_handler_def sys_inv_def)
  ultimately show "ident (browser_at (apply_handler s x (b', ps)) y) = ident (browser_init (home dc pcl y)) \<and>
        (\<forall>m\<in>set (inbox_at (apply_handler s x (b', ps)) y). msg_from_role dc pcl m)"
    by blast

qed

lemma sys_inv_handler:
  assumes "sys_inv dc pcl s" "ident (fst r) = ident (browser_at s x)"
    "\<And>p. p \<in> set (snd r) \<Longrightarrow> pub_ok (browser_at s x) p"
  shows "sys_inv dc pcl (apply_handler s x r)"
  using sys_inv_apply_handler[OF assms(1), of "fst r" x "snd r"] assms(2,3) by simp

lemma sys_inv_put_browser:
  "sys_inv dc pcl s \<Longrightarrow> ident b' = ident (browser_at s x) \<Longrightarrow> sys_inv dc pcl (put_browser s x b')"
  using sys_inv_apply_handler[of dc pcl s b' x "[]"] by (simp add: apply_handler_def publish_all_def)

lemma sys_inv_put_inbox:
  "sys_inv dc pcl s \<Longrightarrow> inbox_at s x = m # ms \<Longrightarrow> sys_inv dc pcl (put_inbox s x ms)"
  unfolding sys_inv_def by (metis browser_at_put_inbox inbox_at_put_inbox list.set_intros(2))

lemma sys_inv_init: "sys_inv dc pcl (sys_init dc pcl)"
  by (auto simp: sys_inv_def sys_init_def browser_at_def inbox_at_def home_def split: side.splits)

lemma sys_inv_step:
  assumes inv: "sys_inv dc pcl s"
  shows "sys_inv dc pcl (sys_step s e)"

proof (cases e)
  case (Mount x)
  with inv show ?thesis by (simp add: sys_inv_put_browser)

next
  case (Media x out)
  with inv show ?thesis
    by (simp add: sys_inv_handler pub_ok_mediaResolved ident_mediaResolved)

next
  case (WsUp x g)
  with inv show ?thesis
    by (simp add: sys_inv_handler pub_ok_wsConnected ident_wsConnected)

next
  case (Deliver x)
  show ?thesis
  proof (cases "inbox_at s x")
    case Nil
    with Deliver inv show ?thesis by simp
  next
    case (Cons m ms)
    let ?s' = "put_inbox s x ms"
    have inv': "sys_inv dc pcl ?s'" using inv Cons by (rule sys_inv_put_inbox)
    have "sys_inv dc pcl (apply_handler ?s' x (handleSignalingMessage (browser_at s x) m))"
      using inv' by (simp add: sys_inv_handler ident_handleSignalingMessage pub_ok_handleSignalingMessage)
    with Deliver Cons show ?thesis by simp
  qed

next
  case (Ice x c)
  with inv show ?thesis
    using sys_inv_apply_handler[OF inv, of "browser_at s x" x "onIceCandidate (browser_at s x) c"]
      pub_ok_onIceCandidate
    by (simp add: apply_handler_def put_browser_def browser_at_def split: side.splits)

qed (use inv in \<open>simp_all add: sys_inv_put_browser\<close>)

lemma reachable_sys_inv: "reachable dc pcl s \<Longrightarrow> sys_inv dc pcl s"
  by (induction rule: reachable.induct) (simp_all add: sys_inv_init sys_inv_step)

lemma reachable_run: "reachable dc pcl s \<Longrightarrow> reachable dc pcl (run s es)"

proof (induction es arbitrary: s)
  case Nil
  then show ?case by simp

next
  case (Cons e es)
  then show ?case by (simp add: reachable.step)

qed

lemma stuck_at:
  "stuck s \<longleftrightarrow> (\<forall>x. quiet (browser_at s x) \<and> (\<forall>m\<in>set (inbox_at s x). mtype m = ''ice-candidate'')) \<and>
                 \<not> has_local (browser_at s Pat)"
  by (auto simp: stuck_def browser_at_def inbox_at_def list_all_iff split: side.splits)

lemma stuck_handler:
  assumes st: "stuck s" and core: "same_core (fst r) (browser_at s x)"
    and ice: "\<And>p. p \<in> set (snd r) \<Longrightarrow> mtype (snd p) = ''ice-candidate''"
  shows "stuck (apply_handler s x r)"
  unfolding stuck_at

proof (intro conjI allI)
  fix y
  have q: "quiet (browser_at s x)" and q': "quiet (browser_at s y)"
    using st by (simp_all add: stuck_at)
  have "quiet (fst r)" using q core by (simp add: quiet_def same_core_def)
  with q' show "quiet (browser_at (apply_handler s x r) y)"
    by (simp add: apply_handler_def)
  have old: "\<forall>m\<in>set (inbox_at s y). mtype m = ''ice-candidate''"
    using st by (simp add: stuck_at)
  have "set (inbox_at (apply_handler s x r) y) \<subseteq> set (inbox_at s y) \<union> snd ` set (snd r)"
    using inbox_at_publish_all[of "put_browser s x (fst r)" "snd r" y] by (simp add: apply_handler_def)
  with old ice show "\<forall>m\<in>set (inbox_at (apply_handler s x r) y). mtype m = ''ice-candidate''"
    by blast

next
  have "\<not> has_local (browser_at s Pat)" using st by (simp add: stuck_at)
  with core show "\<not> has_local (browser_at (apply_handler s x r) Pat)"
    by (cases x) (simp_all add: apply_handler_def has_local_def same_core_def)

qed

lemma handleSignalingMessage_ice_noop:
  assumes "mtype m = ''ice-candidate''" "peerConnection (vc b) = Some p" "remote_desc p = None"
  shows "same_core (fst (handleSignalingMessage b m)) b \<and> snd (handleSignalingMessage b m) = []"
  using assms
  by (simp add: handleSignalingMessage_def Let_def on_ice_def pc_addIceCandidate_def same_core_def
           split: option.splits)

lemma quiet_mediaResolved: "quiet b \<Longrightarrow> mediaResolved b out = (b, [])"
  by (simp add: quiet_def mediaResolved_def)

lemma quiet_wsConnected: "quiet b \<Longrightarrow> wsConnected b g = (b, [])"
  by (simp add: quiet_def wsConnected_def)

lemma same_core_toggles: "same_core (toggleAudio b) b" "same_core (toggleVideo b) b" "same_core b b"
  by (simp_all add: same_core_def toggleAudio_def toggleVideo_def split: option.splits)

lemma stuck_put_browser: "stuck s \<Longrightarrow> same_core b' (browser_at s x) \<Longrightarrow> stuck (put_browser s x b')"
  using stuck_handler[of s "(b', [])" x] by (simp add: apply_handler_def publish_all_def)

lemma ice_pubs: "p \<in> set (onIceCandidate b c) \<Longrightarrow> mtype (snd p) = ''ice-candidate''"
  by (auto simp: onIceCandidate_def ice_msg_def sendMessage_def split: option.splits)

lemma stuck_step:
  assumes st: "stuck s" and net: "network_event e"
  shows "stuck (sys_step s e)"

proof (cases e)
  case (Media x out)
  have "quiet (browser_at s x)" using st by (simp add: stuck_at)
  with st Media show ?thesis
    using stuck_handler[of s "(browser_at s x, [])" x] same_core_toggles(3)
    by (simp add: quiet_mediaResolved)

next
  case (WsUp x g)
  have "quiet (browser_at s x)" using st by (simp add: stuck_at)
  with st WsUp show ?thesis
    using stuck_handler[of s "(browser_at s x, [])" x] same_core_toggles(3)
    by (simp add: quiet_wsConnected)

next
  case (Deliver x)
  show ?thesis
  proof (cases "inbox_at s x")
    case Nil
    with Deliver st show ?thesis by simp
  next
    case (Cons m ms)
    have "\<forall>m\<in>set (inbox_at s x). mtype m = ''ice-candidate''" using st by (simp add: stuck_at)
    with Cons have ice: "mtype m = ''ice-candidate''" by simp
    have "quiet (browser_at s x)" using st by (simp add: stuck_at)
    then obtain p where p: "peerConnection (vc (browser_at s x)) = Some p" "remote_desc p = None"
      by (auto simp: quiet_def split: option.splits)
    have st': "stuck (put_inbox s x ms)"
      using st Cons unfolding stuck_at by (metis browser_at_put_inbox inbox_at_put_inbox list.set_intros(2))
    have "stuck (apply_handler (put_inbox s x ms) x (handleSignalingMessage (browser_at s x) m))"
      using stuck_handler[OF st', of "handleSignalingMessage (browser_at s x) m" x]
        handleSignalingMessage_ice_noop[OF ice p] by simp
    with Deliver Cons show ?thesis by simp
  qed

next
  case (Ice x c)
  show ?thesis
  proof (cases "has_local (browser_at s x)")
    case True
    then have "stuck (apply_handler s x (browser_at s x, onIceCandidate (browser_at s x) c))"
      using stuck_handler[OF st, of "(browser_at s x, onIceCandidate (browser_at s x) c)" x]
        same_core_toggles(3) ice_pubs by simp
    with Ice True show ?thesis
      by (simp add: apply_handler_def put_browser_def browser_at_def split: side.splits)
  next
    case False
    with Ice st show ?thesis by simp
  qed

next
  case (Track x st')
  have "quiet (browser_at s x)" using st by (simp add: stuck_at)
  then have "\<not> has_remote (browser_at s x)"
    by (auto simp: quiet_def has_remote_def split: option.splits)
  with Track st show ?thesis by simp

next
  case (ToggleA x)
  with st show ?thesis by (simp add: stuck_put_browser same_core_toggles)

next
  case (ToggleV x)
  with st show ?thesis by (simp add: stuck_put_browser same_core_toggles)

qed (use net in \<open>simp_all add: network_event_def\<close>)

lemma stuck_run: "stuck s \<Longrightarrow> list_all network_event es \<Longrightarrow> stuck (run s es)"
  by (induction es arbitrary: s) (simp_all add: stuck_step)

lemma stuck_not_connected:
  "stuck s \<Longrightarrow> \<not> call_connected s \<and> error (vc (doc s)) = None \<and> error (vc (pat s)) = None"
  by (auto simp: stuck_def quiet_def call_connected_def negotiated_def split: option.splits)

lemma doctor_first_stuck: "stuck (run (sys_init doc_call pat_call) doctor_first)"
  by code_simp

text \<open>
  C3. Joining order matters: when the doctor's offer is published before the patient
  has subscribed to the room, the relay drops it, and no sequence of network and
  browser events afterwards completes the exchange; neither side shows an error, so
  the call hangs between the two.
\<close>

theorem doctor_first_never_connects:
  assumes "list_all network_event es"
  shows "\<not> call_connected (run (run (sys_init doc_call pat_call) doctor_first) es) \<and>
         error (vc (doc (run (run (sys_init doc_call pat_call) doctor_first) es))) = None \<and>
         error (vc (pat (run (run (sys_init doc_call pat_call) doctor_first) es))) = None"
  using stuck_not_connected[OF stuck_run[OF doctor_first_stuck assms]] .

theorem doctor_first_never_connects_witness:
  "list_all network_event [Ice Doc (Some (0, 0)), Deliver Pat, Deliver Doc] \<and>
   \<not> call_connected (run (run (sys_init doc_call pat_call) doctor_first) [Ice Doc (Some (0, 0)), Deliver Pat, Deliver Doc])"

proof -
  have h: "list_all network_event [Ice Doc (Some (0, 0)), Deliver Pat, Deliver Doc]"
    by (simp add: network_event_def)
  show ?thesis using h doctor_first_never_connects[OF h] by simp

qed

lemma doctor_retry_stuck: "stuck (run (sys_init doc_call pat_call) doctor_retry)"
  by code_simp

text \<open>
  C1. Role exclusivity: in every reachable state of a consultation, every offer on its
  way to a browser was published by a participant whose role is doctor, and every
  answer by a participant whose role is patient; the sender is named by the
  \<open>from\<close> field.
\<close>

theorem offers_from_doctor_answers_from_patient:
  assumes "reachable dc pcl s" and "m \<in> set (doc_inbox s) \<union> set (pat_inbox s)"
  shows "msg_from_role dc pcl m"
proof -
  have inv: "sys_inv dc pcl s" using assms(1) by (rule reachable_sys_inv)
  have "m \<in> set (inbox_at s Doc) \<union> set (inbox_at s Pat)"
    using assms(2) by (simp add: inbox_at_def)
  with inv show ?thesis by (auto simp: sys_inv_def)
qed

theorem offers_from_doctor_answers_from_patient_witness:
  "reachable doc_call pat_call (run (sys_init doc_call pat_call) (take 6 patient_first)) \<and>
   \<lparr>mtype = ''offer'', mfrom = Some ''doc1'', muserName = Some ''drsmith'', mrole = Some ''doctor'',
      msdp = Some \<lparr>sdp_type = OfferT, sdp_origin = 0\<rparr>, mcandidate = None\<rparr>
     \<in> set (doc_inbox (run (sys_init doc_call pat_call) (take 6 patient_first))) \<union>
       set (pat_inbox (run (sys_init doc_call pat_call) (take 6 patient_first))) \<and>
   msg_from_role doc_call pat_call
     \<lparr>mtype = ''offer'', mfrom = Some ''doc1'', muserName = Some ''drsmith'', mrole = Some ''doctor'',
      msdp = Some \<lparr>sdp_type = OfferT, sdp_origin = 0\<rparr>, mcandidate = None\<rparr>"
proof -
  have r: "reachable doc_call pat_call (run (sys_init doc_call pat_call) (take 6 patient_first))"
    by (rule reachable_run[OF reachable.init])
  have m: "\<lparr>mtype = ''offer'', mfrom = Some ''doc1'', muserName = Some ''drsmith'', mrole = Some ''doctor'',
      msdp = Some \<lparr>sdp_type = OfferT, sdp_origin = 0\<rparr>, mcandidate = None\<rparr>
     \<in> set (doc_inbox (run (sys_init doc_call pat_call) (take 6 patient_first))) \<union>
       set (pat_inbox (run (sys_init doc_call pat_call) (take 6 patient_first)))"
    by code_simp
  show ?thesis using r m offers_from_doctor_answers_from_patient[OF r m] by blast
qed

text \<open>
  C4. Retry does not recover a call whose first camera request failed: after the
  doctor's permission denial and a successful Retry, no sequence of network and
  browser events (deliveries, candidates, tracks, relay and media completions,
  mute toggles) ever completes the exchange, and neither side shows an error.
\<close>

theorem doctor_retry_never_connects:
  assumes "list_all network_event es"
  shows "\<not> call_connected (run (run (sys_init doc_call pat_call) doctor_retry) es) \<and>
         error (vc (doc (run (run (sys_init doc_call pat_call) doctor_retry) es))) = None \<and>
         error (vc (pat (run (run (sys_init doc_call pat_call) doctor_retry) es))) = None"
  using stuck_not_connected[OF stuck_run[OF doctor_retry_stuck assms]] .

theorem doctor_retry_never_connects_witness:
  "list_all network_event [Ice Doc (Some (0, 0)), Deliver Pat, Deliver Doc] \<and>
   \<not> call_connected (run (run (sys_init doc_call pat_call) doctor_retry) [Ice Doc (Some (0, 0)), Deliver Pat, Deliver Doc])"
proof -
  have h: "list_all network_event [Ice Doc (Some (0, 0)), Deliver Pat, Deliver Doc]"
    by (simp add: network_event_def)
  show ?thesis using h doctor_retry_never_connects[OF h] by simp
qed

end
