(* ===== verification/Url.thy ===== *)
theory Url
  imports Prelude
begin

text \<open>
  URLs as the browser builds and reads them, for the links the dashboards open
  and the parameters the video call reads: \<open>encodeURIComponent\<close>, the
  \<open>application/x-www-form-urlencoded\<close> parser behind \<open>URLSearchParams\<close>, the
  split of a link into pathname and search, the resolution of a path pushed onto the
  history (\<open>url_resolve\<close>) and the router's decoding of a path segment
  (\<open>decode_seg\<close>). These are built-ins of the browser and the router, not
  code of the repository. A character is a code point below 256; percent decoding
  yields bytes, and its final UTF-8 decoding step is the identity on the ASCII
  strings the lemmas are stated for.
\<close>

section \<open>Encoding\<close>

definition is_alnum :: "char \<Rightarrow> bool" where
  "is_alnum c \<longleftrightarrow>
     ((48::nat) \<le> of_char c \<and> of_char c \<le> (57::nat)) \<or> ((65::nat) \<le> of_char c \<and> of_char c \<le> (90::nat)) \<or>
     ((97::nat) \<le> of_char c \<and> of_char c \<le> (122::nat))"

text \<open>The characters \<open>encodeURIComponent\<close> leaves as they are.\<close>

definition uri_unreserved :: "char \<Rightarrow> bool" where
  "uri_unreserved c \<longleftrightarrow> is_alnum c \<or> c \<in> set ''-_.!~*()'' \<or> c = CHR 0x27"

definition hex_digit :: "nat \<Rightarrow> char" where
  "hex_digit n = (if n < 10 then char_of (48 + n) else char_of (55 + n))"

definition pct :: "nat \<Rightarrow> string" where
  "pct n = [CHR ''%'', hex_digit (n div 16), hex_digit (n mod 16)]"

text \<open>One character: itself, its escape, or the escapes of its two UTF-8 bytes.\<close>

definition enc_char :: "char \<Rightarrow> string" where
  "enc_char c =
     (let n = of_char c :: nat
      in if n < 128 then (if uri_unreserved c then [c] else pct n)
         else pct (192 + n div 64) @ pct (128 + n mod 64))"

definition encodeURIComponent :: "string \<Rightarrow> string" where
  "encodeURIComponent s = concat (map enc_char s)"

section \<open>Decoding\<close>

definition hex_val :: "char \<Rightarrow> nat option" where
  "hex_val c =
     (let n = of_char c :: nat
      in if 48 \<le> n \<and> n \<le> 57 then Some (n - 48)
         else if 65 \<le> n \<and> n \<le> 70 then Some (n - 55)
         else if 97 \<le> n \<and> n \<le> 102 then Some (n - 87) else None)"

text \<open>Percent-decoding: a \<open>%\<close> not followed by two hex digits stays as it is.\<close>

fun percent_decode :: "string \<Rightarrow> string" where
  "percent_decode [] = []"
| "percent_decode (c # cs) =
     (if c = CHR ''%'' then
        (case cs of
           h1 # h2 # rest \<Rightarrow>
             (case (hex_val h1, hex_val h2) of
                (Some a, Some b) \<Rightarrow> char_of (16 * a + b) # percent_decode rest
              | _ \<Rightarrow> c # percent_decode cs)
         | _ \<Rightarrow> c # percent_decode cs)
      else c # percent_decode cs)"

text \<open>A name or value of a query: \<open>+\<close> is a space, then percent-decoding.\<close>

definition form_decode :: "string \<Rightarrow> string" where
  "form_decode s = percent_decode (map (\<lambda>c. if c = CHR ''+'' then CHR '' '' else c) s)"

text \<open>
  \<open>new URLSearchParams(search)\<close>: without the leading \<open>?\<close>, split at \<open>&\<close>,
  empty pieces dropped, each split at its first \<open>=\<close>.
\<close>

definition strip_q :: "string \<Rightarrow> string" where
  "strip_q s = (case s of c # r \<Rightarrow> (if c = CHR ''?'' then r else s) | [] \<Rightarrow> [])"

definition parse_pair :: "string \<Rightarrow> string \<times> string" where
  "parse_pair seg =
     (let n = takeWhile (\<lambda>c. c \<noteq> CHR ''='') seg
      in (form_decode n, form_decode (drop (Suc (length n)) seg)))"

definition parse_query :: "string \<Rightarrow> (string \<times> string) list" where
  "parse_query s = map parse_pair (filter (\<lambda>x. x \<noteq> []) (js_split CHR ''&'' (strip_q s)))"

text \<open>\<open>searchParams.get(name)\<close>: the first value of that name, or \<open>null\<close>.\<close>

definition query_get :: "string \<Rightarrow> string \<Rightarrow> string option" where
  "query_get s name = map_of (parse_query s) name"

text \<open>A link's pathname and search, for links without a fragment.\<close>

definition url_path :: "string \<Rightarrow> string" where
  "url_path u = takeWhile (\<lambda>c. c \<noteq> CHR ''?'') u"

definition url_search :: "string \<Rightarrow> string" where
  "url_search u = dropWhile (\<lambda>c. c \<noteq> CHR ''?'') u"

definition is_ascii :: "string \<Rightarrow> bool" where
  "is_ascii s \<longleftrightarrow> (\<forall>c\<in>set s. of_char c < (128::nat))"

section \<open>Resolving a pushed path\<close>

text \<open>
  \<open>history.pushState\<close> resolves its URL with the WHATWG URL parser, and the router
  then reads \<open>window.location\<close>. The parser first drops every tab and newline and the
  control characters and spaces at either end. In its path state (for a special
  scheme such as \<open>https\<close>) a \<open>/\<close> or \<open>\\<close> ends a segment; a single-dot
  segment (\<open>.\<close> or \<open>%2e\<close>) is dropped, a double-dot segment (\<open>..\<close>, \<open>.%2e\<close>,
  \<open>%2e.\<close> or \<open>%2e%2e\<close>, in either letter case) also removes the segment before
  it, and either one at the end of the path leaves an empty last segment. The
  percent-encoding of characters such as spaces is not modelled: it never creates
  or removes a dot segment.
\<close>

definition url_ws :: "char \<Rightarrow> bool" where
  "url_ws c \<longleftrightarrow> c = CHR 0x09 \<or> c = CHR 0x0A \<or> c = CHR 0x0D"

definition url_prep :: "string \<Rightarrow> string" where
  "url_prep u =
     (let v = filter (\<lambda>c. \<not> url_ws c) u;
          ctl = (\<lambda>c. of_char c \<le> (32::nat))
      in rev (dropWhile ctl (rev (dropWhile ctl v))))"

definition single_dot :: "string \<Rightarrow> bool" where
  "single_dot s \<longleftrightarrow> map ascii_lower s = ''.'' \<or> map ascii_lower s = ''%2e''"

definition double_dot :: "string \<Rightarrow> bool" where
  "double_dot s \<longleftrightarrow> map ascii_lower s \<in> set [''..'', ''.%2e'', ''%2e.'', ''%2e%2e'']"

text \<open>The segments so far are kept last first; \<open>seg_close\<close> ends one at a slash.\<close>

definition seg_close :: "string \<Rightarrow> string list \<Rightarrow> string list" where
  "seg_close b acc = (if double_dot b then drop 1 acc else if single_dot b then acc else b # acc)"

definition seg_final :: "string \<Rightarrow> string list \<Rightarrow> string list" where
  "seg_final b acc = (if double_dot b then [] # drop 1 acc else if single_dot b then [] # acc else b # acc)"

fun path_state :: "string \<Rightarrow> string list \<Rightarrow> string \<Rightarrow> string list" where
  "path_state b acc [] = seg_final b acc"
| "path_state b acc (c # cs) =
     (if c = CHR ''/'' \<or> c = CHR 0x5C then path_state [] (seg_close b acc) cs else path_state (b @ [c]) acc cs)"

definition path_resolve :: "string \<Rightarrow> string" where
  "path_resolve p = concat (map (\<lambda>s. CHR ''/'' # s) (rev (path_state [] [] p)))"

definition url_delim :: "char \<Rightarrow> bool" where
  "url_delim c \<longleftrightarrow> c = CHR ''?'' \<or> c = CHR ''#''"

text \<open>
  An absolute path (a \<open>/\<close> not followed by a second slash, which would start a
  host): its pathname resolved, its search and fragment kept. The navigation bar
  pushes only such paths; any other target is left as it is.
\<close>

definition url_resolve :: "string \<Rightarrow> string" where
  "url_resolve u =
     (case url_prep u of
        c # cs \<Rightarrow>
          (if c = CHR ''/'' \<and> (cs = [] \<or> (hd cs \<noteq> CHR ''/'' \<and> hd cs \<noteq> CHR 0x5C))
           then path_resolve (takeWhile (\<lambda>x. \<not> url_delim x) cs) @ dropWhile (\<lambda>x. \<not> url_delim x) cs
           else u)
      | [] \<Rightarrow> u)"

text \<open>A character that the parser keeps inside a path segment as it is.\<close>

definition url_plain :: "char \<Rightarrow> bool" where
  "url_plain c \<longleftrightarrow> (32::nat) < of_char c \<and> c \<noteq> CHR ''/'' \<and> c \<noteq> CHR 0x5C \<and> \<not> url_delim c"

section \<open>The router's decoding of a pathname\<close>

text \<open>
  Before matching, the router decodes each segment of the pathname with
  \<open>decodeURIComponent\<close> and escapes a decoded \<open>/\<close> as \<open>%2F\<close>, so that decoding never
  adds a segment; a segment that does not decode (a \<open>%\<close> without two hex digits
  after it) is kept as it is.
\<close>

fun pct_ok :: "string \<Rightarrow> bool" where
  "pct_ok [] = True"
| "pct_ok (c # cs) =
     (if c = CHR ''%'' then
        (case cs of a # b # r \<Rightarrow> hex_val a \<noteq> None \<and> hex_val b \<noteq> None \<and> pct_ok r | _ \<Rightarrow> False)
      else pct_ok cs)"

definition decode_seg :: "string \<Rightarrow> string" where
  "decode_seg s =
     (if pct_ok s then concat (map (\<lambda>c. if c = CHR ''/'' then ''%2F'' else [c]) (percent_decode s)) else s)"

section \<open>Lemmas\<close>

lemma hex_val_digit: "n < 16 \<Longrightarrow> hex_val (hex_digit n) = Some n"
  by (simp add: hex_val_def hex_digit_def Let_def)

lemma hex_digit_range:
  "n < 16 \<Longrightarrow> ((48::nat) \<le> of_char (hex_digit n) \<and> of_char (hex_digit n) \<le> (57::nat)) \<or>
              ((65::nat) \<le> of_char (hex_digit n) \<and> of_char (hex_digit n) \<le> (70::nat))"
  by (simp add: hex_digit_def)

lemma hex_digit_special:
  "n < 16 \<Longrightarrow> hex_digit n \<notin> {CHR ''+'', CHR ''&'', CHR ''='', CHR ''?'', CHR ''%'', CHR ''/''}"
  using hex_digit_range[of n] by auto

lemma set_pct:
  assumes "n < 256" "x \<in> set (pct n)"
  shows "x = CHR ''%'' \<or> (\<exists>k<16. x = hex_digit k)"
proof -
  have "n div 16 < 16" using assms(1) by (intro less_mult_imp_div_less) simp
  moreover have "n mod 16 < 16" by simp
  moreover have "x = CHR ''%'' \<or> x = hex_digit (n div 16) \<or> x = hex_digit (n mod 16)"
    using assms(2) by (auto simp: pct_def)
  ultimately show ?thesis by blast
qed

lemma utf8_bytes_bound:
  "192 + of_char c div 64 < (256::nat)" "128 + of_char c mod 64 < (256::nat)"
proof -
  have "of_char c div 64 < (4::nat)" using nat_of_char_less_256[of c] by (intro less_mult_imp_div_less) simp
  then show "192 + of_char c div 64 < (256::nat)" by simp
  show "128 + of_char c mod 64 < (256::nat)" by simp
qed

lemma uri_unreserved_special:
  "uri_unreserved c \<Longrightarrow> c \<notin> {CHR ''+'', CHR ''&'', CHR ''='', CHR ''?'', CHR ''%'', CHR ''/''}"
  by (auto simp: uri_unreserved_def is_alnum_def)

lemma percent_decode_pct:
  "n < 256 \<Longrightarrow> percent_decode (pct n @ rest) = char_of n # percent_decode rest"
  by (simp add: pct_def hex_val_digit hex_digit_special)

lemma percent_decode_plain: "c \<noteq> CHR ''%'' \<Longrightarrow> percent_decode (c # rest) = c # percent_decode rest"
  by simp

lemma percent_decode_no_pct: "CHR ''%'' \<notin> set s \<Longrightarrow> percent_decode s = s"
  by (induction s) auto

lemma pct_ok_no_pct: "CHR ''%'' \<notin> set s \<Longrightarrow> pct_ok s"
  by (induction s) auto

lemma decode_seg_plain [simp]: "CHR ''%'' \<notin> set s \<Longrightarrow> CHR ''/'' \<notin> set s \<Longrightarrow> decode_seg s = s"
proof -
  assume "CHR ''%'' \<notin> set s" "CHR ''/'' \<notin> set s"
  moreover have "CHR ''/'' \<notin> set s \<Longrightarrow> concat (map (\<lambda>c. if c = CHR ''/'' then ''%2F'' else [c]) s) = s"
    by (induction s) auto
  ultimately show ?thesis by (simp add: decode_seg_def pct_ok_no_pct percent_decode_no_pct)
qed

lemma url_prep_id:
  assumes "\<forall>c\<in>set u. (32::nat) < of_char c"
  shows "url_prep u = u"
proof -
  have "filter (\<lambda>c. \<not> url_ws c) u = u" using assms by (auto simp: url_ws_def filter_id_conv)
  moreover have "dropWhile (\<lambda>c. of_char c \<le> (32::nat)) w = w" if "\<forall>c\<in>set w. (32::nat) < of_char c" for w
    using that by (cases w) auto
  ultimately show ?thesis using assms by (simp add: url_prep_def Let_def)
qed

lemma path_state_plain:
  "\<forall>c\<in>set w. c \<noteq> CHR ''/'' \<and> c \<noteq> CHR 0x5C \<Longrightarrow> path_state b acc (w @ rest) = path_state (b @ w) acc rest"
  by (induction w arbitrary: b) auto

lemma url_resolve_abs:
  assumes "url_prep (CHR ''/'' # p) = CHR ''/'' # p" "p \<noteq> []" "hd p \<noteq> CHR ''/'' \<and> hd p \<noteq> CHR 0x5C"
    "\<forall>c\<in>set p. \<not> url_delim c"
  shows "url_resolve (CHR ''/'' # p) = path_resolve p"
proof -
  have "takeWhile (\<lambda>x. \<not> url_delim x) p = p" "dropWhile (\<lambda>x. \<not> url_delim x) p = []"
    using assms(4) by (simp_all add: takeWhile_eq_all_conv dropWhile_eq_Nil_conv)
  then show ?thesis using assms(1-3)
    by (simp add: url_resolve_def del: takeWhile_eq_all_conv dropWhile_eq_Nil_conv)
qed

text \<open>
  An absolute path of a plain first segment and a plain last one: the last segment
  is a single or double dot segment exactly when it is resolved away.
\<close>

lemma url_resolve_two:
  assumes "hs \<noteq> []" "\<forall>c\<in>set (hs @ nm). url_plain c" "\<not> single_dot hs" "\<not> double_dot hs"
  shows "url_resolve (CHR ''/'' # hs @ CHR ''/'' # nm) =
           (if double_dot nm then ''/'' else if single_dot nm then ''/'' @ hs @ ''/'' else ''/'' @ hs @ ''/'' @ nm)"
proof -
  let ?p = "hs @ CHR ''/'' # nm"
  have pl: "\<forall>c\<in>set hs. c \<noteq> CHR ''/'' \<and> c \<noteq> CHR 0x5C" "\<forall>c\<in>set nm. c \<noteq> CHR ''/'' \<and> c \<noteq> CHR 0x5C"
    using assms(2) by (auto simp: url_plain_def)
  have "\<forall>c\<in>set (CHR ''/'' # ?p). (32::nat) < of_char c" using assms(2) by (auto simp: url_plain_def)
  then have prep: "url_prep (CHR ''/'' # ?p) = CHR ''/'' # ?p" by (rule url_prep_id)
  have nd: "\<forall>c\<in>set ?p. \<not> url_delim c" using assms(2) by (auto simp: url_plain_def url_delim_def)
  have hd: "hd ?p \<noteq> CHR ''/'' \<and> hd ?p \<noteq> CHR 0x5C" using assms(1) pl(1) by (cases hs) auto
  have ps: "path_state [] [] ?p = seg_final nm [hs]"
    using path_state_plain[OF pl(1), of "[]" "[]" "CHR ''/'' # nm"]
          path_state_plain[OF pl(2), of "[]" "[hs]" "[]"] assms(3,4)
    by (simp add: seg_close_def)
  have "url_resolve (CHR ''/'' # ?p) = path_resolve ?p"
    using url_resolve_abs[OF prep _ hd nd] by simp
  then show ?thesis unfolding path_resolve_def ps by (simp add: seg_final_def)
qed

lemma enc_char_special:
  "x \<in> set (enc_char c) \<Longrightarrow> x \<notin> {CHR ''+'', CHR ''&'', CHR ''='', CHR ''?'', CHR ''/''}"
proof
  assume x: "x \<in> set (enc_char c)" and s: "x \<in> {CHR ''+'', CHR ''&'', CHR ''='', CHR ''?'', CHR ''/''}"
  have "x = c \<and> uri_unreserved c \<or> x \<in> set (pct (of_char c)) \<or>
        x \<in> set (pct (192 + of_char c div 64)) \<or> x \<in> set (pct (128 + of_char c mod 64))"
    using x by (auto simp: enc_char_def Let_def split: if_splits)
  then have "x = c \<and> uri_unreserved c \<or> x = CHR ''%'' \<or> (\<exists>k<16. x = hex_digit k)"
    using set_pct[OF nat_of_char_less_256] set_pct[OF utf8_bytes_bound(1)] set_pct[OF utf8_bytes_bound(2)]
    by blast
  then show False using s uri_unreserved_special[of c] hex_digit_special by fastforce
qed

lemma encode_special:
  "x \<in> set (encodeURIComponent s) \<Longrightarrow> x \<notin> {CHR ''+'', CHR ''&'', CHR ''='', CHR ''?'', CHR ''/''}"
  using enc_char_special by (fastforce simp: encodeURIComponent_def)

lemma percent_decode_enc_char:
  assumes "of_char c < (128::nat)"
  shows "percent_decode (enc_char c @ rest) = c # percent_decode rest"
proof (cases "uri_unreserved c")
  case True
  then show ?thesis using assms uri_unreserved_special[of c] by (simp add: enc_char_def)
next
  case False
  then show ?thesis using assms by (simp add: enc_char_def percent_decode_pct)
qed

lemma form_decode_no_plus:
  "CHR ''+'' \<notin> set s \<Longrightarrow> form_decode s = percent_decode s"
proof -
  assume "CHR ''+'' \<notin> set s"
  then have "map (\<lambda>c. if c = CHR ''+'' then CHR '' '' else c) s = s" by (induction s) auto
  then show ?thesis by (simp add: form_decode_def)
qed

theorem form_decode_encode:
  assumes "is_ascii s"
  shows "form_decode (encodeURIComponent s) = s"
proof -
  have "percent_decode (encodeURIComponent s) = s"
    using assms
    by (induction s) (simp_all add: is_ascii_def encodeURIComponent_def percent_decode_enc_char)
  moreover have "CHR ''+'' \<notin> set (encodeURIComponent s)" using encode_special by blast
  ultimately show ?thesis by (simp add: form_decode_no_plus)
qed

end
