(* ===== verification/Auth.thy ===== *)
theory Auth
  imports Url
begin

text \<open>
  Authentication and navigation: the context of \<open>src/src/context/AuthContext.js\<close>
  (the logged-in user, the loading flag, the error, and the token kept in
  \<open>localStorage\<close>), the guard \<open>src/src/components/ProtectedRoute.jsx\<close>, the route
  table and \<open>AuthRedirect\<close> of \<open>src/src/App.jsx\<close>, and the handlers and labels of
  \<open>src/src/components/Navbar.jsx\<close>. A user object is the JSON the backend returns;
  its fields may be absent. An HTTP call is given by its outcome.
\<close>

section \<open>The authentication context (AuthContext.js)\<close>

record auth_user =
  u_token :: json_str
  u_username :: "string option"
  u_id :: "string option"
  u_roles :: "string list option"
  u_success :: bool

record auth =
  user :: "auth_user option"
  loading :: bool
  auth_error :: "string option"
  stored_token :: "string option"
  validating :: bool

text \<open>The provider's first render, with whatever token \<open>localStorage\<close> holds.\<close>

definition auth_init :: "string option \<Rightarrow> auth" where
  "auth_init t = \<lparr>user = None, loading = True, auth_error = None, stored_token = t, validating = False\<rparr>"

text \<open>An axios call: the response's data, or a rejection (network error or non-2xx status).\<close>

datatype http_outcome = HttpOk auth_user | HttpFail

text \<open>
  \<open>checkAuth\<close> (lines 15-32), run by the provider's mount effect, split at its
  \<open>await\<close>. Before it: read the token; without one, loading ends at once; with
  one, the validation request is in flight (\<open>validating\<close>).
\<close>

definition checkAuth_start :: "auth \<Rightarrow> auth" where
  "checkAuth_start s =
     (if js_truthy (stored_token s) then s\<lparr>validating := True\<rparr> else s\<lparr>loading := False\<rparr>)"

text \<open>
  After it: a response with \<open>success\<close> sets the user, any other outcome removes the
  stored token; loading ends.
\<close>

definition checkAuth_done :: "auth \<Rightarrow> http_outcome \<Rightarrow> auth" where
  "checkAuth_done s r =
     (if validating s then
        (let s1 = (case r of
                     HttpOk d \<Rightarrow> (if u_success d then s\<lparr>user := Some d\<rparr> else s\<lparr>stored_token := None\<rparr>)
                   | HttpFail \<Rightarrow> s\<lparr>stored_token := None\<rparr>)
         in s1\<lparr>loading := False, validating := False\<rparr>)
      else s)"

text \<open>
  \<open>login\<close> (lines 34-47): accepts user data that carries a (truthy) token and stores
  it; \<open>localStorage.setItem\<close> stores \<open>String(v)\<close>, which is the token itself.
\<close>

definition login :: "auth \<Rightarrow> auth_user option \<Rightarrow> auth \<times> bool" where
  "login s u =
     (case u of
        Some d \<Rightarrow> (if js_truthy_j (u_token d)
                   then (s\<lparr>stored_token := Some (js_tmpl (u_token d)), user := Some d, auth_error := None\<rparr>, True)
                   else (s, False))
      | None \<Rightarrow> (s, False))"

text \<open>
  What \<open>register\<close>'s request gives: the response data (\<open>None\<close> for a falsy body),
  or a rejection with the server's message, if any.
\<close>

datatype reg_outcome = RegData "auth_user option" | RegError "string option"

text \<open>
  \<open>register\<close> (lines 49-62). \<open>localStorage.setItem\<close> converts its value to a string,
  \<open>String(v)\<close>: a response without a token stores the string \<open>undefined\<close>, one
  whose token is \<open>null\<close> the string \<open>null\<close>. With a falsy body the
  function falls off its end and returns \<open>undefined\<close>: \<open>None\<close>.
\<close>

definition register :: "auth \<Rightarrow> reg_outcome \<Rightarrow> auth \<times> bool option" where
  "register s r =
     (case r of
        RegData (Some d) \<Rightarrow>
          (s\<lparr>stored_token := Some (js_tmpl (u_token d)),
             user := Some d, auth_error := None\<rparr>, Some True)
      | RegData None \<Rightarrow> (s, None)
      | RegError m \<Rightarrow>
          (s\<lparr>auth_error := Some (case m of Some t \<Rightarrow> (if t \<noteq> [] then t else ''Registration failed'')
                                     | None \<Rightarrow> ''Registration failed'')\<rparr>,
           Some False))"

definition logout :: "auth \<Rightarrow> auth" where
  "logout s = s\<lparr>stored_token := None, user := None, auth_error := None\<rparr>"

definition isAuthenticated :: "auth \<Rightarrow> bool" where
  "isAuthenticated s \<longleftrightarrow> user s \<noteq> None"

text \<open>\<open>user?.roles?.includes(role)\<close>.\<close>

definition has_role :: "auth_user \<Rightarrow> string \<Rightarrow> bool" where
  "has_role u r = (case u_roles u of None \<Rightarrow> False | Some rs \<Rightarrow> r \<in> set rs)"

definition user_has_role :: "auth \<Rightarrow> string \<Rightarrow> bool" where
  "user_has_role s r = (case user s of None \<Rightarrow> False | Some u \<Rightarrow> has_role u r)"

section \<open>Route protection (ProtectedRoute.jsx)\<close>

datatype guard = Spinner | RedirectHome | Children

text \<open>A \<open>roles\<close> prop that is given, even empty, is truthy and filters.\<close>

definition protectedRoute :: "auth \<Rightarrow> string list option \<Rightarrow> guard" where
  "protectedRoute s roles =
     (if loading s then Spinner
      else if \<not> isAuthenticated s then RedirectHome
      else (case roles of
              None \<Rightarrow> Children
            | Some rs \<Rightarrow> (if \<not> list_ex (user_has_role s) rs then RedirectHome else Children)))"

section \<open>Routes (App.jsx)\<close>

datatype page = LandingPage | PatientLogin | PatientRegister | DoctorLogin | DoctorRegister
  | DoctorDashboard | PatientDashboard | AppointmentsPage | MedicalRecords | AddMedicalRecord
  | VideoCallPage

record route =
  r_path :: "string list"
  r_page :: page
  r_roles :: "string list option"

text \<open>The \<open><Route>\<close> elements of lines 81-139, in order; \<open>None\<close> is a route without guard.\<close>

definition routes :: "route list" where
  "routes =
     [\<lparr>r_path = [], r_page = LandingPage, r_roles = None\<rparr>,
      \<lparr>r_path = [''patient-login''], r_page = PatientLogin, r_roles = None\<rparr>,
      \<lparr>r_path = [''patient-register''], r_page = PatientRegister, r_roles = None\<rparr>,
      \<lparr>r_path = [''doctor-login''], r_page = DoctorLogin, r_roles = None\<rparr>,
      \<lparr>r_path = [''doctor-register''], r_page = DoctorRegister, r_roles = None\<rparr>,
      \<lparr>r_path = [''doctor-dashboard''], r_page = DoctorDashboard, r_roles = Some [''ROLE_DOCTOR'']\<rparr>,
      \<lparr>r_path = [''patient-dashboard''], r_page = PatientDashboard, r_roles = Some [''ROLE_PATIENT'']\<rparr>,
      \<lparr>r_path = [''appointments''], r_page = AppointmentsPage,
         r_roles = Some [''ROLE_DOCTOR'', ''ROLE_PATIENT'']\<rparr>,
      \<lparr>r_path = [''medical-records''], r_page = MedicalRecords,
         r_roles = Some [''ROLE_DOCTOR'', ''ROLE_PATIENT'']\<rparr>,
      \<lparr>r_path = [''add-medical-record'', '':id''], r_page = AddMedicalRecord, r_roles = Some [''ROLE_DOCTOR'']\<rparr>,
      \<lparr>r_path = [''medical-records'', ''edit'', '':id''], r_page = AddMedicalRecord,
         r_roles = Some [''ROLE_DOCTOR'']\<rparr>,
      \<lparr>r_path = [''video-call'', '':roomId''], r_page = VideoCallPage, r_roles = None\<rparr>]"

text \<open>The pathname of a location (up to \<open>?\<close>) as its non-empty segments.\<close>

fun segs :: "string \<Rightarrow> string \<Rightarrow> string list" where
  "segs cur [] = (if cur = [] then [] else [rev cur])"
| "segs cur (c # cs) =
     (if c = CHR ''/'' then (if cur = [] then segs [] cs else rev cur # segs [] cs)
      else segs (c # cur) cs)"

definition split_path :: "string \<Rightarrow> string list" where
  "split_path p = segs [] (takeWhile (\<lambda>c. c \<noteq> CHR ''?'') p)"

text \<open>
  A pattern segment \<open>:name\<close> matches any segment; any other matches the decoded
  segment (\<open>decode_seg\<close>) up to letter case, since the router compiles a path without
  \<open>caseSensitive\<close> to a case-insensitive regular expression (case folding of ASCII
  letters).
\<close>

definition seg_match :: "string \<Rightarrow> string \<Rightarrow> bool" where
  "seg_match pat sg =
     (if pat \<noteq> [] \<and> hd pat = CHR '':'' then True else map ascii_lower pat = map ascii_lower (decode_seg sg))"

definition path_match :: "string list \<Rightarrow> string list \<Rightarrow> bool" where
  "path_match pat ss \<longleftrightarrow> length pat = length ss \<and> list_all2 seg_match pat ss"

definition match_route :: "string \<Rightarrow> route option" where
  "match_route p = find (\<lambda>r. path_match (r_path r) (split_path p)) routes"

text \<open>The first segments of the routes' patterns, all lowercase literals.\<close>

definition route_heads :: "string list" where
  "route_heads = [''patient-login'', ''patient-register'', ''doctor-login'', ''doctor-register'',
     ''doctor-dashboard'', ''patient-dashboard'', ''appointments'', ''medical-records'',
     ''add-medical-record'', ''video-call'']"

text \<open>What the router shows at a path.\<close>

datatype screen = Show page | Loading | Redirect string | NoMatch

definition app_view :: "auth \<Rightarrow> string \<Rightarrow> screen" where
  "app_view s p =
     (case match_route p of
        None \<Rightarrow> NoMatch
      | Some r \<Rightarrow>
          (case r_roles r of
             None \<Rightarrow> Show (r_page r)
           | Some rs \<Rightarrow>
               (case protectedRoute s (Some rs) of
                  Children \<Rightarrow> Show (r_page r)
                | Spinner \<Rightarrow> Loading
                | RedirectHome \<Rightarrow> Redirect ''/'')))"

text \<open>\<open>AuthRedirect\<close> (lines 57-69), defined but not mounted by any route.\<close>

definition authRedirect :: "auth \<Rightarrow> screen" where
  "authRedirect s =
     (if isAuthenticated s then
        (if user_has_role s ''ROLE_DOCTOR'' then Redirect ''/doctor-dashboard''
         else if user_has_role s ''ROLE_PATIENT'' then Redirect ''/patient-dashboard''
         else Show LandingPage)
      else Show LandingPage)"

section \<open>The navigation bar (Navbar.jsx)\<close>

text \<open>Rendered only for an authenticated user (lines 23-25).\<close>

definition navbar_visible :: "auth \<Rightarrow> bool" where
  "navbar_visible s = isAuthenticated s"

definition handleDashboard :: "auth \<Rightarrow> string option" where
  "handleDashboard s =
     (if user_has_role s ''ROLE_DOCTOR'' then Some ''/doctor-dashboard''
      else if user_has_role s ''ROLE_PATIENT'' then Some ''/patient-dashboard''
      else None)"

text \<open>\<open>`${user.username}`\<close> prints a missing name as \<open>undefined\<close>.\<close>

definition js_str :: "string option \<Rightarrow> string" where
  "js_str v = (case v of None \<Rightarrow> ''undefined'' | Some t \<Rightarrow> t)"

definition handleViewProfile :: "auth \<Rightarrow> string option" where
  "handleViewProfile s =
     (case user s of
        None \<Rightarrow> None
      | Some u \<Rightarrow>
          (if has_role u ''ROLE_DOCTOR'' then Some (''/doctor-profile/'' @ js_str (u_username u))
           else if has_role u ''ROLE_PATIENT'' then Some (''/patient-profile/'' @ js_str (u_username u))
           else None))"

definition handleLogout :: "auth \<Rightarrow> auth \<times> string" where
  "handleLogout s = (logout s, ''/'')"

text \<open>The chip's label: \<open>Dr. \<close> for a doctor, then the user name or nothing.\<close>

definition chip_label :: "auth \<Rightarrow> string" where
  "chip_label s =
     (if user_has_role s ''ROLE_DOCTOR'' then ''Dr. '' else '''') @
     (case user s of None \<Rightarrow> '''' | Some u \<Rightarrow> (case u_username u of None \<Rightarrow> '''' | Some n \<Rightarrow> n))"

section \<open>Interleavings of the context's operations\<close>

text \<open>
  The provider's state changes by its mount effect (the two halves of
  \<open>checkAuth\<close>) and by the callers of \<open>login\<close>, \<open>register\<close> and \<open>logout\<close>;
  the validation's response can arrive after any of them.
\<close>

datatype auth_event = CheckStart | CheckDone http_outcome | Login "auth_user option"
  | Register reg_outcome | Logout

fun auth_step :: "auth \<Rightarrow> auth_event \<Rightarrow> auth" where
  "auth_step s CheckStart = checkAuth_start s"
| "auth_step s (CheckDone r) = checkAuth_done s r"
| "auth_step s (Login u) = fst (login s u)"
| "auth_step s (Register r) = fst (register s r)"
| "auth_step s Logout = logout s"

fun auth_run :: "auth \<Rightarrow> auth_event list \<Rightarrow> auth" where
  "auth_run s [] = s"
| "auth_run s (e # es) = auth_run (auth_step s e) es"

text \<open>The events of the context's callers, as opposed to those of its mount effect.\<close>

fun caller_event :: "auth_event \<Rightarrow> bool" where
  "caller_event CheckStart = False"
| "caller_event (CheckDone _) = False"
| "caller_event _ = True"

text \<open>A logged-in user has a token stored, so a reload keeps the session.\<close>

definition session_consistent :: "auth \<Rightarrow> bool" where
  "session_consistent s \<longleftrightarrow> (user s = None \<or> stored_token s \<noteq> None)"

text \<open>
  An event is serialised when it does not overtake the startup validation: the
  validation starts before any login, and no login, registration or logout happens
  while its request is in flight.
\<close>

definition serial_ok :: "auth \<Rightarrow> auth_event \<Rightarrow> bool" where
  "serial_ok s e =
     (case e of
        CheckStart \<Rightarrow> \<not> validating s \<and> user s = None
      | CheckDone _ \<Rightarrow> True
      | _ \<Rightarrow> \<not> validating s)"

fun serial :: "auth \<Rightarrow> auth_event list \<Rightarrow> bool" where
  "serial s [] = True"
| "serial s (e # es) = (serial_ok s e \<and> serial (auth_step s e) es)"

text \<open>The invariant behind consistency: a validation in flight has no user yet and a token.\<close>

definition auth_inv :: "auth \<Rightarrow> bool" where
  "auth_inv s \<longleftrightarrow> session_consistent s \<and> (validating s \<longrightarrow> user s = None \<and> stored_token s \<noteq> None)"

text \<open>Sample values: a doctor's validated session data and a token.\<close>

definition demo_doctor_user :: auth_user where
  "demo_doctor_user = \<lparr>u_token = JString ''tok1'', u_username = Some ''drsmith'', u_id = Some ''7'',
                       u_roles = Some [''ROLE_DOCTOR''], u_success = True\<rparr>"

definition demo_patient_user :: auth_user where
  "demo_patient_user = \<lparr>u_token = JString ''tok2'', u_username = Some ''jane'', u_id = Some ''9'',
                        u_roles = Some [''ROLE_PATIENT''], u_success = True\<rparr>"

text \<open>A doctor's session after the startup validation succeeded.\<close>

definition doctor_session :: auth where
  "doctor_session = auth_run (auth_init (Some ''tok1'')) [CheckStart, CheckDone (HttpOk demo_doctor_user)]"

section \<open>Lemmas\<close>

lemma segs_no_slash:
  "CHR ''/'' \<notin> set r \<Longrightarrow> segs cur r = (if cur = [] \<and> r = [] then [] else [rev cur @ r])"
  by (induction r arbitrary: cur) auto

lemma split_path_video_call:
  assumes "r \<noteq> []" "CHR ''/'' \<notin> set r" "CHR ''?'' \<notin> set r"
  shows "split_path (''/video-call/'' @ r) = [''video-call'', r]"
proof -
  have t: "takeWhile (\<lambda>c. c \<noteq> CHR ''?'') r = r"
    using assms(3) by (auto simp: takeWhile_eq_all_conv)
  show ?thesis using assms(1,2) by (simp add: split_path_def t segs_no_slash)
qed

lemma split_path_query: "CHR ''?'' \<notin> set p \<Longrightarrow> split_path (p @ CHR ''?'' # q) = split_path p"
proof -
  assume "CHR ''?'' \<notin> set p"
  then have "takeWhile (\<lambda>c. c \<noteq> CHR ''?'') (p @ CHR ''?'' # q) = p"
       "takeWhile (\<lambda>c. c \<noteq> CHR ''?'') p = p"
    by (induction p) auto
  then show ?thesis by (simp only: split_path_def)
qed

lemma app_view_video_call: "split_path p = [''video-call'', r] \<Longrightarrow> app_view s p = Show VideoCallPage"
  by (simp add: app_view_def match_route_def routes_def path_match_def seg_match_def)

lemma routes_heads_ex:
  "\<forall>r\<in>set routes. r_path r = [] \<or> (hd (r_path r) \<in> set route_heads \<and>
      hd (r_path r) \<noteq> [] \<and>
      map ascii_lower (hd (r_path r)) = hd (r_path r) \<and> hd (hd (r_path r)) \<noteq> CHR '':'')"
  by code_simp

lemma seg_match_static:
  "map ascii_lower p0 = p0 \<Longrightarrow> p0 \<noteq> [] \<Longrightarrow> hd p0 \<noteq> CHR '':'' \<Longrightarrow>
   seg_match p0 sg = (p0 = map ascii_lower (decode_seg sg))"
  by (simp add: seg_match_def)

lemma match_route_seg:
  assumes "split_path p = sg # ys" "map ascii_lower (decode_seg sg) \<notin> set route_heads"
  shows "match_route p = None"
proof -
  have "\<not> path_match (r_path r) (sg # ys)" if "r \<in> set routes" for r
  proof (cases "r_path r")
    case (Cons p0 ps)
    with routes_heads_ex that have "p0 \<in> set route_heads" "p0 \<noteq> []" "map ascii_lower p0 = p0" "hd p0 \<noteq> CHR '':''"
      by auto
    with assms(2) have "\<not> seg_match p0 sg"
      using seg_match_static[of p0 sg] by auto
    with Cons show ?thesis by (simp add: path_match_def)
  qed (simp add: path_match_def)
  then show ?thesis using assms(1) by (simp add: match_route_def find_None_iff)
qed

lemma split_path_prefix:
  "split_path (''/doctor-profile/'' @ x) = ''doctor-profile'' # segs [] (takeWhile (\<lambda>c. c \<noteq> CHR ''?'') x)"
  "split_path (''/patient-profile/'' @ x) = ''patient-profile'' # segs [] (takeWhile (\<lambda>c. c \<noteq> CHR ''?'') x)"
  by (simp_all add: split_path_def)

lemma profile_heads:
  "map ascii_lower (decode_seg ''doctor-profile'') \<notin> set route_heads"
  "map ascii_lower (decode_seg ''patient-profile'') \<notin> set route_heads"
  by code_simp+

lemma profile_paths_unmatched:
  "match_route (''/doctor-profile/'' @ x) = None" "match_route (''/patient-profile/'' @ x) = None"
  using match_route_seg[OF split_path_prefix(1) profile_heads(1)] match_route_seg[OF split_path_prefix(2) profile_heads(2)]
  by blast+

lemma match_route_dashboards:
  "match_route ''/doctor-dashboard'' =
     Some \<lparr>r_path = [''doctor-dashboard''], r_page = DoctorDashboard, r_roles = Some [''ROLE_DOCTOR'']\<rparr>"
  "match_route ''/patient-dashboard'' =
     Some \<lparr>r_path = [''patient-dashboard''], r_page = PatientDashboard, r_roles = Some [''ROLE_PATIENT'']\<rparr>"
  by code_simp+

lemma app_view_dashboards:
  "\<not> loading s \<Longrightarrow> user_has_role s ''ROLE_DOCTOR'' \<Longrightarrow> app_view s ''/doctor-dashboard'' = Show DoctorDashboard"
  "\<not> loading s \<Longrightarrow> user_has_role s ''ROLE_PATIENT'' \<Longrightarrow> app_view s ''/patient-dashboard'' = Show PatientDashboard"
  by (auto simp: app_view_def match_route_dashboards protectedRoute_def isAuthenticated_def user_has_role_def
      split: option.splits)

lemma auth_run_append: "auth_run s (xs @ ys) = auth_run (auth_run s xs) ys"
  by (induction xs arbitrary: s) simp_all

lemma caller_event_validating:
  "caller_event e \<Longrightarrow> validating (auth_step s e) = validating s"
  by (cases e) (simp_all add: login_def register_def logout_def split: option.splits reg_outcome.splits)

lemma caller_run_validating:
  "list_all caller_event es \<Longrightarrow> validating (auth_run s es) = validating s"
  by (induction es arbitrary: s) (simp_all add: caller_event_validating)

lemma auth_inv_init: "auth_inv (auth_init t)"
  by (simp add: auth_inv_def session_consistent_def auth_init_def)

lemma auth_step_inv:
  assumes "auth_inv s" "serial_ok s e"
  shows "auth_inv (auth_step s e)"
proof (cases e)
  case CheckStart
  with assms show ?thesis
    by (auto simp: auth_inv_def session_consistent_def serial_ok_def checkAuth_start_def
                   dest: js_truthy_Some split: option.splits)
next
  case (CheckDone r)
  with assms show ?thesis
    by (auto simp: auth_inv_def session_consistent_def checkAuth_done_def split: http_outcome.splits)
next
  case (Login u)
  with assms show ?thesis
    by (auto simp: auth_inv_def session_consistent_def serial_ok_def login_def split: option.splits)
next
  case (Register r)
  with assms show ?thesis
    by (auto simp: auth_inv_def session_consistent_def serial_ok_def register_def
             split: reg_outcome.splits option.splits)
next
  case Logout
  with assms show ?thesis
    by (auto simp: auth_inv_def session_consistent_def serial_ok_def logout_def)
qed

lemma auth_run_inv: "auth_inv s \<Longrightarrow> serial s es \<Longrightarrow> auth_inv (auth_run s es)"
  by (induction es arbitrary: s) (simp_all add: auth_step_inv)

section \<open>Properties\<close>

text \<open>
  C10: a page behind a guarded route is shown only when loading has ended and the
  logged-in user holds one of the route's roles.
\<close>

theorem protected_access:
  assumes "match_route p = Some r" "r_roles r = Some rs" "app_view s p = Show pg"
  shows "\<not> loading s \<and> (\<exists>u. user s = Some u \<and> list_ex (has_role u) rs)"
  using assms
  by (auto simp: app_view_def protectedRoute_def isAuthenticated_def user_has_role_def list_ex_iff
           split: guard.splits if_splits option.splits)

text \<open>
  C17: the video-call route has no guard: any visitor, logged in or not, is shown the
  consultation page of any room.
\<close>

theorem video_call_unguarded:
  assumes "r \<noteq> []" "CHR ''/'' \<notin> set r" "CHR ''?'' \<notin> set r"
  shows "app_view s (''/video-call/'' @ r) = Show VideoCallPage"
  using split_path_video_call[OF assms] by (rule app_view_video_call)

text \<open>
  Once loading has ended, a visitor without a user who opens a guarded route is
  redirected to the landing page.
\<close>

theorem logged_out_redirected:
  assumes "\<not> loading s" "user s = None" "match_route p = Some r" "r_roles r = Some rs"
  shows "app_view s p = Redirect ''/''"
  using assms by (simp add: app_view_def protectedRoute_def isAuthenticated_def)

text \<open>
  The navigation bar's Dashboard button leads to a dashboard the router admits
  the user to.
\<close>

theorem dashboard_link_admitted:
  assumes "handleDashboard s = Some p" "\<not> loading s"
  shows "app_view s p = Show DoctorDashboard \<or> app_view s p = Show PatientDashboard"
  using assms app_view_dashboards by (auto simp: handleDashboard_def split: if_splits)

text \<open>
  C15: as long as no login, registration or logout overtakes the startup validation,
  a logged-in user always has a token stored.
\<close>

theorem auth_serial_consistent:
  "serial (auth_init t) es \<Longrightarrow> session_consistent (auth_run (auth_init t) es)"
  using auth_run_inv[OF auth_inv_init] by (simp add: auth_inv_def)

text \<open>
  C16: a logout while the startup validation is in flight, after any logins,
  registrations and logouts, is undone by the validation's response: the validated
  user is logged in again, with no token stored, so the session does not survive a
  reload.
\<close>

theorem logout_during_validation:
  assumes "js_truthy t" "u_success d" "list_all caller_event es"
  shows "user (auth_run (auth_init t) (CheckStart # es @ [Logout, CheckDone (HttpOk d)])) = Some d \<and>
         stored_token (auth_run (auth_init t) (CheckStart # es @ [Logout, CheckDone (HttpOk d)])) = None \<and>
         \<not> session_consistent (auth_run (auth_init t) (CheckStart # es @ [Logout, CheckDone (HttpOk d)]))"
proof -
  have "validating (auth_run (checkAuth_start (auth_init t)) es)"
    using assms(1,3) caller_run_validating by (simp add: checkAuth_start_def auth_init_def)
  then show ?thesis using assms(2)
    by (simp add: auth_run_append checkAuth_done_def logout_def session_consistent_def)
qed

text \<open>
  C31: a registration response whose token is absent or \<open>null\<close> logs the user in
  and stores the string \<open>undefined\<close> or \<open>null\<close> as the token, which a reload then
  sends for validation as if it were one; \<open>login\<close> refuses the same data.
\<close>

theorem register_without_token:
  assumes "u_token d = JUndefined \<or> u_token d = JNull"
  shows "isAuthenticated (fst (register s (RegData (Some d)))) \<and>
         stored_token (fst (register s (RegData (Some d)))) = Some (js_tmpl (u_token d)) \<and>
         js_tmpl (u_token d) \<in> {''undefined'', ''null''} \<and>
         validating (checkAuth_start (auth_init (stored_token (fst (register s (RegData (Some d))))))) \<and>
         \<not> snd (login s (Some d))"
  using assms by (auto simp: register_def isAuthenticated_def checkAuth_start_def auth_init_def login_def)

text \<open>
  Logging out after a login, accepted or not, gives the same state as logging
  out before it.
\<close>

theorem logout_after_login: "logout (fst (login s u)) = logout s"
  by (simp add: logout_def login_def split: option.splits)

section \<open>Witnesses\<close>

lemma doctor_session_simps [simp]:
  "loading doctor_session = False" "user doctor_session = Some demo_doctor_user"
  "stored_token doctor_session = Some ''tok1''" "validating doctor_session = False"
  by (simp_all add: doctor_session_def auth_init_def checkAuth_start_def checkAuth_done_def
      demo_doctor_user_def)

lemma demo_doctor_user_fields [simp]:
  "u_roles demo_doctor_user = Some [''ROLE_DOCTOR'']" "u_username demo_doctor_user = Some ''drsmith''"
  by (simp_all add: demo_doctor_user_def)

lemma doctor_session_dashboard: "app_view doctor_session ''/doctor-dashboard'' = Show DoctorDashboard"
  using app_view_dashboards(1)[of doctor_session] by (simp add: user_has_role_def has_role_def)

theorem protected_access_witness:
  "\<not> loading doctor_session \<and> (\<exists>u. user doctor_session = Some u \<and> list_ex (has_role u) [''ROLE_DOCTOR''])"
  using protected_access[OF match_route_dashboards(1) _ doctor_session_dashboard] by simp

theorem video_call_unguarded_witness: "app_view (auth_init None) ''/video-call/R1'' = Show VideoCallPage"
  using video_call_unguarded[of "''R1''" "auth_init None"] by simp

theorem logged_out_redirected_witness:
  "app_view (checkAuth_start (auth_init None)) ''/doctor-dashboard'' = Redirect ''/''"
  using logged_out_redirected[OF _ _ match_route_dashboards(1), of "checkAuth_start (auth_init None)"]
  by (simp add: checkAuth_start_def auth_init_def)

theorem dashboard_link_admitted_witness:
  "app_view doctor_session ''/doctor-dashboard'' = Show DoctorDashboard \<or>
   app_view doctor_session ''/doctor-dashboard'' = Show PatientDashboard"
  using dashboard_link_admitted[of doctor_session "''/doctor-dashboard''"]
  by (simp add: handleDashboard_def user_has_role_def has_role_def)

theorem auth_serial_consistent_witness:
  "session_consistent (auth_run (auth_init (Some ''tok1''))
     [CheckStart, CheckDone (HttpOk demo_doctor_user), Logout, Login (Some demo_patient_user)])"
  using auth_serial_consistent[of "Some ''tok1''"
      "[CheckStart, CheckDone (HttpOk demo_doctor_user), Logout, Login (Some demo_patient_user)]"]
  by (simp add: serial_ok_def auth_init_def checkAuth_start_def checkAuth_done_def logout_def login_def
      demo_doctor_user_def demo_patient_user_def)

theorem register_without_token_witness:
  "stored_token (fst (register (auth_init None)
     (RegData (Some \<lparr>u_token = JNull, u_username = Some ''jane'', u_id = None, u_roles = None, u_success = True\<rparr>))))
     = Some ''null'' \<and>
   isAuthenticated (fst (register (auth_init None)
     (RegData (Some \<lparr>u_token = JNull, u_username = Some ''jane'', u_id = None, u_roles = None, u_success = True\<rparr>))))"
  using register_without_token[of "\<lparr>u_token = JNull, u_username = Some ''jane'', u_id = None, u_roles = None, u_success = True\<rparr>"
      "auth_init None"] by simp

theorem logout_during_validation_witness:
  "user (auth_run (auth_init (Some ''tok1''))
     [CheckStart, Login (Some demo_patient_user), Logout, CheckDone (HttpOk demo_doctor_user)]) = Some demo_doctor_user \<and>
   stored_token (auth_run (auth_init (Some ''tok1''))
     [CheckStart, Login (Some demo_patient_user), Logout, CheckDone (HttpOk demo_doctor_user)]) = None"
  using logout_during_validation[of "Some ''tok1''" demo_doctor_user "[Login (Some demo_patient_user)]"]
  by (simp add: demo_doctor_user_def)

end
