(* ===== verification/Dashboard.thy ===== *)
theory Dashboard
  imports Auth Url
begin

text \<open>
  The dashboards and the calendar: \<open>src/src/pages/PatientDashboard.jsx\<close>,
  \<open>src/src/pages/DoctorDashboard.jsx\<close> and \<open>src/src/pages/Appointments.jsx\<close>. An
  appointment is the JSON object the backend returns, whose fields may be absent
  (\<open>undefined\<close>), \<open>null\<close> or a string. \<open>new Date\<close> is the JavaScript engine's:
  its string parser is a parameter (\<open>date_parse\<close>), giving epoch milliseconds or
  an invalid date; the rest of \<open>Date\<close>'s arithmetic (\<open>TimeClip\<close>, \<open>null\<close> as
  epoch 0) is written out. The REST calls are given by their outcomes.
\<close>

section \<open>JSON values and dates\<close>

type_synonym date_parse = "string \<Rightarrow> int option"

text \<open>\<open>TimeClip\<close>: a time value beyond 8.64e15 ms from the epoch is an invalid date.\<close>

definition time_clip :: "int \<Rightarrow> int option" where
  "time_clip t = (if \<bar>t\<bar> \<le> 8640000000000000 then Some t else None)"

text \<open>\<open>new Date(v)\<close>: \<open>undefined\<close> is invalid, \<open>null\<close> is the epoch, a string is parsed.\<close>

fun js_new_date :: "date_parse \<Rightarrow> json_str \<Rightarrow> int option" where
  "js_new_date dp JUndefined = None"
| "js_new_date dp JNull = Some 0"
| "js_new_date dp (JString s) = Option.bind (dp s) time_clip"

section \<open>Appointments\<close>

text \<open>
  A medical record as the backend returns it and the record dialogs read it
  (PatientDashboard lines 724-774, DoctorDashboard lines 323-378): JSON numbers
  appear as their text; the field \<open>notes\<close> is \<open>rec_notes\<close>; \<open>medications\<close> and \<open>vitalSigns\<close> absent or null are
  \<open>None\<close>.
\<close>

record medication =
  med_name :: json_str
  med_dosage :: json_str
  med_frequency :: json_str
  med_duration :: json_str

record vital_signs =
  temperature :: json_str
  bloodPressureSystolic :: json_str
  bloodPressureDiastolic :: json_str
  heartRate :: json_str
  respiratoryRate :: json_str

record med_record =
  createdAt :: json_str
  diagnosis :: json_str
  symptoms :: json_str
  rec_notes :: json_str
  medications :: "medication list option"
  vitalSigns :: "vital_signs option"

record appointment =
  a_id :: json_str
  startTime :: json_str
  a_date :: json_str
  a_time :: json_str
  status :: json_str
  durationInMinutes :: "int option"
  reason :: json_str
  doctorName :: json_str
  patientName :: json_str
  medicalRecords :: "med_record list"

text \<open>\<open>getStatusColor\<close> (PatientDashboard lines 406-417, DoctorDashboard lines 155-166).\<close>

definition getStatusColor :: "json_str \<Rightarrow> string" where
  "getStatusColor st =
     (if st = JString ''CONFIRMED'' then ''success''
      else if st = JString ''CANCELLED'' then ''error''
      else if st = JString ''COMPLETED'' then ''info''
      else ''warning'')"

text \<open>
  \<open>canCancelAppointment\<close> (PatientDashboard lines 392-404): not for a cancelled or
  completed appointment, and only while the current time is before one hour ahead
  of \<open>startTime\<close>; a comparison with an invalid date is false.
\<close>

definition canCancelAppointment :: "date_parse \<Rightarrow> int \<Rightarrow> appointment \<Rightarrow> bool" where
  "canCancelAppointment dp now a =
     (if status a = JString ''CANCELLED'' \<or> status a = JString ''COMPLETED'' then False
      else (case Option.bind (js_new_date dp (startTime a)) (\<lambda>t. time_clip (t - 3600000)) of
              None \<Rightarrow> False
            | Some h \<Rightarrow> now < h))"

section \<open>The doctor's actions (DoctorDashboard.jsx)\<close>

datatype doc_button = ViewRecord | AddRecord | ConfirmB | CancelB | CompleteB | JoinCallB

text \<open>The buttons of an appointment's row (lines 239-303), in order.\<close>

definition doctor_buttons :: "appointment \<Rightarrow> doc_button list" where
  "doctor_buttons a =
     (if medicalRecords a \<noteq> [] then [ViewRecord]
      else if status a = JString ''CONFIRMED'' then [AddRecord] else []) @
     (if status a = JString ''PENDING'' then [ConfirmB, CancelB] else []) @
     (if status a = JString ''CONFIRMED'' then [CompleteB, JoinCallB] else [])"

text \<open>The status argument each status button passes to \<open>handleStatusUpdate\<close>.\<close>

fun button_status :: "doc_button \<Rightarrow> string option" where
  "button_status ConfirmB = Some ''CONFIRM''"
| "button_status CancelB = Some ''CANCEL''"
| "button_status CompleteB = Some ''COMPLETE''"
| "button_status _ = None"

datatype http_method = GET | POST | PUT

text \<open>
  The request of \<open>handleStatusUpdate\<close> (lines 94-122): \<open>PUT\<close> for a cancellation,
  \<open>POST\<close> otherwise, to the lower-cased status under the appointment.
\<close>

definition handleStatusUpdate :: "string \<Rightarrow> json_str \<Rightarrow> string \<Rightarrow> http_method \<times> string" where
  "handleStatusUpdate base aid st =
     (let s = map ascii_lower st
      in (if s = ''cancel'' then PUT else POST, base @ ''/appointments/'' @ js_tmpl aid @ ''/'' @ s))"

text \<open>
  The backend's meaning of the endpoints, which is not code of this repository:
  \<open>confirm\<close>, \<open>cancel\<close> and \<open>complete\<close> set the status they name.
\<close>

definition endpoint_status :: "string \<Rightarrow> string option" where
  "endpoint_status e =
     (if e = ''confirm'' then Some ''CONFIRMED'' else if e = ''cancel'' then Some ''CANCELLED''
      else if e = ''complete'' then Some ''COMPLETED'' else None)"

text \<open>
  The status changes the two dashboards can request: a doctor's status button, or
  the patient's Cancel button (\<open>handleCancelAppointment\<close>, PatientDashboard lines
  336-359, a \<open>PUT\<close> to \<open>cancel\<close>) when \<open>canCancelAppointment\<close> holds.
\<close>

inductive ui_transition :: "date_parse \<Rightarrow> int \<Rightarrow> appointment \<Rightarrow> string \<Rightarrow> bool" where
  doctor: "b \<in> set (doctor_buttons a) \<Longrightarrow> button_status b = Some st \<Longrightarrow>
           endpoint_status (map ascii_lower st) = Some s' \<Longrightarrow> ui_transition dp now a s'"
| patient: "canCancelAppointment dp now a \<Longrightarrow> ui_transition dp now a ''CANCELLED''"

section \<open>The patient's list order (PatientDashboard.jsx lines 97-101)\<close>

text \<open>The date an appointment is sorted by: \<open>startTime\<close>, or its date and time joined.\<close>

definition appt_key :: "date_parse \<Rightarrow> appointment \<Rightarrow> int option" where
  "appt_key dp a =
     js_new_date dp (if js_truthy_j (startTime a) then startTime a
                     else JString (js_tmpl (a_date a) @ ''T'' @ js_tmpl (a_time a)))"

text \<open>
  The comparator \<open>dateA - dateB\<close> of the list's sort (lines 97-101); a
  \<open>NaN\<close> result counts as \<open>+0\<close> (\<open>SortCompare\<close>). The sort itself is never
  reached: \<open>fetchAppointments\<close> throws at line 62 before it.
\<close>

definition sort_cmp :: "date_parse \<Rightarrow> appointment \<Rightarrow> appointment \<Rightarrow> int" where
  "sort_cmp dp a b = (case (appt_key dp a, appt_key dp b) of (Some x, Some y) \<Rightarrow> x - y | _ \<Rightarrow> 0)"

section \<open>The calendar (Appointments.jsx)\<close>

text \<open>The endpoint \<open>fetchAppointments\<close> calls (lines 44-50); \<open>user.roles\<close> undefined throws.\<close>

definition appointments_endpoint :: "auth_user \<Rightarrow> string option" where
  "appointments_endpoint u =
     (case u_roles u of
        None \<Rightarrow> None
      | Some rs \<Rightarrow>
          Some (if ''ROLE_DOCTOR'' \<in> set rs then ''appointments/doctor/name/'' @ js_str (u_username u)
                else if ''ROLE_PATIENT'' \<in> set rs then ''appointments/patient/name/'' @ js_str (u_username u)
                else ''appointments''))"

record cal_event =
  ev_id :: json_str
  ev_title :: string
  ev_start :: "int option"
  ev_end :: "int option"
  ev_status :: json_str

text \<open>The transformation of an appointment into a calendar event (lines 65-71).\<close>

definition to_event :: "date_parse \<Rightarrow> appointment \<Rightarrow> cal_event" where
  "to_event dp a =
     \<lparr>ev_id = a_id a,
      ev_title = (if js_truthy_j (patientName a) then ''Patient: '' @ js_tmpl (patientName a) else []) @
                 (if js_truthy_j (doctorName a) then '' Doctor: Dr. '' @ js_tmpl (doctorName a) else []) @
                 '' - '' @ js_tmpl (reason a),
      ev_start = js_new_date dp (startTime a),
      ev_end = Option.bind (js_new_date dp (startTime a)) (\<lambda>t. time_clip (t + 60 * 60 * 1000)),
      ev_status = status a\<rparr>"

text \<open>\<open>eventStyleGetter\<close>'s background colour (lines 82-110).\<close>

definition event_color :: "json_str \<Rightarrow> string" where
  "event_color st =
     (if st = JString ''CONFIRMED'' then ''#4caf50''
      else if st = JString ''CANCELLED'' then ''#f44336''
      else if st = JString ''COMPLETED'' then ''#9e9e9e''
      else if st = JString ''PENDING'' then ''#ff9800''
      else ''#3174ad'')"


section \<open>Booking (PatientDashboard.jsx)\<close>

text \<open>
  What the date picker holds: nothing (\<open>null\<close>), an invalid date (typed text that
  is not a date: a truthy \<open>Date\<close> object whose time is \<open>NaN\<close>), or a day of the
  local calendar.
\<close>

record local_day =
  yr :: int
  mon :: int
  dy :: int

datatype picked_date = NoDate | InvalidDate | Day local_day

record booking =
  b_doctorId :: string
  b_date :: picked_date
  b_time :: string
  b_reason :: string

text \<open>
  The values of the time \<open>Select\<close> (lines 671-683) with their labels; the
  form's reset value is the empty string.
\<close>

definition time_options :: "(string \<times> string) list" where
  "time_options =
     [(''09:00'', ''09:00 AM''), (''10:00'', ''10:00 AM''), (''11:00'', ''11:00 AM''),
      (''12:00'', ''12:00 AM''), (''14:00'', ''02:00 PM''), (''15:00'', ''03:00 PM''),
      (''16:00'', ''04:00 PM'')]"

text \<open>
  \<open>Number\<close> on a string of decimal digits (the empty string is 0); any other
  string is \<open>NaN\<close> here. The strings it is applied to are the time values above,
  split at the colon.
\<close>

definition is_digit :: "char \<Rightarrow> bool" where
  "is_digit c \<longleftrightarrow> (48::nat) \<le> of_char c \<and> of_char c \<le> (57::nat)"

definition digits_val :: "string \<Rightarrow> int" where
  "digits_val s = foldl (\<lambda>n c. 10 * n + (int (of_char c) - 48)) 0 s"

definition js_Number :: "string \<Rightarrow> int option" where
  "js_Number s = (if list_all is_digit s then Some (digits_val s) else None)"

text \<open>\<open>String(n)\<close> and \<open>padStart(2, '0')\<close>.\<close>

fun nat_str :: "nat \<Rightarrow> string" where
  "nat_str n = (if n < 10 then [char_of (48 + n)] else nat_str (n div 10) @ [char_of (48 + n mod 10)])"

definition int_str :: "int \<Rightarrow> string" where
  "int_str i = (if i < 0 then CHR ''-'' # nat_str (nat (- i)) else nat_str (nat i))"

definition pad2 :: "string \<Rightarrow> string" where
  "pad2 s = replicate (2 - length s) CHR ''0'' @ s"

text \<open>
  The local calendar: days from 1970-01-01 of a proleptic Gregorian date, and the
  wall-clock time of \<open>setHours(hour, minute, 0, 0)\<close> on that day, in milliseconds.
  The current time is read in the same frame; daylight-saving changes are not
  modelled.
\<close>

definition days_from_civil :: "int \<Rightarrow> int \<Rightarrow> int \<Rightarrow> int" where
  "days_from_civil y m d =
     (let y' = (if m \<le> 2 then y - 1 else y);
          era = y' div 400; yoe = y' - era * 400;
          doy = (153 * ((m + 9) mod 12) + 2) div 5 + d - 1;
          doe = yoe * 365 + yoe div 4 - yoe div 100 + doy
      in era * 146097 + doe - 719468)"

definition local_ms :: "local_day \<Rightarrow> int \<Rightarrow> int \<Rightarrow> int" where
  "local_ms d h m = (days_from_civil (yr d) (mon d) (dy d) * 86400 + h * 3600 + m * 60) * 1000"

text \<open>\<open>const [hour, minute] = time.split(':').map(Number)\<close>; a missing part is \<open>NaN\<close>.\<close>

definition booking_time :: "string \<Rightarrow> int option \<times> int option" where
  "booking_time t =
     (let ps = map js_Number (js_split CHR '':'' t)
      in (hd ps, if length ps > 1 then ps ! 1 else None))"

text \<open>\<open>selectedDate\<close> after \<open>setHours\<close>: invalid when the date or a part is.\<close>

definition selected_time :: "picked_date \<Rightarrow> int option \<Rightarrow> int option \<Rightarrow> int option" where
  "selected_time pd h m =
     (case (pd, h, m) of (Day d, Some x, Some y) \<Rightarrow> time_clip (local_ms d x y) | _ \<Rightarrow> None)"

text \<open>
  \<open>formattedDate\<close> (lines 271-274), from the picked day's year, month and day;
  an invalid date prints \<open>NaN\<close>. The hours reaching it are those of the time
  values, so \<open>setHours\<close> keeps the day.
\<close>

definition format_date :: "local_day \<Rightarrow> string" where
  "format_date d = int_str (yr d) @ ''-'' @ pad2 (int_str (mon d)) @ ''-'' @ pad2 (int_str (dy d))"

record appt_request =
  patientId :: "string option"
  rq_doctorId :: string
  rq_time :: string
  rq_date :: string
  rq_duration :: int
  rq_reason :: string
  rq_status :: string

datatype booking_check = BookingError string | BookingRequest appt_request

text \<open>
  \<open>handleBookingSubmit\<close> up to the request (lines 234-289): the checks in the
  code's order, each with its message, then the request body. \<open>now\<close> is
  \<open>Date.now()\<close>.
\<close>

definition booking_validate :: "auth_user \<Rightarrow> int \<Rightarrow> booking \<Rightarrow> booking_check" where
  "booking_validate u now b =
     (if b_date b = NoDate \<or> b_time b = [] then BookingError ''Please select both date and time.''
      else if b_doctorId b = [] then BookingError ''Please select a doctor.''
      else
        (let (h, m) = booking_time (b_time b); sel = selected_time (b_date b) h m
         in if (case sel of Some t \<Rightarrow> t < now + 5 * 60000 | None \<Rightarrow> False)
            then BookingError ''Appointment must be at least 5 minutes in the future.''
            else if (case h of Some x \<Rightarrow> x < 9 \<or> 17 \<le> x | None \<Rightarrow> False)
            then BookingError ''Appointments must be between 9:00 AM and 5:00 PM.''
            else BookingRequest
                   \<lparr>patientId = u_username u, rq_doctorId = b_doctorId b, rq_time = b_time b,
                    rq_date = (case (sel, b_date b) of (Some _, Day d) \<Rightarrow> format_date d
                               | _ \<Rightarrow> ''NaN-NaN-NaN''),
                    rq_duration = 30, rq_reason = b_reason b, rq_status = ''PENDING''\<rparr>))"

text \<open>A doctor as \<open>fetchDoctors\<close> formats it (lines 211-219).\<close>

record doctor =
  dr_id :: json_str
  dr_fullName :: json_str
  dr_username :: json_str
  dr_specialty :: json_str

text \<open>The dashboard's state (lines 37-53).\<close>

record pdash =
  p_appointments :: "appointment list"
  p_doctors :: "doctor list"
  p_selectedRecord :: "med_record option"
  p_openRecordDialog :: bool
  p_loading :: bool
  p_error :: "string option"
  openBooking :: bool
  bookingData :: booking
  successMessage :: string
  bookingValidationError :: string

definition empty_booking :: booking where
  "empty_booking = \<lparr>b_doctorId = [], b_date = NoDate, b_time = [], b_reason = []\<rparr>"

text \<open>The Book button is enabled only with every field filled (lines 706-711).\<close>

definition book_enabled :: "booking \<Rightarrow> bool" where
  "book_enabled b \<longleftrightarrow> b_doctorId b \<noteq> [] \<and> b_date b \<noteq> NoDate \<and> b_time b \<noteq> [] \<and> b_reason b \<noteq> []"

text \<open>The submission up to its \<open>await\<close>: a validation message, or the request in flight.\<close>

definition submit_start :: "auth_user \<Rightarrow> int \<Rightarrow> pdash \<Rightarrow> pdash \<times> appt_request option" where
  "submit_start u now s =
     (case booking_validate u now (bookingData s) of
        BookingError msg \<Rightarrow> (s\<lparr>bookingValidationError := msg\<rparr>, None)
      | BookingRequest r \<Rightarrow> (s\<lparr>bookingValidationError := [], p_loading := True\<rparr>, Some r))"

text \<open>
  \<open>fetchAppointments\<close> (lines 55-185) builds its request URL from
  \<open>API_BASE_URLL\<close>, which no module defines: evaluating it throws a
  \<open>ReferenceError\<close> before any request, and the handler shows its message and
  empties the list. The sort and the detail requests after it never run.
\<close>

definition patient_fetchAppointments :: "pdash \<Rightarrow> pdash" where
  "patient_fetchAppointments s =
     s\<lparr>p_loading := False, p_error := Some ''API_BASE_URLL is not defined'', p_appointments := []\<rparr>"

text \<open>The POST's outcome: accepted, or rejected with the response text.\<close>

datatype post_outcome = PostOk | PostFail string

text \<open>
  The submission after the POST (lines 299-333): on success the dialog closes, the
  message shows, the form is reset and the list is fetched again in the background,
  which fails at once as above; on failure the response text or a default message.
\<close>

definition submit_done :: "pdash \<Rightarrow> post_outcome \<Rightarrow> pdash" where
  "submit_done s r =
     (case r of
        PostOk \<Rightarrow> (patient_fetchAppointments
                     (s\<lparr>openBooking := False, successMessage := ''Appointment booked successfully!'',
                        bookingData := empty_booking\<rparr>))\<lparr>p_loading := False\<rparr>
      | PostFail txt \<Rightarrow> s\<lparr>p_error := Some (if txt \<noteq> [] then txt else ''Failed to book appointment''),
                          p_loading := False\<rparr>)"

section \<open>Joining the consultation\<close>

text \<open>
  The link of \<open>handleJoinVideoCall\<close>: the appointment's id as the room, the role,
  \<open>user.id || user.username\<close> unencoded, and the encoded user name.
\<close>

definition join_link :: "string \<Rightarrow> appointment \<Rightarrow> auth_user \<Rightarrow> string" where
  "join_link rl a u =
     ''/video-call/'' @ js_tmpl (a_id a) @ ''?role='' @ rl @ ''&userId='' @
     (case u_id u of Some i \<Rightarrow> (if i \<noteq> [] then i else js_str (u_username u)) | None \<Rightarrow> js_str (u_username u)) @
     ''&userName='' @ encodeURIComponent (js_str (u_username u))"

definition patientJoinVideoCall :: "appointment \<Rightarrow> auth_user \<Rightarrow> string" where
  "patientJoinVideoCall a u = join_link ''patient'' a u"

definition doctorJoinVideoCall :: "appointment \<Rightarrow> auth_user \<Rightarrow> string" where
  "doctorJoinVideoCall a u = join_link ''doctor'' a u"

section \<open>Sample values\<close>

text \<open>A date parser that knows two instants of 7 January 2030, local time.\<close>

definition demo_parse :: date_parse where
  "demo_parse s =
     (if s = ''2030-01-07T10:00:00'' then Some 1894010400000
      else if s = ''2030-01-07T09:00:00'' then Some 1894006800000 else None)"

definition demo_appt :: "string \<Rightarrow> json_str \<Rightarrow> string \<Rightarrow> appointment" where
  "demo_appt i st s =
     \<lparr>a_id = JString i, startTime = st, a_date = JUndefined, a_time = JUndefined, status = JString s,
      durationInMinutes = Some 30, reason = JString ''checkup'', doctorName = JUndefined,
      patientName = JUndefined, medicalRecords = []\<rparr>"

definition demo_day :: local_day where
  "demo_day = \<lparr>yr = 2030, mon = 1, dy = 7\<rparr>"

definition demo_booking :: "picked_date \<Rightarrow> booking" where
  "demo_booking d = \<lparr>b_doctorId = ''7'', b_date = d, b_time = ''10:00'', b_reason = ''checkup''\<rparr>"

section \<open>Lemmas\<close>

lemma js_new_date_range: "js_new_date dp v = Some t \<Longrightarrow> \<bar>t\<bar> \<le> 8640000000000000"
  by (cases v) (auto simp: time_clip_def split: Option.bind_splits if_splits)

lemma time_clip_Some [simp]: "\<bar>t\<bar> \<le> 8640000000000000 \<Longrightarrow> time_clip t = Some t"
  by (simp add: time_clip_def)

lemma button_endpoints:
  "endpoint_status (map ascii_lower ''CONFIRM'') = Some ''CONFIRMED''"
  "endpoint_status (map ascii_lower ''CANCEL'') = Some ''CANCELLED''"
  "endpoint_status (map ascii_lower ''COMPLETE'') = Some ''COMPLETED''"
  by code_simp+

lemma button_endpoint_status:
  assumes "button_status b = Some st" "endpoint_status (map ascii_lower st) = Some s'"
  shows "(b = ConfirmB \<and> s' = ''CONFIRMED'') \<or> (b = CancelB \<and> s' = ''CANCELLED'') \<or>
         (b = CompleteB \<and> s' = ''COMPLETED'')"
  using assms by (cases b) (auto simp: button_endpoints simp del: list.map)

lemma doctor_buttons_status:
  "ConfirmB \<in> set (doctor_buttons a) \<Longrightarrow> status a = JString ''PENDING''"
  "CancelB \<in> set (doctor_buttons a) \<Longrightarrow> status a = JString ''PENDING''"
  "CompleteB \<in> set (doctor_buttons a) \<Longrightarrow> status a = JString ''CONFIRMED''"
  "JoinCallB \<in> set (doctor_buttons a) \<longleftrightarrow> status a = JString ''CONFIRMED''"
  by (auto simp: doctor_buttons_def split: if_splits)

lemma doctor_transition_cases:
  assumes "b \<in> set (doctor_buttons a)" "button_status b = Some st" "endpoint_status (map ascii_lower st) = Some s'"
  shows "(status a = JString ''PENDING'' \<and> (s' = ''CONFIRMED'' \<or> s' = ''CANCELLED'')) \<or>
         (status a = JString ''CONFIRMED'' \<and> s' = ''COMPLETED'')"
  using button_endpoint_status[OF assms(2,3)] assms(1) doctor_buttons_status by auto

lemma time_options_hours:
  "list_all (\<lambda>(v, l). case booking_time v of (Some h, Some m) \<Rightarrow> 9 \<le> h \<and> h < 17 \<and> m = 0 | _ \<Rightarrow> False)
     time_options"
  by code_simp

lemma time_option_hour:
  assumes "v \<in> fst ` set time_options"
  obtains h where "booking_time v = (Some h, Some 0)" "9 \<le> h" "h < 17"
proof -
  from assms obtain l where vl: "(v, l) \<in> set time_options" by auto
  have "case booking_time v of (Some h, Some m) \<Rightarrow> 9 \<le> h \<and> h < 17 \<and> m = 0 | _ \<Rightarrow> False"
    using bspec[OF time_options_hours[unfolded list_all_iff] vl] by simp
  then show ?thesis using that by (cases "booking_time v") (auto split: option.splits)
qed

declare nat_str.simps [simp del]

lemma nat_str_small: "n < 10 \<Longrightarrow> nat_str n = [char_of (48 + n)]"
  by (simp add: nat_str.simps)

lemma nat_str_large: "\<not> n < 10 \<Longrightarrow> nat_str n = nat_str (n div 10) @ [char_of (48 + n mod 10)]"
  by (subst nat_str.simps) simp

lemma is_digit_char: "(n::nat) < 10 \<Longrightarrow> is_digit (char_of (48 + n)) \<and> of_char (char_of (48 + n) :: char) = 48 + n"
  by (simp add: is_digit_def)

lemma digits_val_snoc: "digits_val (xs @ [c]) = 10 * digits_val xs + (int (of_char c) - 48)"
  by (simp add: digits_val_def)

lemma nat_str_digits: "list_all is_digit (nat_str n) \<and> digits_val (nat_str n) = int n"
proof (induction n rule: nat_str.induct)
  case (1 n)
  show ?case
  proof (cases "n < 10")
    case True
    then show ?thesis by (simp add: nat_str_small is_digit_char digits_val_def)
  next
    case False
    then have "list_all is_digit (nat_str (n div 10)) \<and> digits_val (nat_str (n div 10)) = int (n div 10)"
      using "1" by simp
    moreover have "int n = 10 * int (n div 10) + int (n mod 10)"
      by (metis div_mult_mod_eq mult.commute of_nat_add of_nat_mult of_nat_numeral)
    ultimately show ?thesis using False by (simp add: nat_str_large is_digit_char digits_val_snoc)
  qed
qed

theorem js_Number_nat_str: "js_Number (nat_str n) = Some (int n)"
  using nat_str_digits[of n] by (simp add: js_Number_def)

lemma nat_str_length_le: "n < 10 ^ k \<Longrightarrow> length (nat_str n) \<le> max 1 k"
proof (induction k arbitrary: n)
  case 0
  then show ?case by (simp add: nat_str_small)
next
  case (Suc k)
  show ?case
  proof (cases "n < 10")
    case False
    with Suc.prems have "n div 10 < 10 ^ k" "0 < k" by (auto simp: div_less_iff_less_mult intro: gr0I)
    with Suc.IH[of "n div 10"] False show ?thesis by (simp add: nat_str_large)
  qed (simp add: nat_str_small)
qed

lemma nat_str_length_ge: "10 ^ k \<le> n \<Longrightarrow> k < length (nat_str n)"
proof (induction k arbitrary: n)
  case 0
  then show ?case by (cases "n < 10") (simp_all add: nat_str_small nat_str_large)
next
  case (Suc k)
  have "(10::nat) \<le> 10 ^ Suc k" by simp
  from this Suc.prems have big: "\<not> n < 10" by (metis order.trans not_le)
  from Suc.prems have "10 ^ k \<le> n div 10" by (simp add: less_eq_div_iff_mult_less_eq mult.commute)
  then show ?case using Suc.IH[of "n div 10"] by (simp add: nat_str_large[OF big])
qed

lemma digits_val_zeros: "digits_val (replicate k CHR ''0'' @ s) = digits_val s"
  by (induction k) (simp_all add: digits_val_def)

lemma list_all_zeros: "list_all is_digit (replicate k CHR ''0'')"
  by (induction k) (simp_all add: is_digit_def)

lemma js_Number_pad2: "js_Number (pad2 s) = js_Number s"
  by (simp add: js_Number_def pad2_def digits_val_zeros list_all_zeros)

lemma pad2_nat_str:
  "n < 100 \<Longrightarrow> length (pad2 (nat_str n)) = 2 \<and> list_all is_digit (pad2 (nat_str n)) \<and>
     js_Number (pad2 (nat_str n)) = Some (int n)"
  using nat_str_length_le[of n 2] nat_str_digits[of n]
  by (simp add: pad2_def list_all_zeros js_Number_pad2[unfolded pad2_def] js_Number_nat_str)

lemma nat_str_no_dash: "CHR ''-'' \<notin> set (nat_str n)"
  using nat_str_digits[of n] by (auto simp: list_all_iff is_digit_def)

lemma pad2_no_dash: "CHR ''-'' \<notin> set (pad2 (nat_str n))"
  using nat_str_no_dash[of n] by (auto simp: pad2_def)

lemma unreserved_no_special:
  "list_all uri_unreserved d \<Longrightarrow> c \<in> {CHR ''+'', CHR ''&'', CHR ''='', CHR ''?'', CHR ''%'', CHR ''/''} \<Longrightarrow>
   c \<notin> set d"
  using uri_unreserved_special by (fastforce simp: list_all_iff)

lemma form_decode_plain: "CHR ''+'' \<notin> set s \<Longrightarrow> CHR ''%'' \<notin> set s \<Longrightarrow> form_decode s = s"
  by (simp add: form_decode_no_plus percent_decode_no_pct)

lemma strip_q_cons: "strip_q (CHR ''?'' # q) = q"
  by (simp add: strip_q_def)

lemma url_search_query: "CHR ''?'' \<notin> set p \<Longrightarrow> url_search (p @ CHR ''?'' # q) = CHR ''?'' # q"
  by (induction p) (auto simp: url_search_def)

lemma join_link_shape:
  assumes "a_id a = JString i" "u_id u = Some d" "d \<noteq> []" "u_username u = Some n"
  shows "join_link rl a u =
           (''/video-call/'' @ i) @ CHR ''?'' #
           ((''role'' @ CHR ''='' # rl) @ CHR ''&'' #
            ((''userId'' @ CHR ''='' # d) @ CHR ''&'' # (''userName'' @ CHR ''='' # encodeURIComponent n)))"
  using assms by (simp add: join_link_def js_str_def)

lemma join_link_params:
  assumes "a_id a = JString i" "i \<noteq> []" "list_all uri_unreserved i"
    "u_id u = Some d" "d \<noteq> []" "list_all uri_unreserved d"
    "u_username u = Some n" "is_ascii n" "rl \<noteq> []" "list_all uri_unreserved rl"
  shows "split_path (join_link rl a u) = [''video-call'', i] \<and>
         parse_query (url_search (join_link rl a u)) = [(''role'', rl), (''userId'', d), (''userName'', n)]"
proof -
  note sh = join_link_shape[OF assms(1,4,5,7), of rl]
  have ni: "CHR ''?'' \<notin> set (''/video-call/'' @ i)" "CHR ''/'' \<notin> set i" "CHR ''?'' \<notin> set i"
    using unreserved_no_special[OF assms(3)] by auto
  have p1: "split_path (join_link rl a u) = [''video-call'', i]"
    using sh split_path_query[OF ni(1)] split_path_video_call[OF assms(2) ni(2,3)] by simp
  have amp: "CHR ''&'' \<notin> set (''role'' @ CHR ''='' # rl)" "CHR ''&'' \<notin> set (''userId'' @ CHR ''='' # d)"
     "CHR ''&'' \<notin> set (''userName'' @ CHR ''='' # encodeURIComponent n)"
    using unreserved_no_special[OF assms(10)] unreserved_no_special[OF assms(6)] encode_special[of _ n] by auto
  have split: "js_split CHR ''&'' ((''role'' @ CHR ''='' # rl) @ CHR ''&'' #
            ((''userId'' @ CHR ''='' # d) @ CHR ''&'' # (''userName'' @ CHR ''='' # encodeURIComponent n))) =
        [''role'' @ CHR ''='' # rl, ''userId'' @ CHR ''='' # d, ''userName'' @ CHR ''='' # encodeURIComponent n]"
    by (simp only: js_split_sep[OF amp(1)] js_split_sep[OF amp(2)] js_split_single[OF amp(3)])
  have vals: "form_decode rl = rl" "form_decode d = d" "form_decode (encodeURIComponent n) = n"
    using unreserved_no_special[OF assms(10)] unreserved_no_special[OF assms(6)] form_decode_encode[OF assms(8)]
    by (auto intro: form_decode_plain)
  have keys: "form_decode ''role'' = ''role''" "form_decode ''userId'' = ''userId''"
     "form_decode ''userName'' = ''userName''"
    by (simp_all add: form_decode_plain)
  have p2: "parse_query (url_search (join_link rl a u)) = [(''role'', rl), (''userId'', d), (''userName'', n)]"
    unfolding sh url_search_query[OF ni(1)] parse_query_def strip_q_cons
    by (simp only: split) (simp add: parse_pair_def vals keys)
  show ?thesis using p1 p2 by simp
qed

section \<open>Properties\<close>

text \<open>
  C24: a patient can cancel an appointment that is neither cancelled nor completed
  exactly while the current time is more than one hour before its start.
\<close>

theorem cancel_window:
  assumes "js_new_date dp (startTime a) = Some t" "\<bar>t - 3600000\<bar> \<le> 8640000000000000"
    "status a \<noteq> JString ''CANCELLED''" "status a \<noteq> JString ''COMPLETED''"
  shows "canCancelAppointment dp now a \<longleftrightarrow> now + 3600000 < t"
  using assms by (auto simp: canCancelAppointment_def)

text \<open>
  C33: an appointment without a startTime (absent or null) can never be cancelled by
  the patient, although the list shows it by its date and time.
\<close>

theorem cancel_needs_startTime:
  assumes "startTime a = JUndefined \<or> startTime a = JNull" "0 \<le> now"
  shows "\<not> canCancelAppointment dp now a"
  using assms by (auto simp: canCancelAppointment_def time_clip_def)

text \<open>
  No status change the dashboards request starts from a cancelled or completed
  appointment, and completion is requested only for a confirmed one.
\<close>

theorem ui_transition_terminal:
  assumes "ui_transition dp now a s'"
  shows "status a \<noteq> JString ''CANCELLED'' \<and> status a \<noteq> JString ''COMPLETED'' \<and>
         (s' = ''COMPLETED'' \<longrightarrow> status a = JString ''CONFIRMED'')"
  using assms
proof cases
  case (doctor b st)
  then show ?thesis using doctor_transition_cases by fastforce
next
  case patient
  then show ?thesis by (simp add: canCancelAppointment_def split: if_splits)
qed

text \<open>
  C34: the calendar event of an appointment starts at a time within the range of a
  JavaScript Date, and ends exactly one hour later, whatever duration the appointment
  was booked for; an end past the range of a Date is an invalid date, and an
  appointment without a valid start has neither start nor end.
\<close>

theorem calendar_event_bounds:
  "pred_option (\<lambda>t. \<bar>t\<bar> \<le> 8640000000000000) (ev_start (to_event dp a)) \<and>
   ev_end (to_event dp a) =
     Option.bind (ev_start (to_event dp a)) (\<lambda>t. if t + 3600000 \<le> 8640000000000000 then Some (t + 3600000) else None)"
proof (cases "js_new_date dp (startTime a)")
  case (Some t)
  then have "\<bar>t\<bar> \<le> 8640000000000000" by (rule js_new_date_range)
  then show ?thesis using Some by (simp add: to_event_def time_clip_def abs_le_iff)
qed (simp add: to_event_def)

text \<open>
  C23: a booking request for a picked day is sent only for a slot at least five
  minutes ahead, starting between 9:00 and 17:00, with a doctor chosen, as a pending
  30-minute appointment on the picked day.
\<close>

theorem booking_request_checked:
  assumes "booking_validate u now b = BookingRequest r" "b_date b = Day d"
    "booking_time (b_time b) = (Some h, Some m)" "\<bar>local_ms d h m\<bar> \<le> 8640000000000000"
  shows "now + 300000 \<le> local_ms d h m \<and> 9 \<le> h \<and> h < 17 \<and> b_doctorId b \<noteq> [] \<and>
         rq_date r = format_date d \<and> rq_status r = ''PENDING'' \<and> rq_duration r = 30"
  using assms
  by (auto simp: booking_validate_def selected_time_def time_clip_def split: if_splits)

text \<open>
  C32: with an invalid typed date, a doctor and a time of the list, every check passes
  and the request is sent with the date NaN-NaN-NaN.
\<close>

theorem invalid_date_posted:
  assumes "b_date b = InvalidDate" "b_time b \<in> fst ` set time_options" "b_doctorId b \<noteq> []"
  shows "\<exists>r. booking_validate u now b = BookingRequest r \<and> rq_date r = ''NaN-NaN-NaN''"
proof -
  obtain h where "booking_time (b_time b) = (Some h, Some 0)" "9 \<le> h" "h < 17"
    using time_option_hour[OF assms(2)] .
  moreover have "b_time b \<noteq> []" using assms(2) by (auto simp: time_options_def)
  ultimately show ?thesis using assms(1,3) by (simp add: booking_validate_def selected_time_def)
qed

text \<open>
  C35: for a picked day of a four-digit year, the date sent with a booking is in the
  fixed-width form YYYY-MM-DD the code's comment promises: a year of four digits, a
  month and a day of two digits each (padded with a zero), separated by dashes, and
  each part reads back as the picked year, month and day.
\<close>

theorem format_date_roundtrip:
  assumes "1000 \<le> yr d" "yr d \<le> 9999" "1 \<le> mon d" "mon d \<le> 12" "1 \<le> dy d" "dy d \<le> 31"
  shows "\<exists>ys ms ds. format_date d = ys @ ''-'' @ ms @ ''-'' @ ds \<and>
           length ys = 4 \<and> length ms = 2 \<and> length ds = 2 \<and> list_all is_digit (ys @ ms @ ds) \<and>
           js_Number ys = Some (yr d) \<and> js_Number ms = Some (mon d) \<and> js_Number ds = Some (dy d)"
proof (intro exI conjI)
  show "format_date d = nat_str (nat (yr d)) @ ''-'' @ pad2 (nat_str (nat (mon d))) @ ''-'' @ pad2 (nat_str (nat (dy d)))"
    using assms by (simp add: format_date_def int_str_def)
  have "10 ^ 3 \<le> nat (yr d)" "nat (yr d) < 10 ^ 4" using assms(1,2) by simp_all
  then show "length (nat_str (nat (yr d))) = 4"
    using nat_str_length_le[of "nat (yr d)" 4] nat_str_length_ge[of 3 "nat (yr d)"] by simp
  have m: "nat (mon d) < 100" "nat (dy d) < 100" using assms(4,6) by simp_all
  show "length (pad2 (nat_str (nat (mon d)))) = 2" "length (pad2 (nat_str (nat (dy d)))) = 2"
    using pad2_nat_str[OF m(1)] pad2_nat_str[OF m(2)] by simp_all
  show "list_all is_digit (nat_str (nat (yr d)) @ pad2 (nat_str (nat (mon d))) @ pad2 (nat_str (nat (dy d))))"
    using pad2_nat_str[OF m(1)] pad2_nat_str[OF m(2)] nat_str_digits[of "nat (yr d)"] by simp
  show "js_Number (nat_str (nat (yr d))) = Some (yr d)" "js_Number (pad2 (nat_str (nat (mon d)))) = Some (mon d)"
    "js_Number (pad2 (nat_str (nat (dy d)))) = Some (dy d)"
    using pad2_nat_str[OF m(1)] pad2_nat_str[OF m(2)] js_Number_nat_str[of "nat (yr d)"] assms by simp_all
qed

section \<open>Witnesses\<close>

lemma demo_appt_fields [simp]:
  "startTime (demo_appt i st s) = st" "status (demo_appt i st s) = JString s"
  "medicalRecords (demo_appt i st s) = []"
  by (simp_all add: demo_appt_def)

lemma demo_parse_simps [simp]:
  "demo_parse ''2030-01-07T10:00:00'' = Some 1894010400000"
  "demo_parse ''2030-01-07T09:00:00'' = Some 1894006800000"
  by (simp_all add: demo_parse_def)

theorem cancel_window_witness:
  "canCancelAppointment demo_parse 0 (demo_appt ''1'' (JString ''2030-01-07T10:00:00'') ''CONFIRMED'')"
  using cancel_window[of demo_parse "demo_appt ''1'' (JString ''2030-01-07T10:00:00'') ''CONFIRMED''"
      1894010400000 0]
  by (simp add: time_clip_def)

theorem cancel_needs_startTime_witness:
  "\<not> canCancelAppointment demo_parse 1000 (demo_appt ''1'' JNull ''CONFIRMED'')"
  using cancel_needs_startTime[of "demo_appt ''1'' JNull ''CONFIRMED''" 1000 demo_parse] by simp

theorem ui_transition_terminal_witness:
  "status (demo_appt ''1'' JNull ''PENDING'') \<noteq> JString ''CANCELLED'' \<and>
   status (demo_appt ''1'' JNull ''PENDING'') \<noteq> JString ''COMPLETED''"
proof -
  have "ui_transition demo_parse 0 (demo_appt ''1'' JNull ''PENDING'') ''CONFIRMED''"
    by (rule ui_transition.doctor[of ConfirmB _ "''CONFIRM''"])
       (simp_all add: doctor_buttons_def button_endpoints del: list.map)
  then show ?thesis using ui_transition_terminal by blast
qed

theorem calendar_event_bounds_witness:
  "ev_end (to_event demo_parse (demo_appt ''1'' (JString ''2030-01-07T10:00:00'') ''PENDING'')) =
   Some 1894014000000"
  using calendar_event_bounds[of demo_parse "demo_appt ''1'' (JString ''2030-01-07T10:00:00'') ''PENDING''"]
  by (simp add: to_event_def time_clip_def)

theorem booking_request_checked_witness:
  "(300000::int) \<le> local_ms demo_day 10 0 \<and>
   rq_date \<lparr>patientId = Some ''jane'', rq_doctorId = ''7'', rq_time = ''10:00'',
      rq_date = ''2030-01-07'', rq_duration = 30, rq_reason = ''checkup'', rq_status = ''PENDING''\<rparr> =
   format_date demo_day"
proof -
  have v: "booking_validate demo_patient_user 0 (demo_booking (Day demo_day)) =
    BookingRequest \<lparr>patientId = Some ''jane'', rq_doctorId = ''7'', rq_time = ''10:00'',
      rq_date = ''2030-01-07'', rq_duration = 30, rq_reason = ''checkup'', rq_status = ''PENDING''\<rparr>"
    by code_simp
  have t: "booking_time ''10:00'' = (Some 10, Some 0)" by code_simp
  have l: "local_ms demo_day 10 0 = 1894010400000" by code_simp
  show ?thesis
    using booking_request_checked[OF v, of demo_day 10 0] t l by (simp add: demo_booking_def)
qed

theorem invalid_date_posted_witness:
  "\<exists>r. booking_validate demo_patient_user 0 (demo_booking InvalidDate) = BookingRequest r \<and>
       rq_date r = ''NaN-NaN-NaN''"
  using invalid_date_posted[of "demo_booking InvalidDate"]
  by (simp add: demo_booking_def time_options_def)

theorem format_date_roundtrip_witness:
  "\<exists>ys ms ds. format_date demo_day = ys @ ''-'' @ ms @ ''-'' @ ds \<and> length ys = 4 \<and> length ms = 2 \<and>
     js_Number ys = Some 2030 \<and> js_Number ms = Some 1 \<and> js_Number ds = Some 7"
  using format_date_roundtrip[of demo_day] by (auto simp: demo_day_def)

end
