(* ===== verification/Clinic.thy ===== *)
theory Clinic
  imports Dashboard
begin

text \<open>
  The appointment system behind the dashboards: the request handlers of
  \<open>src/src/pages/DoctorDashboard.jsx\<close> and \<open>src/src/pages/PatientDashboard.jsx\<close>
  that fetch, show, book and change appointments, the backend's store of appointments
  (the environment: it is not code of this repository), and their composition
  \<open>clinic_step\<close>. Against it stands the lifecycle an appointment is meant to follow,
  \<open>life_step\<close>, with the abstraction \<open>abs_store\<close> from the store to the status of
  each appointment. A request is an event whose outcome (response or failure) is a
  parameter; each handler runs to completion, as its awaits only wait for that
  outcome.
\<close>

section \<open>Request outcomes\<close>

datatype 'a fetched = Fetched 'a | FetchFailed

text \<open>The medical records the backend returns for an appointment id, if the request succeeds.\<close>

type_synonym records_of = "json_str \<Rightarrow> med_record list option"

section \<open>The doctor's dashboard (DoctorDashboard.jsx)\<close>

record ddash =
  d_appointments :: "appointment list"
  d_loading :: bool
  d_error :: "string option"
  d_selectedRecord :: "med_record option"
  d_openRecordDialog :: bool

text \<open>The state hooks (lines 29-33) at the first render.\<close>

definition ddash_init :: ddash where
  "ddash_init = \<lparr>d_appointments = [], d_loading = True, d_error = None, d_selectedRecord = None,
                 d_openRecordDialog = False\<rparr>"

text \<open>An appointment with the records fetched for it; a failed request gives none (lines 52-76).\<close>

definition with_records :: "records_of \<Rightarrow> appointment \<Rightarrow> appointment" where
  "with_records recs a = a\<lparr>medicalRecords := (case recs (a_id a) of Some r \<Rightarrow> r | None \<Rightarrow> [])\<rparr>"

text \<open>
  \<open>fetchAppointments\<close> (lines 36-88): the list with its records, or the error; the
  error is never cleared.
\<close>

definition doctor_fetch :: "records_of \<Rightarrow> appointment list fetched \<Rightarrow> ddash \<Rightarrow> ddash" where
  "doctor_fetch recs r s =
     (case r of
        Fetched data \<Rightarrow> s\<lparr>d_appointments := map (with_records recs) data, d_loading := False\<rparr>
      | FetchFailed \<Rightarrow> s\<lparr>d_error := Some ''Failed to load appointments'', d_loading := False\<rparr>)"

text \<open>\<open>handleViewRecord\<close> (lines 124-148): the first record, or an error.\<close>

definition doctor_viewRecord :: "med_record list fetched \<Rightarrow> ddash \<Rightarrow> ddash" where
  "doctor_viewRecord r s =
     (case r of
        Fetched (x # _) \<Rightarrow> s\<lparr>d_selectedRecord := Some x, d_openRecordDialog := True\<rparr>
      | Fetched [] \<Rightarrow> s\<lparr>d_error := Some ''No medical records found for this appointment''\<rparr>
      | FetchFailed \<Rightarrow> s\<lparr>d_error := Some ''Failed to load medical record''\<rparr>)"

text \<open>The record dialog's \<open>onClose\<close> and Close button (lines 317-319, 380).\<close>

definition doctor_closeRecord :: "ddash \<Rightarrow> ddash" where
  "doctor_closeRecord s = s\<lparr>d_openRecordDialog := False\<rparr>"

section \<open>The backend store\<close>

text \<open>
  The backend's store of the doctor's appointments, and its meaning of a status
  endpoint: the appointments with that id get the status the endpoint names
  (\<open>endpoint_status\<close>). The backend's own checks, if any, are not known to the
  repository and are not assumed.
\<close>

definition server_apply :: "json_str \<Rightarrow> string \<Rightarrow> appointment list \<Rightarrow> appointment list" where
  "server_apply aid e srv =
     (case endpoint_status e of
        Some s' \<Rightarrow> map (\<lambda>a. if a_id a = aid then a\<lparr>status := JString s'\<rparr> else a) srv
      | None \<Rightarrow> srv)"

text \<open>
  \<open>handleStatusUpdate\<close> (lines 94-122) with the request it sends: on success the
  store applies the lower-cased status and the list is fetched again; on failure
  only the error is set.
\<close>

definition doctor_statusUpdate ::
  "records_of \<Rightarrow> bool \<Rightarrow> bool \<Rightarrow> json_str \<Rightarrow> string \<Rightarrow> appointment list \<Rightarrow> ddash \<Rightarrow> appointment list \<times> ddash" where
  "doctor_statusUpdate recs ok ok2 aid st srv d =
     (if ok then
        (let srv' = server_apply aid (map ascii_lower st) srv
         in (srv', doctor_fetch recs (if ok2 then Fetched srv' else FetchFailed) d))
      else (srv, d\<lparr>d_error := Some ''Failed to update appointment status''\<rparr>))"

section \<open>The patient's dashboard (PatientDashboard.jsx)\<close>

text \<open>The state hooks (lines 37-53) at the first render.\<close>

definition pdash_init :: pdash where
  "pdash_init = \<lparr>p_appointments = [], p_doctors = [], p_selectedRecord = None, p_openRecordDialog = False,
                 p_loading = True, p_error = None, openBooking = False, bookingData = empty_booking,
                 successMessage = [], bookingValidationError = []\<rparr>"

text \<open>A doctor as the backend returns it.\<close>

record doctor_json =
  dj_id :: json_str
  dj__id :: json_str
  dj_fullName :: json_str
  dj_username :: json_str
  dj_specialty :: json_str
  dj_speciality :: json_str

text \<open>\<open>a || b\<close> on JSON values.\<close>

definition js_or :: "json_str \<Rightarrow> json_str \<Rightarrow> json_str" where
  "js_or a b = (if js_truthy_j a then a else b)"

definition format_doctor :: "doctor_json \<Rightarrow> doctor" where
  "format_doctor d =
     \<lparr>dr_id = js_or (dj_id d) (dj__id d), dr_fullName = js_or (dj_fullName d) (dj_username d),
      dr_username = dj_username d,
      dr_specialty = js_or (js_or (dj_specialty d) (dj_speciality d)) (JString ''General Medicine'')\<rparr>"

text \<open>\<open>fetchDoctors\<close> (lines 192-228).\<close>

definition fetchDoctors :: "doctor_json list fetched \<Rightarrow> pdash \<Rightarrow> pdash" where
  "fetchDoctors r s =
     (case r of
        Fetched data \<Rightarrow> s\<lparr>p_doctors := map format_doctor data\<rparr>
      | FetchFailed \<Rightarrow> s\<lparr>p_error := Some ''Failed to load doctors''\<rparr>)"

text \<open>\<open>handleViewRecord\<close> (lines 361-385).\<close>

definition patient_viewRecord :: "med_record list fetched \<Rightarrow> pdash \<Rightarrow> pdash" where
  "patient_viewRecord r s =
     (case r of
        Fetched (x # _) \<Rightarrow> s\<lparr>p_selectedRecord := Some x, p_openRecordDialog := True\<rparr>
      | Fetched [] \<Rightarrow> s\<lparr>p_error := Some ''No medical records found for this appointment''\<rparr>
      | FetchFailed \<Rightarrow> s\<lparr>p_error := Some ''Failed to load medical record''\<rparr>)"

text \<open>The Book Appointment button (line 472) and the dialog's Cancel and close (lines 697-705, 598-605).\<close>

definition openBookingDialog :: "pdash \<Rightarrow> pdash" where
  "openBookingDialog s = s\<lparr>openBooking := True\<rparr>"

definition closeBookingDialog :: "pdash \<Rightarrow> pdash" where
  "closeBookingDialog s = s\<lparr>openBooking := False, bookingData := empty_booking\<rparr>"

text \<open>
  The value a \<open>Select\<close> option carries: a string, or \<open>undefined\<close>, which every
  later use of \<open>doctorId\<close> treats as the empty string does (it only tests it).
\<close>

definition js_value :: "json_str \<Rightarrow> string" where
  "js_value v = (case v of JString x \<Rightarrow> x | _ \<Rightarrow> [])"

text \<open>The doctor \<open>Select\<close>'s option values, \<open>doctor.id || doctor._id\<close> (lines 631-650).\<close>

definition doctor_values :: "doctor list \<Rightarrow> string list" where
  "doctor_values ds = map (\<lambda>d. js_value (dr_id d)) ds"

text \<open>The form's \<open>onChange\<close> handlers (lines 617-627, 658, 673, 692).\<close>

definition setBookingDoctor :: "string \<Rightarrow> pdash \<Rightarrow> pdash" where
  "setBookingDoctor v s = s\<lparr>bookingData := (bookingData s)\<lparr>b_doctorId := v\<rparr>\<rparr>"

definition setBookingDate :: "picked_date \<Rightarrow> pdash \<Rightarrow> pdash" where
  "setBookingDate v s = s\<lparr>bookingData := (bookingData s)\<lparr>b_date := v\<rparr>\<rparr>"

definition setBookingTime :: "string \<Rightarrow> pdash \<Rightarrow> pdash" where
  "setBookingTime v s = s\<lparr>bookingData := (bookingData s)\<lparr>b_time := v\<rparr>\<rparr>"

definition setBookingReason :: "string \<Rightarrow> pdash \<Rightarrow> pdash" where
  "setBookingReason v s = s\<lparr>bookingData := (bookingData s)\<lparr>b_reason := v\<rparr>\<rparr>"

text \<open>
  \<open>handleCancelAppointment\<close> (lines 336-359): on success the store cancels, the list
  is fetched again and the success message shown; on failure only the error.
\<close>

definition patient_cancel :: "bool \<Rightarrow> json_str \<Rightarrow> appointment list \<Rightarrow> pdash \<Rightarrow> appointment list \<times> pdash" where
  "patient_cancel ok aid srv p =
     (if ok then (server_apply aid ''cancel'' srv,
                  (patient_fetchAppointments p)\<lparr>successMessage := ''Appointment cancelled successfully''\<rparr>)
      else (srv, p\<lparr>p_error := Some ''Failed to cancel appointment''\<rparr>))"

text \<open>The record dialog's \<open>onClose\<close> and Close button (lines 720, 777).\<close>

definition patient_closeRecord :: "pdash \<Rightarrow> pdash" where
  "patient_closeRecord s = s\<lparr>p_openRecordDialog := False\<rparr>"

text \<open>The timer set after a booking (lines 324-326) clears the success message.\<close>

definition clearSuccessMessage :: "pdash \<Rightarrow> pdash" where
  "clearSuccessMessage s = s\<lparr>successMessage := []\<rparr>"

text \<open>
  The backend's \<open>POST /appointments\<close>: it stores the request as a new appointment
  whose id is one more than the largest numeric id in the store.
\<close>

definition id_num :: "json_str \<Rightarrow> int" where
  "id_num v = (case v of JString s \<Rightarrow> (case js_Number s of Some n \<Rightarrow> n | None \<Rightarrow> 0) | _ \<Rightarrow> 0)"

definition fresh_id :: "appointment list \<Rightarrow> json_str" where
  "fresh_id srv = JString (nat_str (Suc (nat (fold max (map (\<lambda>a. id_num (a_id a)) srv) 0))))"

definition created_appt :: "json_str \<Rightarrow> appt_request \<Rightarrow> appointment" where
  "created_appt i rq =
     \<lparr>a_id = i, startTime = JString (rq_date rq @ ''T'' @ rq_time rq @ '':00''), a_date = JString (rq_date rq),
      a_time = JString (rq_time rq), status = JString (rq_status rq), durationInMinutes = Some (rq_duration rq),
      reason = JString (rq_reason rq), doctorName = JNull, patientName = JNull, medicalRecords = []\<rparr>"

definition server_create :: "appt_request \<Rightarrow> appointment list \<Rightarrow> appointment list" where
  "server_create rq srv = srv @ [created_appt (fresh_id srv) rq]"

text \<open>
  \<open>handleBookingSubmit\<close> (lines 234-334) with the Book button's guard (lines
  706-711): the checks, the POST and its outcome, in the store and on the page.
\<close>

definition patient_submit :: "auth_user \<Rightarrow> int \<Rightarrow> post_outcome \<Rightarrow> appointment list \<Rightarrow> pdash \<Rightarrow> appointment list \<times> pdash" where
  "patient_submit u now res srv p =
     (case submit_start u now p of
        (p', None) \<Rightarrow> (srv, p')
      | (p', Some rq) \<Rightarrow> ((case res of PostOk \<Rightarrow> server_create rq srv | PostFail _ \<Rightarrow> srv), submit_done p' res))"

section \<open>The system\<close>

record clinic =
  server :: "appointment list"
  doc :: ddash
  pat :: pdash

definition clinic_init :: "appointment list \<Rightarrow> clinic" where
  "clinic_init srv = \<lparr>server = srv, doc = ddash_init, pat = pdash_init\<rparr>"

text \<open>
  The events: the doctor's list loading (with its outcome and the records per
  appointment), a click on a row's button (with the outcomes of the update and of
  the fetch after it), viewing and closing a record; the patient's page loading, the
  doctors' list arriving, a click on Cancel (with the time and date parser
  \<open>canCancelAppointment\<close> reads), viewing and closing a record, opening, filling
  in, closing and submitting the booking dialog (with the user, the time and the
  POST's outcome), and the timer that clears the success message.
\<close>

datatype clinic_event =
    DocLoad records_of bool
  | DocClick nat doc_button bool records_of bool
  | DocView nat "med_record list fetched"
  | DocCloseRecord
  | PatLoad
  | PatCancel nat date_parse int bool
  | PatView nat "med_record list fetched"
  | PatCloseRecord
  | PatDoctors "doctor_json list fetched"
  | PatOpenBooking
  | PatCloseBooking
  | PatSetDoctor string
  | PatSetDate picked_date
  | PatSetTime string
  | PatSetReason string
  | PatSubmit auth_user int post_outcome
  | PatClearSuccess

text \<open>
  The booking dialog is on screen: opened, and the page not replaced by its loading
  spinner (line 443).
\<close>

definition dialog_shown :: "clinic \<Rightarrow> bool" where
  "dialog_shown s \<longleftrightarrow> openBooking (pat s) \<and> \<not> p_loading (pat s)"

fun clinic_step :: "clinic \<Rightarrow> clinic_event \<Rightarrow> clinic" where
  "clinic_step s (DocLoad recs ok) =
     s\<lparr>doc := doctor_fetch recs (if ok then Fetched (server s) else FetchFailed) (doc s)\<rparr>"
| "clinic_step s (DocClick i b ok recs ok2) =
     (if i < length (d_appointments (doc s)) \<and> b \<in> set (doctor_buttons (d_appointments (doc s) ! i)) then
        (case button_status b of
           Some st \<Rightarrow>
             (let r = doctor_statusUpdate recs ok ok2 (a_id (d_appointments (doc s) ! i)) st (server s) (doc s)
              in s\<lparr>server := fst r, doc := snd r\<rparr>)
         | None \<Rightarrow> s)
      else s)"
| "clinic_step s (DocView i r) =
     (if i < length (d_appointments (doc s)) \<and> ViewRecord \<in> set (doctor_buttons (d_appointments (doc s) ! i))
      then s\<lparr>doc := doctor_viewRecord r (doc s)\<rparr> else s)"
| "clinic_step s DocCloseRecord = s\<lparr>doc := doctor_closeRecord (doc s)\<rparr>"
| "clinic_step s PatLoad = s\<lparr>pat := patient_fetchAppointments (pat s)\<rparr>"
| "clinic_step s (PatCancel i dp now ok) =
     (if i < length (p_appointments (pat s)) \<and> canCancelAppointment dp now (p_appointments (pat s) ! i) then
        (let r = patient_cancel ok (a_id (p_appointments (pat s) ! i)) (server s) (pat s)
         in s\<lparr>server := fst r, pat := snd r\<rparr>)
      else s)"
| "clinic_step s (PatView i r) =
     (if i < length (p_appointments (pat s)) \<and> medicalRecords (p_appointments (pat s) ! i) \<noteq> []
      then s\<lparr>pat := patient_viewRecord r (pat s)\<rparr> else s)"
| "clinic_step s PatCloseRecord = s\<lparr>pat := patient_closeRecord (pat s)\<rparr>"
| "clinic_step s (PatDoctors r) = s\<lparr>pat := fetchDoctors r (pat s)\<rparr>"
| "clinic_step s PatOpenBooking = (if p_loading (pat s) then s else s\<lparr>pat := openBookingDialog (pat s)\<rparr>)"
| "clinic_step s PatCloseBooking = (if dialog_shown s then s\<lparr>pat := closeBookingDialog (pat s)\<rparr> else s)"
| "clinic_step s (PatSetDoctor v) =
     (if dialog_shown s \<and> v \<in> set (doctor_values (p_doctors (pat s))) then s\<lparr>pat := setBookingDoctor v (pat s)\<rparr>
      else s)"
| "clinic_step s (PatSetDate v) = (if dialog_shown s then s\<lparr>pat := setBookingDate v (pat s)\<rparr> else s)"
| "clinic_step s (PatSetTime v) =
     (if dialog_shown s \<and> v \<in> set (map fst time_options) then s\<lparr>pat := setBookingTime v (pat s)\<rparr> else s)"
| "clinic_step s (PatSetReason v) = (if dialog_shown s then s\<lparr>pat := setBookingReason v (pat s)\<rparr> else s)"
| "clinic_step s (PatSubmit u now res) =
     (if dialog_shown s \<and> book_enabled (bookingData (pat s)) then
        (let r = patient_submit u now res (server s) (pat s) in s\<lparr>server := fst r, pat := snd r\<rparr>)
      else s)"
| "clinic_step s PatClearSuccess = s\<lparr>pat := clearSuccessMessage (pat s)\<rparr>"

fun clinic_run :: "clinic \<Rightarrow> clinic_event list \<Rightarrow> clinic" where
  "clinic_run s [] = s"
| "clinic_run s (e # es) = clinic_run (clinic_step s e) es"

text \<open>The states a run passes through, the first included.\<close>

fun clinic_trace :: "clinic \<Rightarrow> clinic_event list \<Rightarrow> clinic list" where
  "clinic_trace s [] = [s]"
| "clinic_trace s (e # es) = s # clinic_trace (clinic_step s e) es"

text \<open>A run is reliable when every fetch that follows a successful status update succeeds.\<close>

fun reliable :: "clinic_event \<Rightarrow> bool" where
  "reliable (DocClick i b ok recs ok2) = (ok \<longrightarrow> ok2)"
| "reliable _ = True"

section \<open>The lifecycle of an appointment\<close>

datatype astatus = APending | AConfirmed | ACompleted | ACancelled

definition astat_of :: "json_str \<Rightarrow> astatus option" where
  "astat_of st =
     (if st = JString ''PENDING'' then Some APending
      else if st = JString ''CONFIRMED'' then Some AConfirmed
      else if st = JString ''COMPLETED'' then Some ACompleted
      else if st = JString ''CANCELLED'' then Some ACancelled else None)"

text \<open>A pending appointment is confirmed or cancelled; a confirmed one completed or cancelled.\<close>

inductive life_step :: "astatus \<Rightarrow> astatus \<Rightarrow> bool" where
  confirm: "life_step APending AConfirmed"
| cancel_pending: "life_step APending ACancelled"
| complete: "life_step AConfirmed ACompleted"
| cancel_confirmed: "life_step AConfirmed ACancelled"

text \<open>The abstraction: the status of each appointment id in the store (the first with that id).\<close>

definition abs_store :: "appointment list \<Rightarrow> json_str \<Rightarrow> astatus option" where
  "abs_store srv i = Option.bind (map_of (map (\<lambda>a. (a_id a, status a)) srv) i) astat_of"

text \<open>
  An abstract step: nothing changes, one appointment takes a lifecycle step, or a new
  appointment is created pending.
\<close>

definition abs_step :: "(json_str \<Rightarrow> astatus option) \<Rightarrow> (json_str \<Rightarrow> astatus option) \<Rightarrow> bool" where
  "abs_step m m' \<longleftrightarrow>
     m' = m \<or> (\<exists>i x y. m i = Some x \<and> life_step x y \<and> m' = m(i \<mapsto> y)) \<or> (\<exists>i. m i = None \<and> m' = m(i \<mapsto> APending))"

text \<open>The store is well-typed: ids are distinct and every status is one of the four.\<close>

definition store_ok :: "appointment list \<Rightarrow> bool" where
  "store_ok srv \<longleftrightarrow> distinct (map a_id srv) \<and> (\<forall>a\<in>set srv. astat_of (status a) \<noteq> None)"

text \<open>The doctor's list shows every appointment with the status the store has for it.\<close>

definition view_sync :: "clinic \<Rightarrow> bool" where
  "view_sync s \<longleftrightarrow> (\<forall>a\<in>set (d_appointments (doc s)). \<exists>b\<in>set (server s). a_id b = a_id a \<and> status b = status a)"

definition clinic_inv :: "clinic \<Rightarrow> bool" where
  "clinic_inv s \<longleftrightarrow> store_ok (server s) \<and> view_sync s \<and> p_appointments (pat s) = []"

text \<open>How many lifecycle steps an appointment can still take.\<close>

fun rank :: "astatus \<Rightarrow> nat" where
  "rank APending = 2"
| "rank AConfirmed = 1"
| "rank ACompleted = 0"
| "rank ACancelled = 0"

text \<open>How many changes an id can still see: its creation, then its lifecycle steps.\<close>

fun pot :: "astatus option \<Rightarrow> nat" where
  "pot None = 3"
| "pot (Some x) = rank x"

text \<open>How many times the status of an appointment changes along a sequence of states.\<close>

fun status_changes :: "json_str \<Rightarrow> clinic list \<Rightarrow> nat" where
  "status_changes i (s # t # ss) =
     (if abs_store (server s) i \<noteq> abs_store (server t) i then 1 else 0) + status_changes i (t # ss)"
| "status_changes i _ = 0"

section \<open>Sample values\<close>

definition no_records :: records_of where
  "no_records i = Some []"

definition demo_store :: "appointment list" where
  "demo_store = [demo_appt ''1'' JNull ''PENDING'']"

text \<open>The doctor loads the list, confirms the appointment and completes it.\<close>

definition demo_click_run :: "clinic_event list" where
  "demo_click_run =
     [DocLoad no_records True, DocClick 0 ConfirmB True no_records True, DocClick 0 CompleteB True no_records True]"

definition demo_doctor_json :: doctor_json where
  "demo_doctor_json = \<lparr>dj_id = JString ''7'', dj__id = JUndefined, dj_fullName = JString ''Ann Lee'',
     dj_username = JString ''drlee'', dj_specialty = JString ''Cardiology'', dj_speciality = JUndefined\<rparr>"

text \<open>The patient's doctors arrive, and the patient fills in the booking form with every field.\<close>

definition booking_run :: "clinic_event list" where
  "booking_run =
     [PatLoad, PatDoctors (Fetched [demo_doctor_json]), PatOpenBooking, PatSetDoctor ''7'',
      PatSetDate (Day demo_day), PatSetTime ''10:00'',
      PatSetReason ''checkup'']"

section \<open>Lemmas\<close>

lemma endpoint_status_known: "endpoint_status e = Some s' \<Longrightarrow> astat_of (JString s') \<noteq> None"
  by (auto simp: endpoint_status_def astat_of_def split: if_splits)

lemma server_apply_ids [simp]: "map a_id (server_apply aid e srv) = map a_id srv"
  by (induction srv) (auto simp: server_apply_def split: option.splits)

lemma store_ok_server_apply: "store_ok srv \<Longrightarrow> store_ok (server_apply aid e srv)"
proof -
  assume ok: "store_ok srv"
  have "\<forall>a\<in>set (server_apply aid e srv). astat_of (status a) \<noteq> None"
    using ok endpoint_status_known by (auto simp: store_ok_def server_apply_def split: option.splits)
  then show ?thesis using ok server_apply_ids[of aid e srv] by (simp add: store_ok_def)
qed

lemma fst_doctor_statusUpdate:
  "fst (doctor_statusUpdate recs ok ok2 aid st srv d) = (if ok then server_apply aid (map ascii_lower st) srv else srv)"
  by (simp add: doctor_statusUpdate_def Let_def)

lemma fst_patient_cancel: "fst (patient_cancel ok aid srv p) = (if ok then server_apply aid ''cancel'' srv else srv)"
  by (simp add: patient_cancel_def)

lemma fold_max_ge: "(m::int) \<le> fold max xs m \<and> (\<forall>x\<in>set xs. x \<le> fold max xs m)"
proof (induction xs arbitrary: m)
  case (Cons x xs)
  have "max x m \<le> fold max xs (max x m)" "\<forall>y\<in>set xs. y \<le> fold max xs (max x m)"
    using Cons.IH[of "max x m"] by blast+
  then show ?case by fastforce
qed simp

lemma fresh_id_fresh: "fresh_id srv \<notin> set (map a_id srv)"
proof
  assume "fresh_id srv \<in> set (map a_id srv)"
  then obtain a where a: "a \<in> set srv" "a_id a = fresh_id srv" by auto
  define M where "M = fold max (map (\<lambda>a. id_num (a_id a)) srv) 0"
  have "id_num (a_id a) \<le> M" using fold_max_ge[of 0 "map (\<lambda>a. id_num (a_id a)) srv"] a(1) by (auto simp: M_def)
  moreover have "id_num (a_id a) = int (Suc (nat M))"
    using a(2) nat_str_digits[of "Suc (nat M)"] by (simp add: fresh_id_def M_def id_num_def js_Number_def)
  ultimately show False by (cases "0 \<le> M") simp_all
qed

lemma booking_validate_pending: "booking_validate u now b = BookingRequest r \<Longrightarrow> rq_status r = ''PENDING''"
  by (auto simp: booking_validate_def Let_def split: if_splits prod.splits)

lemma patient_submit_server:
  "fst (patient_submit u now res srv p) = srv \<or>
   (\<exists>rq. rq_status rq = ''PENDING'' \<and> fst (patient_submit u now res srv p) = server_create rq srv)"
  by (auto simp: patient_submit_def submit_start_def split: booking_check.splits post_outcome.splits
           dest: booking_validate_pending)

lemma store_ok_server_create: "store_ok srv \<Longrightarrow> rq_status rq = ''PENDING'' \<Longrightarrow> store_ok (server_create rq srv)"
  using fresh_id_fresh[of srv] by (auto simp: store_ok_def server_create_def created_appt_def astat_of_def)

lemma clinic_step_server:
  "server (clinic_step s e) = server s \<or> (\<exists>aid ep. server (clinic_step s e) = server_apply aid ep (server s)) \<or>
   (\<exists>rq. rq_status rq = ''PENDING'' \<and> server (clinic_step s e) = server_create rq (server s))"
proof (cases e)
  case (DocClick i b ok recs ok2)
  then show ?thesis
    using fst_doctor_statusUpdate[of recs ok ok2 _ _ "server s" "doc s"]
    by (auto simp: Let_def split: prod.splits option.splits if_splits)
next
  case (PatCancel i dp now ok)
  then show ?thesis
    using fst_patient_cancel[of ok _ "server s" "pat s"]
    by (auto simp: Let_def split: prod.splits if_splits)
next
  case (PatSubmit u now res)
  then show ?thesis using patient_submit_server[of u now res "server s" "pat s"] by (auto simp: Let_def)
qed simp_all




lemma with_records_fields [simp]:
  "a_id (with_records recs a) = a_id a" "status (with_records recs a) = status a"
  by (simp_all add: with_records_def)

lemma map_of_status_update:
  "map_of (map (\<lambda>a. (a_id a, status a)) (map (\<lambda>a. if a_id a = aid then a\<lparr>status := v\<rparr> else a) srv)) =
   (if aid \<in> set (map a_id srv) then (map_of (map (\<lambda>a. (a_id a, status a)) srv))(aid \<mapsto> v)
    else map_of (map (\<lambda>a. (a_id a, status a)) srv))"
  by (induction srv) (auto simp: fun_eq_iff)

lemma abs_store_server_apply:
  assumes "endpoint_status e = Some s'" "aid \<in> set (map a_id srv)"
  shows "abs_store (server_apply aid e srv) = (abs_store srv)(aid := astat_of (JString s'))"
  using assms by (simp add: abs_store_def server_apply_def map_of_status_update fun_eq_iff del: map_map)

lemma abs_store_lookup:
  assumes "distinct (map a_id srv)" "b \<in> set srv"
  shows "abs_store srv (a_id b) = astat_of (status b)"
proof -
  have "distinct (map fst (map (\<lambda>a. (a_id a, status a)) srv))" using assms(1) by (simp add: comp_def)
  moreover have "(a_id b, status b) \<in> set (map (\<lambda>a. (a_id a, status a)) srv)" using assms(2) by auto
  ultimately show ?thesis by (simp add: abs_store_def map_of_is_SomeI)
qed

lemma map_of_fresh: "map_of (map (\<lambda>a. (a_id a, status a)) srv) (fresh_id srv) = None"
  using fresh_id_fresh[of srv] by (simp add: map_of_eq_None_iff image_image)

lemma abs_store_fresh: "abs_store srv (fresh_id srv) = None"
  by (simp add: abs_store_def map_of_fresh)

lemma map_of_snoc_fresh: "map_of xs k = None \<Longrightarrow> map_of (xs @ [(k, v)]) = (map_of xs)(k \<mapsto> v)"
  by (rule ext) (simp add: map_add_def split: option.splits)

lemma abs_store_server_create:
  assumes "rq_status rq = ''PENDING''"
  shows "abs_store (server_create rq srv) = (abs_store srv)(fresh_id srv \<mapsto> APending)"
proof -
  have "map_of (map (\<lambda>a. (a_id a, status a)) (server_create rq srv)) =
        (map_of (map (\<lambda>a. (a_id a, status a)) srv))(fresh_id srv \<mapsto> JString ''PENDING'')"
    using map_of_snoc_fresh[OF map_of_fresh] assms by (simp add: server_create_def created_appt_def)
  then show ?thesis by (simp add: abs_store_def fun_eq_iff astat_of_def)
qed

lemma abs_step_create: "rq_status rq = ''PENDING'' \<Longrightarrow> abs_step (abs_store srv) (abs_store (server_create rq srv))"
  unfolding abs_step_def using abs_store_fresh[of srv] abs_store_server_create[of rq srv] by blast

lemma view_sync_upd_pat [simp]: "view_sync (s\<lparr>pat := p\<rparr>) = view_sync s"
  by (simp add: view_sync_def)

lemma view_sync_server_create: "view_sync s \<Longrightarrow> view_sync (s\<lparr>server := server_create rq (server s)\<rparr>)"
  by (fastforce simp: view_sync_def server_create_def)

lemma clinic_inv_upd_pat:
  "p_appointments p = p_appointments (pat s) \<Longrightarrow> clinic_inv (s\<lparr>pat := p\<rparr>) = clinic_inv s"
  by (simp add: clinic_inv_def)

lemma patient_handlers_list [simp]:
  "p_appointments (patient_closeRecord p) = p_appointments p"
  "p_appointments (fetchDoctors r p) = p_appointments p"
  "p_appointments (openBookingDialog p) = p_appointments p"
  "p_appointments (closeBookingDialog p) = p_appointments p"
  "p_appointments (setBookingDoctor v p) = p_appointments p"
  "p_appointments (setBookingDate d p) = p_appointments p"
  "p_appointments (setBookingTime v p) = p_appointments p"
  "p_appointments (setBookingReason v p) = p_appointments p"
  "p_appointments (clearSuccessMessage p) = p_appointments p"
  by (simp_all add: patient_closeRecord_def fetchDoctors_def openBookingDialog_def closeBookingDialog_def
      setBookingDoctor_def setBookingDate_def setBookingTime_def setBookingReason_def clearSuccessMessage_def
      split: fetched.splits)

lemma patient_submit_list:
  "p_appointments p = [] \<Longrightarrow> p_appointments (snd (patient_submit u now res srv p)) = []"
  by (auto simp: patient_submit_def submit_start_def submit_done_def patient_fetchAppointments_def
           split: booking_check.splits post_outcome.splits)

lemma button_endpoint_some: "button_status b = Some st \<Longrightarrow> \<exists>s'. endpoint_status (map ascii_lower st) = Some s'"
  by (cases b) (auto simp: button_endpoints simp del: list.map)

lemma view_sync_fetched:
  "\<forall>a\<in>set (map (with_records recs) srv). \<exists>b\<in>set srv. a_id b = a_id a \<and> status b = status a"
  by auto

lemma abs_step_refl: "abs_step m m"
  by (simp add: abs_step_def)

lemma astat_life_step:
  assumes "(status a = JString ''PENDING'' \<and> (s' = ''CONFIRMED'' \<or> s' = ''CANCELLED'')) \<or>
           (status a = JString ''CONFIRMED'' \<and> s' = ''COMPLETED'')"
  obtains x y where "astat_of (status a) = Some x" "astat_of (JString s') = Some y" "life_step x y"
  using assms by (auto simp: astat_of_def intro: that life_step.intros)

text \<open>The doctor's click on a status button of a synchronised view is a lifecycle step.\<close>

lemma doc_click_abs:
  assumes inv: "clinic_inv s" and i: "i < length (d_appointments (doc s))"
    and b: "b \<in> set (doctor_buttons (d_appointments (doc s) ! i))" and st: "button_status b = Some st"
  shows "abs_step (abs_store (server s))
           (abs_store (server_apply (a_id (d_appointments (doc s) ! i)) (map ascii_lower st) (server s)))"
proof -
  let ?a = "d_appointments (doc s) ! i"
  obtain s' where e: "endpoint_status (map ascii_lower st) = Some s'" using button_endpoint_some[OF st] by blast
  have "?a \<in> set (d_appointments (doc s))" using i by simp
  then obtain b0 where b0: "b0 \<in> set (server s)" "a_id b0 = a_id ?a" "status b0 = status ?a"
    using inv by (auto simp: clinic_inv_def view_sync_def)
  have dist: "distinct (map a_id (server s))" using inv by (simp add: clinic_inv_def store_ok_def)
  obtain x y where xy: "astat_of (status ?a) = Some x" "astat_of (JString s') = Some y" "life_step x y"
    using doctor_transition_cases[OF b st e] by (rule astat_life_step)
  have ax: "abs_store (server s) (a_id ?a) = Some x" using abs_store_lookup[OF dist b0(1)] b0 xy by simp
  have "a_id ?a \<in> set (map a_id (server s))" using b0 by (metis image_eqI set_map)
  then have "abs_store (server_apply (a_id ?a) (map ascii_lower st) (server s)) =
             (abs_store (server s))(a_id ?a \<mapsto> y)"
    using abs_store_server_apply[OF e] xy by simp
  then show ?thesis using ax xy(3) unfolding abs_step_def by blast
qed


lemma clinic_inv_upd_doc:
  "d_appointments d = d_appointments (doc s) \<Longrightarrow> clinic_inv (s\<lparr>doc := d\<rparr>) = clinic_inv s"
  by (simp add: clinic_inv_def view_sync_def)

lemma doc_click_step:
  assumes inv: "clinic_inv s" and rel: "ok \<longrightarrow> ok2"
  shows "abs_step (abs_store (server s)) (abs_store (server (clinic_step s (DocClick i b ok recs ok2)))) \<and>
         clinic_inv (clinic_step s (DocClick i b ok recs ok2))"
proof (cases "i < length (d_appointments (doc s)) \<and> b \<in> set (doctor_buttons (d_appointments (doc s) ! i))")
  case True
  show ?thesis
  proof (cases "button_status b")
    case (Some st)
    let ?aid = "a_id (d_appointments (doc s) ! i)"
    show ?thesis
    proof (cases ok)
      case ok: True
      let ?srv = "server_apply ?aid (map ascii_lower st) (server s)"
      have step: "clinic_step s (DocClick i b ok recs ok2) =
                  s\<lparr>server := ?srv, doc := doctor_fetch recs (Fetched ?srv) (doc s)\<rparr>"
        using True Some ok rel by (simp add: doctor_statusUpdate_def Let_def)
      have "store_ok ?srv" using inv store_ok_server_apply by (simp add: clinic_inv_def)
      then have "clinic_inv (clinic_step s (DocClick i b ok recs ok2))"
        unfolding step using inv by (auto simp: clinic_inv_def view_sync_def doctor_fetch_def)
      moreover have "abs_step (abs_store (server s)) (abs_store (server (clinic_step s (DocClick i b ok recs ok2))))"
        unfolding step using doc_click_abs[OF inv _ _ Some] True by simp
      ultimately show ?thesis by simp
    next
      case False
      then show ?thesis using True Some inv
        by (simp add: doctor_statusUpdate_def abs_step_refl clinic_inv_upd_doc)
    qed
  qed (use True inv in \<open>simp add: abs_step_refl\<close>)
qed (use inv in \<open>auto simp: abs_step_refl\<close>)

lemma clinic_step_refines:
  assumes "clinic_inv s" "reliable e"
  shows "abs_step (abs_store (server s)) (abs_store (server (clinic_step s e))) \<and> clinic_inv (clinic_step s e)"
proof (cases e)
  case (DocLoad recs ok)
  then show ?thesis using assms
    by (auto simp: abs_step_refl clinic_inv_def view_sync_def doctor_fetch_def)
next
  case (DocClick i b ok recs ok2)
  then show ?thesis using assms doc_click_step by simp
next
  case (DocView i r)
  then show ?thesis using assms
    by (simp add: abs_step_refl clinic_inv_upd_doc doctor_viewRecord_def split: fetched.splits list.splits)
next
  case DocCloseRecord
  then show ?thesis using assms by (simp add: abs_step_refl clinic_inv_upd_doc doctor_closeRecord_def)
next
  case PatLoad
  then show ?thesis using assms by (simp add: abs_step_refl clinic_inv_def view_sync_def patient_fetchAppointments_def)
next
  case (PatCancel i dp now ok)
  then show ?thesis using assms by (simp add: abs_step_refl clinic_inv_def)
next
  case (PatView i r)
  then show ?thesis using assms by (simp add: abs_step_refl clinic_inv_def)
next
  case (PatSubmit u now res)
  show ?thesis
  proof (cases "dialog_shown s \<and> book_enabled (bookingData (pat s))")
    case True
    let ?r = "patient_submit u now res (server s) (pat s)"
    have st: "clinic_step s e = s\<lparr>server := fst ?r, pat := snd ?r\<rparr>" using PatSubmit True by (simp add: Let_def)
    have pa: "p_appointments (snd ?r) = []" using assms(1) patient_submit_list by (simp add: clinic_inv_def)
    from patient_submit_server[of u now res "server s" "pat s"] show ?thesis
    proof
      assume "fst ?r = server s"
      then show ?thesis using assms(1) pa by (simp add: st abs_step_refl clinic_inv_def)
    next
      assume "\<exists>rq. rq_status rq = ''PENDING'' \<and> fst ?r = server_create rq (server s)"
      then obtain rq where rq: "rq_status rq = ''PENDING''" "fst ?r = server_create rq (server s)" by blast
      have "view_sync (s\<lparr>server := server_create rq (server s)\<rparr>)"
        using assms(1) view_sync_server_create by (simp add: clinic_inv_def)
      then show ?thesis using assms(1) pa abs_step_create[OF rq(1)] store_ok_server_create[OF _ rq(1)]
        by (simp add: st rq(2) clinic_inv_def view_sync_def)
    qed
  next
    case False
    then show ?thesis using PatSubmit assms by (auto simp: abs_step_refl)
  qed
qed (use assms in \<open>simp_all add: abs_step_refl clinic_inv_upd_pat\<close>)


lemma clinic_inv_run: "clinic_inv s \<Longrightarrow> list_all reliable es \<Longrightarrow> clinic_inv (clinic_run s es)"
  by (induction es arbitrary: s) (simp_all add: clinic_step_refines)

lemma life_step_rank: "life_step x y \<Longrightarrow> rank y < rank x"
  by (induction rule: life_step.induct) simp_all

lemma rank_le_2: "rank x \<le> 2"
  by (cases x) simp_all

lemma abs_step_pot:
  assumes "abs_step m m'"
  shows "pot (m' i) + (if m i \<noteq> m' i then 1 else 0) \<le> pot (m i)"
  using assms life_step_rank unfolding abs_step_def by fastforce

lemma status_changes_Cons:
  "status_changes i (s # clinic_trace t es) =
   (if abs_store (server s) i \<noteq> abs_store (server t) i then 1 else 0) + status_changes i (clinic_trace t es)"
  by (cases es) simp_all

lemma status_changes_pot:
  assumes "clinic_inv s" "list_all reliable es"
  shows "status_changes i (clinic_trace s es) + pot (abs_store (server (clinic_run s es)) i) \<le>
         pot (abs_store (server s) i)"
  using assms
proof (induction es arbitrary: s)
  case (Cons e es)
  have r: "reliable e" "list_all reliable es" using Cons.prems(2) by simp_all
  note ref = clinic_step_refines[OF Cons.prems(1) r(1)]
  have "status_changes i (clinic_trace (clinic_step s e) es) + pot (abs_store (server (clinic_run (clinic_step s e) es)) i) \<le>
        pot (abs_store (server (clinic_step s e)) i)"
    using Cons.IH ref r(2) by blast
  then show ?case using abs_step_pot[OF conjunct1[OF ref], of i] by (simp add: status_changes_Cons)
qed simp

lemma pot_le_3: "pot m \<le> 3"
  using rank_le_2[of "the m"] by (cases m) simp_all

section \<open>Properties\<close>

text \<open>
  C9: Refinement of the appointment lifecycle: along a reliable run from a state of
  the invariant, every step of the two dashboards and the store either leaves the
  abstract store unchanged, moves one appointment one step of the lifecycle
  (confirm, cancel, complete), or creates one new pending appointment.
\<close>

theorem lifecycle_refinement:
  assumes "clinic_inv s" "list_all reliable es" "k < length es"
  shows "abs_step (abs_store (server (clinic_trace s es ! k))) (abs_store (server (clinic_trace s es ! Suc k)))"
  using assms
proof (induction es arbitrary: s k)
  case (Cons e es)
  have r: "reliable e" "list_all reliable es" using Cons.prems(2) by simp_all
  note ref = clinic_step_refines[OF Cons.prems(1) r(1)]
  show ?case
  proof (cases k)
    case 0
    then show ?thesis using ref by (cases es) simp_all
  next
    case (Suc j)
    then show ?thesis using Cons.IH[of "clinic_step s e" j] ref r(2) Cons.prems(3) by simp
  qed
qed simp

text \<open>
  C20: Termination of the lifecycle: along any reliable run from a state of the
  invariant, the abstract status of one appointment id changes at most three times:
  its creation by a booking, then at most two status changes.
\<close>

theorem status_changes_bounded:
  assumes "clinic_inv s" "list_all reliable es"
  shows "status_changes i (clinic_trace s es) \<le> 3"
  using status_changes_pot[OF assms, of i] pot_le_3[of "abs_store (server s) i"] by linarith

text \<open>
  C26: The doctor dashboard never clears its error: once a fetch or a status update
  has failed, every later event leaves the error message set.
\<close>

theorem doctor_error_sticky:
  "d_error (doc s) \<noteq> None \<Longrightarrow> d_error (doc (clinic_step s e)) \<noteq> None"
  by (cases e)
     (auto simp: doctor_fetch_def doctor_viewRecord_def doctor_closeRecord_def doctor_statusUpdate_def Let_def
           split: fetched.splits list.splits option.splits)

text \<open>
  C21: A booking submitted from the dialog with every field filled, that passes the
  checks of handleBookingSubmit and that the backend accepts, adds exactly one
  appointment to the store: pending, under an id no appointment had, with the
  request's date, time and reason. The patient's list is fetched again and stays
  empty, so the new appointment is not shown.
\<close>

theorem booking_creates_pending:
  assumes "dialog_shown s" "book_enabled (bookingData (pat s))"
    and "booking_validate u now (bookingData (pat s)) = BookingRequest rq"
  shows "server (clinic_step s (PatSubmit u now PostOk)) = server s @ [created_appt (fresh_id (server s)) rq] \<and>
         fresh_id (server s) \<notin> set (map a_id (server s)) \<and> rq_status rq = ''PENDING'' \<and>
         p_appointments (pat (clinic_step s (PatSubmit u now PostOk))) = [] \<and>
         successMessage (pat (clinic_step s (PatSubmit u now PostOk))) = ''Appointment booked successfully!''"
  using assms fresh_id_fresh[of "server s"] booking_validate_pending[OF assms(3)]
  by (simp add: patient_submit_def submit_start_def submit_done_def server_create_def patient_fetchAppointments_def)

section \<open>Witnesses\<close>

lemma demo_store_inv: "clinic_inv (clinic_init demo_store)"
  by code_simp

theorem lifecycle_refinement_witness:
  "list_all reliable demo_click_run \<and> 1 < length demo_click_run \<and>
   abs_step (abs_store (server (clinic_trace (clinic_init demo_store) demo_click_run ! 1)))
            (abs_store (server (clinic_trace (clinic_init demo_store) demo_click_run ! 2)))"
  using lifecycle_refinement[OF demo_store_inv, of demo_click_run 1] by (simp add: demo_click_run_def)

theorem status_changes_bounded_witness:
  "list_all reliable demo_click_run \<and>
   status_changes (JString ''1'') (clinic_trace (clinic_init demo_store) demo_click_run) \<le> 3"
  using status_changes_bounded[OF demo_store_inv, of demo_click_run] by (simp add: demo_click_run_def)

theorem booking_creates_pending_witness:
  "dialog_shown (clinic_run (clinic_init demo_store) booking_run) \<and>
   book_enabled (bookingData (pat (clinic_run (clinic_init demo_store) booking_run))) \<and>
   server (clinic_step (clinic_run (clinic_init demo_store) booking_run) (PatSubmit demo_patient_user 0 PostOk)) =
     demo_store @ [created_appt (JString ''2'')
       \<lparr>patientId = Some ''jane'', rq_doctorId = ''7'', rq_time = ''10:00'', rq_date = ''2030-01-07'',
        rq_duration = 30, rq_reason = ''checkup'', rq_status = ''PENDING''\<rparr>]"
proof -
  let ?s = "clinic_run (clinic_init demo_store) booking_run"
  have d: "dialog_shown ?s" "book_enabled (bookingData (pat ?s))" by code_simp+
  have b: "bookingData (pat ?s) = demo_booking (Day demo_day)" by code_simp
  have v: "booking_validate demo_patient_user 0 (demo_booking (Day demo_day)) =
    BookingRequest \<lparr>patientId = Some ''jane'', rq_doctorId = ''7'', rq_time = ''10:00'',
      rq_date = ''2030-01-07'', rq_duration = 30, rq_reason = ''checkup'', rq_status = ''PENDING''\<rparr>"
    by code_simp
  have srv: "server ?s = demo_store" "fresh_id demo_store = JString ''2''" by code_simp+
  show ?thesis using booking_creates_pending[OF d, of demo_patient_user 0] b v srv d by simp
qed

theorem doctor_error_sticky_witness:
  "d_error (doc (clinic_step (clinic_init demo_store) (DocLoad no_records False))) \<noteq> None \<and>
   d_error (doc (clinic_step (clinic_step (clinic_init demo_store) (DocLoad no_records False))
     (DocLoad no_records True))) \<noteq> None"
  using doctor_error_sticky[of "clinic_step (clinic_init demo_store) (DocLoad no_records False)"]
  by (simp add: clinic_init_def doctor_fetch_def)

end
