(* ===== verification/Navbar.thy ===== *)
theory Navbar
  imports Auth Url
begin

text \<open>
  The navigation bar of \<open>src/src/components/Navbar.jsx\<close> as a component: its one
  state hook \<open>anchorEl\<close> (the element the account menu is anchored at, or null), the
  location it navigates, and the clicks on its chip, buttons, avatar and menu items.
  The handlers that read the user (\<open>handleDashboard\<close>, \<open>handleViewProfile\<close>,
  \<open>handleLogout\<close>) are those of \<open>Auth\<close>. While the menu is open, its backdrop
  takes every click outside the menu and closes it, as the menu's modal does.
\<close>

section \<open>State and events\<close>

text \<open>\<open>anchorEl\<close> (line 21) as whether it is set, and the router's location.\<close>

record nav =
  anchorEl :: bool
  loc :: string

datatype nav_event = NavMenu | NavClose | NavChip | NavCalendar | NavRecords | NavDashboard | NavLogout

text \<open>\<open>handleMenu\<close> and \<open>handleClose\<close> (lines 27-33).\<close>

definition handleMenu :: "nav \<Rightarrow> nav" where
  "handleMenu n = n\<lparr>anchorEl := True\<rparr>"

definition handleClose :: "nav \<Rightarrow> nav" where
  "handleClose n = n\<lparr>anchorEl := False\<rparr>"

text \<open>
  \<open>navigate(p)\<close> pushes \<open>p\<close> onto the browser history; the router then reads
  \<open>window.location\<close>, which holds the path as the URL parser resolved it.
\<close>

definition navigate :: "string option \<Rightarrow> nav \<Rightarrow> nav" where
  "navigate p n = (case p of None \<Rightarrow> n | Some q \<Rightarrow> n\<lparr>loc := url_resolve q\<rparr>)"

text \<open>
  A click (lines 59-119): nothing while the bar is not rendered (lines 23-25); with
  the menu open, its items Dashboard and Logout (lines 113-114) or the backdrop;
  otherwise the chip, the Calendar, Medical Records, Dashboard and LogOut buttons and
  the avatar (lines 66-105). Every handler but the avatar's first closes the menu.
\<close>

definition navbar_step :: "auth \<Rightarrow> nav \<Rightarrow> nav_event \<Rightarrow> auth \<times> nav" where
  "navbar_step s n e =
     (if \<not> navbar_visible s then (s, n)
      else if anchorEl n then
        (case e of
           NavDashboard \<Rightarrow> (s, navigate (handleDashboard s) (handleClose n))
         | NavLogout \<Rightarrow> (fst (handleLogout s), navigate (Some (snd (handleLogout s))) (handleClose n))
         | _ \<Rightarrow> (s, handleClose n))
      else
        (case e of
           NavMenu \<Rightarrow> (s, handleMenu n)
         | NavClose \<Rightarrow> (s, n)
         | NavChip \<Rightarrow> (s, navigate (handleViewProfile s) (handleClose n))
         | NavCalendar \<Rightarrow> (s, navigate (Some ''/appointments'') n)
         | NavRecords \<Rightarrow> (s, navigate (Some ''/medical-records'') n)
         | NavDashboard \<Rightarrow> (s, navigate (handleDashboard s) (handleClose n))
         | NavLogout \<Rightarrow> (fst (handleLogout s), navigate (Some (snd (handleLogout s))) (handleClose n))))"

section \<open>Lemmas\<close>

lemma match_route_bar:
  "match_route ''/appointments'' =
     Some \<lparr>r_path = [''appointments''], r_page = AppointmentsPage, r_roles = Some [''ROLE_DOCTOR'', ''ROLE_PATIENT'']\<rparr>"
  "match_route ''/medical-records'' =
     Some \<lparr>r_path = [''medical-records''], r_page = MedicalRecords, r_roles = Some [''ROLE_DOCTOR'', ''ROLE_PATIENT'']\<rparr>"
  "match_route ''/'' = Some \<lparr>r_path = [], r_page = LandingPage, r_roles = None\<rparr>"
  by code_simp+

lemma app_view_bar:
  assumes "\<not> loading s" "user_has_role s ''ROLE_DOCTOR'' \<or> user_has_role s ''ROLE_PATIENT''"
  shows "app_view s ''/appointments'' = Show AppointmentsPage" "app_view s ''/medical-records'' = Show MedicalRecords"
  using assms by (auto simp: app_view_def match_route_bar protectedRoute_def isAuthenticated_def user_has_role_def
                  split: option.splits)

lemma app_view_home: "app_view s ''/'' = Show LandingPage"
  by (simp add: app_view_def match_route_bar)

lemma handleDashboard_shown:
  "\<not> loading s \<Longrightarrow> handleDashboard s = Some p \<Longrightarrow> \<exists>pg. app_view s p = Show pg"
  using app_view_dashboards by (auto simp: handleDashboard_def split: if_splits)

lemma url_resolve_bar [simp]:
  "url_resolve ''/appointments'' = ''/appointments''" "url_resolve ''/medical-records'' = ''/medical-records''"
  "url_resolve ''/'' = ''/''" "url_resolve ''/doctor-dashboard'' = ''/doctor-dashboard''"
  "url_resolve ''/patient-dashboard'' = ''/patient-dashboard''"
  by code_simp+

lemma handleDashboard_resolved: "handleDashboard s = Some p \<Longrightarrow> url_resolve p = p"
  by (auto simp: handleDashboard_def split: if_splits)

lemma navigate_loc: "loc (navigate p n) = (case p of None \<Rightarrow> loc n | Some q \<Rightarrow> url_resolve q)"
  by (simp add: navigate_def split: option.splits)

lemma navigate_anchor [simp]: "anchorEl (navigate p n) = anchorEl n"
  by (simp add: navigate_def split: option.splits)

lemma profile_target:
  assumes "hs = ''doctor-profile'' \<or> hs = ''patient-profile''" "\<forall>c\<in>set nm. url_plain c"
  shows "app_view s (url_resolve (CHR ''/'' # hs @ CHR ''/'' # nm)) = (if double_dot nm then Show LandingPage else NoMatch)"
proof -
  have h: "hs \<noteq> [] \<and> (\<forall>c\<in>set hs. url_plain c) \<and> \<not> single_dot hs \<and> \<not> double_dot hs"
    using assms(1) by (elim disjE; simp only:; code_simp)
  then have r: "url_resolve (CHR ''/'' # hs @ CHR ''/'' # nm) =
           (if double_dot nm then ''/'' else if single_dot nm then ''/'' @ hs @ ''/'' else ''/'' @ hs @ ''/'' @ nm)"
    using assms(2) by (intro url_resolve_two) auto
  have "match_route (''/'' @ hs @ ''/'' @ x) = None" for x
    using assms(1) profile_paths_unmatched by auto
  from this[of "[]"] this[of nm] show ?thesis
    unfolding r using app_view_home by (simp add: app_view_def)
qed

section \<open>Properties\<close>

text \<open>
  The menu is open after a click exactly when the bar is shown, the menu was closed
  and the click was on the avatar; a hidden bar keeps its state.
\<close>

theorem navbar_menu_state:
  "anchorEl (snd (navbar_step s n e)) = (if navbar_visible s then \<not> anchorEl n \<and> e = NavMenu else anchorEl n)"
  by (cases e) (simp_all add: navbar_step_def handleMenu_def handleClose_def)

text \<open>
  For a user with the doctor or the patient role, once loading has ended, every
  click of the bar but the profile chip either stays where it is or leads to a page
  the router shows: the calendar, the records, the user's dashboard, or the landing
  page after logging out.
\<close>

theorem navbar_links_shown:
  assumes "\<not> loading s" "user_has_role s ''ROLE_DOCTOR'' \<or> user_has_role s ''ROLE_PATIENT''" "e \<noteq> NavChip"
  shows "loc (snd (navbar_step s n e)) = loc n \<or> (\<exists>pg. app_view (fst (navbar_step s n e)) (loc (snd (navbar_step s n e))) = Show pg)"
  using assms app_view_bar[OF assms(1,2)] handleDashboard_shown[OF assms(1)] handleDashboard_resolved app_view_home
  by (cases e) (auto simp: navbar_step_def navigate_loc handleLogout_def handleClose_def handleMenu_def
                     split: option.splits)

text \<open>Logging out from the bar hides it, closes the menu and shows the landing page.\<close>

theorem navbar_logout:
  assumes "navbar_visible s"
  shows "\<not> navbar_visible (fst (navbar_step s n NavLogout)) \<and> \<not> anchorEl (snd (navbar_step s n NavLogout)) \<and>
         app_view (fst (navbar_step s n NavLogout)) (loc (snd (navbar_step s n NavLogout))) = Show LandingPage"
  using assms app_view_home
  by (auto simp: navbar_step_def navigate_loc handleLogout_def handleClose_def navbar_visible_def isAuthenticated_def
                 logout_def)

text \<open>
  C30: for a doctor or a patient whose user name is made of characters the URL
  parser keeps in a segment as they are (no slash, backslash, \<open>?\<close>, \<open>#\<close>,
  space or control character), the profile chip leads to a path no route matches,
  except when the name is a double-dot segment (such as \<open>..\<close> or \<open>%2e%2E\<close>):
  the browser resolves that link to \<open>/\<close>, the landing page.
\<close>

theorem profile_links_unrouted:
  assumes "user s = Some u" "\<not> anchorEl n" "has_role u ''ROLE_DOCTOR'' \<or> has_role u ''ROLE_PATIENT''"
    "\<forall>c\<in>set (js_str (u_username u)). url_plain c"
  shows "app_view (fst (navbar_step s n NavChip)) (loc (snd (navbar_step s n NavChip))) =
           (if double_dot (js_str (u_username u)) then Show LandingPage else NoMatch)"
proof -
  obtain hs where hs: "hs = ''doctor-profile'' \<or> hs = ''patient-profile''"
    and p: "handleViewProfile s = Some (CHR ''/'' # hs @ CHR ''/'' # js_str (u_username u))"
  proof (cases "has_role u ''ROLE_DOCTOR''")
    case True
    then show ?thesis using that[of "''doctor-profile''"] assms(1) by (simp add: handleViewProfile_def)
  next
    case False
    then show ?thesis using that[of "''patient-profile''"] assms(1,3) by (simp add: handleViewProfile_def)
  qed
  have "navbar_visible s" using assms(1) by (simp add: navbar_visible_def isAuthenticated_def)
  then have "navbar_step s n NavChip = (s, navigate (Some (CHR ''/'' # hs @ CHR ''/'' # js_str (u_username u))) (handleClose n))"
    using assms(2) p by (simp add: navbar_step_def)
  then show ?thesis using profile_target[OF hs assms(4), of s] by (simp add: navigate_loc)
qed

section \<open>Witnesses\<close>

theorem navbar_links_shown_witness:
  "\<exists>pg. app_view doctor_session (loc (snd (navbar_step doctor_session \<lparr>anchorEl = False, loc = ''/''\<rparr> NavCalendar))) =
     Show pg"
proof -
  have h: "\<not> loading doctor_session" "user_has_role doctor_session ''ROLE_DOCTOR''" by code_simp+
  have v: "navbar_visible doctor_session" by code_simp
  show ?thesis
    using navbar_links_shown[of doctor_session NavCalendar "\<lparr>anchorEl = False, loc = ''/''\<rparr>"] h v
    by (simp add: navbar_step_def navigate_def)
qed

theorem navbar_logout_witness:
  "app_view (fst (navbar_step doctor_session \<lparr>anchorEl = True, loc = ''/doctor-dashboard''\<rparr> NavLogout))
     (loc (snd (navbar_step doctor_session \<lparr>anchorEl = True, loc = ''/doctor-dashboard''\<rparr> NavLogout))) =
   Show LandingPage"
proof -
  have v: "navbar_visible doctor_session" by code_simp
  show ?thesis using navbar_logout[OF v] by blast
qed

theorem profile_links_unrouted_witness:
  "app_view (fst (navbar_step (doctor_session\<lparr>user := Some (demo_doctor_user\<lparr>u_username := Some ''%2E.''\<rparr>)\<rparr>)
                   \<lparr>anchorEl = False, loc = ''/doctor-dashboard''\<rparr> NavChip))
     (loc (snd (navbar_step (doctor_session\<lparr>user := Some (demo_doctor_user\<lparr>u_username := Some ''%2E.''\<rparr>)\<rparr>)
                   \<lparr>anchorEl = False, loc = ''/doctor-dashboard''\<rparr> NavChip))) = Show LandingPage"
proof -
  have "\<forall>c\<in>set (js_str (Some ''%2E.'')). url_plain c" "double_dot (js_str (Some ''%2E.''))" by code_simp+
  then show ?thesis
    using profile_links_unrouted[of "doctor_session\<lparr>user := Some (demo_doctor_user\<lparr>u_username := Some ''%2E.''\<rparr>)\<rparr>"
        "demo_doctor_user\<lparr>u_username := Some ''%2E.''\<rparr>" "\<lparr>anchorEl = False, loc = ''/doctor-dashboard''\<rparr>"]
    by (simp add: has_role_def demo_doctor_user_def)
qed

end
