(* ===== verification/Views.thy ===== *)
theory Views
  imports Clinic Navbar
begin

text \<open>
  What the pages render: the patient's and the doctor's dashboards
  (\<open>src/src/pages/PatientDashboard.jsx\<close>, \<open>src/src/pages/DoctorDashboard.jsx\<close>)
  and the calendar page \<open>src/src/pages/Appointments.jsx\<close> with its own state and
  fetch. A page is its loading spinner (\<open>None\<close>) or a record of what it shows:
  alerts, the rows of its table with their cells and buttons, and the dialogs that
  are open. Date and time cells use the browser's locale formatting, a parameter.
  The states the system reaches from its first render are the inductive set
  \<open>clinic_reachable\<close>, over which the pages' invariants are proved.
\<close>

section \<open>Rendering values\<close>

text \<open>
  \<open>toLocaleDateString\<close> and \<open>toLocaleTimeString\<close>: a locale's format of a valid
  time, \<open>Invalid Date\<close> for an invalid one.
\<close>

type_synonym locale_fmt = "int \<Rightarrow> string"

text \<open>
  The formats the pages use: \<open>toLocaleDateString()\<close>, \<open>toLocaleTimeString()\<close>,
  \<open>toLocaleTimeString([], {hour: '2-digit', minute: '2-digit'})\<close>, and
  \<open>formatDate\<close>'s long \<open>en-US\<close> date with hour and minute.
\<close>

record locale_fmts =
  lc_date :: locale_fmt
  lc_time :: locale_fmt
  lc_time_hm :: locale_fmt
  lc_long :: locale_fmt

definition js_locale :: "locale_fmt \<Rightarrow> int option \<Rightarrow> string" where
  "js_locale f t = (case t of None \<Rightarrow> ''Invalid Date'' | Some x \<Rightarrow> f x)"

text \<open>A JSON value as a child of an element: \<open>undefined\<close> and \<open>null\<close> render nothing.\<close>

definition jsx_text :: "json_str \<Rightarrow> string" where
  "jsx_text v = (case v of JString s \<Rightarrow> s | _ \<Rightarrow> [])"

text \<open>\<open>{cond && <Alert>{msg}</Alert>}\<close>: an alert only for a non-empty message.\<close>

definition alert_of :: "string option \<Rightarrow> string option" where
  "alert_of m = (case m of Some x \<Rightarrow> (if x \<noteq> [] then Some x else None) | None \<Rightarrow> None)"

section \<open>The medical-record dialog\<close>

text \<open>
  The content of the record dialog (PatientDashboard lines 724-774): the diagnosis,
  the symptoms or \<open>Not specified\<close>, the notes or \<open>No notes\<close>, one line per
  medication (name, dosage, frequency, duration; the section only for a non-empty
  list), and the vital signs when present. Headings, units and the bullet are fixed
  text of the layout.
\<close>

record rec_view =
  rv_diagnosis :: string
  rv_symptoms :: string
  rv_notes :: string
  rv_medications :: "(string \<times> string \<times> string \<times> string) list"
  rv_vitals :: "(string \<times> string \<times> string \<times> string \<times> string) option"

definition med_cells :: "medication \<Rightarrow> string \<times> string \<times> string \<times> string" where
  "med_cells m = (jsx_text (med_name m), jsx_text (med_dosage m), jsx_text (med_frequency m), jsx_text (med_duration m))"

definition vital_cells :: "vital_signs \<Rightarrow> string \<times> string \<times> string \<times> string \<times> string" where
  "vital_cells v =
     (jsx_text (temperature v), jsx_text (bloodPressureSystolic v), jsx_text (bloodPressureDiastolic v),
      jsx_text (heartRate v), jsx_text (respiratoryRate v))"

text \<open>The dialog's subtitle (\<open>formatDate(createdAt)\<close>) and content, for the selected record.\<close>

definition record_dialog :: "date_parse \<Rightarrow> locale_fmts \<Rightarrow> med_record option \<Rightarrow> string \<times> rec_view option" where
  "record_dialog dp lc r =
     (case r of
        None \<Rightarrow> ([], None)
      | Some x \<Rightarrow>
          (js_locale (lc_long lc) (js_new_date dp (createdAt x)),
           Some \<lparr>rv_diagnosis = jsx_text (diagnosis x),
                 rv_symptoms = (if js_truthy_j (symptoms x) then js_tmpl (symptoms x) else ''Not specified''),
                 rv_notes = (if js_truthy_j (rec_notes x) then js_tmpl (rec_notes x) else ''No notes''),
                 rv_medications = (case medications x of Some ms \<Rightarrow> map med_cells ms | None \<Rightarrow> []),
                 rv_vitals = map_option vital_cells (vitalSigns x)\<rparr>))"

text \<open>The doctor's page has its own copy of the dialog (DoctorDashboard lines 323-378).\<close>

definition doctor_record_dialog :: "date_parse \<Rightarrow> locale_fmts \<Rightarrow> med_record option \<Rightarrow> string \<times> rec_view option" where
  "doctor_record_dialog dp lc r =
     (case r of
        None \<Rightarrow> ([], None)
      | Some x \<Rightarrow>
          (js_locale (lc_long lc) (js_new_date dp (createdAt x)),
           Some \<lparr>rv_diagnosis = jsx_text (diagnosis x),
                 rv_symptoms = (if js_truthy_j (symptoms x) then js_tmpl (symptoms x) else ''Not specified''),
                 rv_notes = (if js_truthy_j (rec_notes x) then js_tmpl (rec_notes x) else ''No notes''),
                 rv_medications = (case medications x of Some ms \<Rightarrow> map med_cells ms | None \<Rightarrow> []),
                 rv_vitals = map_option vital_cells (vitalSigns x)\<rparr>))"

section \<open>The patient's dashboard\<close>

text \<open>A row of the appointments table (lines 522-586).\<close>

record prow =
  pr_doctor :: string
  pr_date :: string
  pr_time :: string
  pr_duration :: string
  pr_reason :: string
  pr_status :: string
  pr_color :: string
  pr_viewRecord :: bool
  pr_cancel :: bool
  pr_join :: bool

definition patient_row :: "date_parse \<Rightarrow> int \<Rightarrow> locale_fmts \<Rightarrow> appointment \<Rightarrow> prow" where
  "patient_row dp now lc a =
     \<lparr>pr_doctor = ''Dr. '' @ (if js_truthy_j (doctorName a) then js_tmpl (doctorName a) else ''Loading...''),
      pr_date = js_locale (lc_date lc) (appt_key dp a), pr_time = js_locale (lc_time_hm lc) (appt_key dp a),
      pr_duration = (case durationInMinutes a of None \<Rightarrow> [] | Some n \<Rightarrow> int_str n) @ '' minutes'',
      pr_reason = jsx_text (reason a), pr_status = jsx_text (status a), pr_color = getStatusColor (status a),
      pr_viewRecord = (medicalRecords a \<noteq> []), pr_cancel = canCancelAppointment dp now a,
      pr_join = (status a = JString ''CONFIRMED'')\<rparr>"

text \<open>
  The booking dialog's form (lines 597-715): the doctor options (value and label
  \<open>Dr. {name} - {specialty}\<close>, or the disabled \<open>No doctors available\<close>), the
  doctor field's error mark, the time options, and whether Book is enabled.
\<close>

definition doctor_options :: "doctor list \<Rightarrow> (string \<times> string) list option" where
  "doctor_options ds =
     (if ds \<noteq> [] then
        Some (map (\<lambda>d. (js_value (dr_id d),
                         ''Dr. '' @ jsx_text (js_or (dr_username d) (dr_fullName d)) @ '' - '' @ jsx_text (dr_specialty d)))
                  ds)
      else None)"

record bform =
  bf_doctors :: "(string \<times> string) list option"
  bf_doctor_error :: bool
  bf_times :: "(string \<times> string) list"
  bf_book_enabled :: bool

definition booking_form :: "pdash \<Rightarrow> bform" where
  "booking_form p =
     \<lparr>bf_doctors = doctor_options (p_doctors p),
      bf_doctor_error = (b_doctorId (bookingData p) = [] \<and> bookingValidationError p \<noteq> []),
      bf_times = time_options, bf_book_enabled = book_enabled (bookingData p)\<rparr>"

text \<open>
  The page (lines 443-795): the spinner while loading; otherwise the welcome, the
  error and success alerts, the table (its rows, or \<open>No appointments found\<close> when
  there are none), and the booking and record dialogs with the booking's
  validation alert.
\<close>

record ppage =
  pp_welcome :: string
  pp_error :: "string option"
  pp_success :: "string option"
  pp_rows :: "prow list"
  pp_booking :: "bform option"
  pp_validation :: "string option"
  pp_record :: "(string \<times> rec_view option) option"

definition user_name :: "auth_user option \<Rightarrow> string" where
  "user_name u = (case u of None \<Rightarrow> [] | Some v \<Rightarrow> (case u_username v of None \<Rightarrow> [] | Some n \<Rightarrow> n))"

definition patient_view ::
  "date_parse \<Rightarrow> int \<Rightarrow> locale_fmts \<Rightarrow> auth_user option \<Rightarrow> pdash \<Rightarrow> ppage option" where
  "patient_view dp now lc u p =
     (if p_loading p then None
      else Some \<lparr>pp_welcome = ''Welcome, '' @ user_name u, pp_error = alert_of (p_error p),
                 pp_success = alert_of (Some (successMessage p)),
                 pp_rows = map (patient_row dp now lc) (p_appointments p), pp_booking = (if openBooking p then Some (booking_form p) else None),
                 pp_validation = alert_of (Some (bookingValidationError p)),
                 pp_record = (if p_openRecordDialog p then Some (record_dialog dp lc (p_selectedRecord p)) else None)\<rparr>)"

section \<open>The doctor's dashboard\<close>

text \<open>A row of the appointments table (lines 223-306): its dates read \<open>startTime\<close> only.\<close>

record drow =
  dr_patient :: string
  dr_date :: string
  dr_time :: string
  dr_reason :: string
  dr_status :: string
  dr_color :: string
  dr_buttons :: "doc_button list"

definition doctor_row :: "date_parse \<Rightarrow> locale_fmts \<Rightarrow> appointment \<Rightarrow> drow" where
  "doctor_row dp lc a =
     \<lparr>dr_patient = (if js_truthy_j (patientName a) then js_tmpl (patientName a) else ''Unknown Patient''),
      dr_date = js_locale (lc_date lc) (js_new_date dp (startTime a)),
      dr_time = js_locale (lc_time lc) (js_new_date dp (startTime a)),
      dr_reason = jsx_text (reason a), dr_status = jsx_text (status a), dr_color = getStatusColor (status a),
      dr_buttons = doctor_buttons a\<rparr>"

text \<open>The page (lines 178-393): spinner, or welcome, error alert, table and record dialog.\<close>

record dpage =
  dp_welcome :: string
  dp_error :: "string option"
  dp_rows :: "drow list"
  dp_record :: "(string \<times> rec_view option) option"

definition doctor_view :: "date_parse \<Rightarrow> locale_fmts \<Rightarrow> auth_user option \<Rightarrow> ddash \<Rightarrow> dpage option" where
  "doctor_view dp lc u d =
     (if d_loading d then None
      else Some \<lparr>dp_welcome = ''Welcome, Dr. '' @ user_name u, dp_error = alert_of (d_error d),
                 dp_rows = map (doctor_row dp lc) (d_appointments d),
                 dp_record = (if d_openRecordDialog d then Some (doctor_record_dialog dp lc (d_selectedRecord d)) else None)\<rparr>)"

text \<open>The Add Record button's navigation (lines 254-258); the router state is not read.\<close>

definition doctor_addRecord :: "appointment \<Rightarrow> string" where
  "doctor_addRecord a = ''/add-medical-record/'' @ js_tmpl (a_id a)"

section \<open>The calendar page (Appointments.jsx)\<close>

text \<open>The state hooks (lines 33-35).\<close>

record calpage =
  c_events :: "cal_event list"
  c_loading :: bool
  c_error :: "string option"

definition calpage_init :: calpage where
  "calpage_init = \<lparr>c_events = [], c_loading = True, c_error = None\<rparr>"

text \<open>
  \<open>fetchAppointments\<close> run by the mount effect (lines 37-80): the endpoint by role
  (\<open>user.roles.includes\<close> throws without roles, and the error is caught), the
  response for that endpoint, the events, and the loading flag cleared in every case.
\<close>

definition calendar_fetch ::
  "date_parse \<Rightarrow> auth_user \<Rightarrow> (string \<Rightarrow> appointment list fetched) \<Rightarrow> calpage \<Rightarrow> calpage" where
  "calendar_fetch dp u resp p =
     (case appointments_endpoint u of
        None \<Rightarrow> p\<lparr>c_error := Some ''Failed to load appointments'', c_loading := False\<rparr>
      | Some ep \<Rightarrow>
          (case resp ep of
             Fetched data \<Rightarrow> p\<lparr>c_events := map (to_event dp) data, c_loading := False\<rparr>
           | FetchFailed \<Rightarrow> p\<lparr>c_error := Some ''Failed to load appointments'', c_loading := False\<rparr>))"

text \<open>The page (lines 114-153): spinner, or the error alert and the styled events.\<close>

record cpage =
  cp_error :: "string option"
  cp_events :: "(cal_event \<times> string) list"

definition calendar_view :: "calpage \<Rightarrow> cpage option" where
  "calendar_view p =
     (if c_loading p then None
      else Some \<lparr>cp_error = alert_of (c_error p), cp_events = map (\<lambda>e. (e, event_color (ev_status e))) (c_events p)\<rparr>)"

section \<open>Reachable states of the system\<close>

text \<open>The states the dashboards and the store reach from a first render, by any events.\<close>

inductive_set clinic_reachable :: "clinic set" where
  init: "clinic_init srv \<in> clinic_reachable"
| step: "s \<in> clinic_reachable \<Longrightarrow> clinic_step s e \<in> clinic_reachable"

text \<open>The patient's page state: no appointment listed, and once loaded, an error shown.\<close>

definition pat_inv :: "pdash \<Rightarrow> bool" where
  "pat_inv p \<longleftrightarrow> p_appointments p = [] \<and> (p_loading p \<or> (\<exists>m. p_error p = Some m \<and> m \<noteq> []))"

section \<open>Sample values\<close>

definition demo_locale :: locale_fmts where
  "demo_locale = \<lparr>lc_date = \<lambda>t. ''1/7/2030'', lc_time = \<lambda>t. ''10:00:00 AM'', lc_time_hm = \<lambda>t. ''10:00 AM'',
                  lc_long = \<lambda>t. ''January 7, 2030 at 10:00 AM''\<rparr>"

section \<open>Lemmas\<close>

lemma pat_inv_init: "pat_inv pdash_init"
  by (simp add: pat_inv_def pdash_init_def)

lemma pat_inv_submit: "pat_inv p \<Longrightarrow> pat_inv (snd (patient_submit u now res srv p))"
  by (auto simp: pat_inv_def patient_submit_def submit_start_def submit_done_def patient_fetchAppointments_def
           split: booking_check.splits post_outcome.splits)

lemma pat_inv_step: "pat_inv (pat s) \<Longrightarrow> pat_inv (pat (clinic_step s e))"
proof (cases e)
  case (PatSubmit u now res)
  then show "pat_inv (pat s) \<Longrightarrow> ?thesis" using pat_inv_submit by (simp add: Let_def)
qed (auto simp: pat_inv_def Let_def patient_fetchAppointments_def patient_closeRecord_def fetchDoctors_def
        openBookingDialog_def closeBookingDialog_def setBookingDoctor_def setBookingDate_def setBookingTime_def
        setBookingReason_def clearSuccessMessage_def split: fetched.splits option.splits)

lemma reachable_pat_inv: "s \<in> clinic_reachable \<Longrightarrow> pat_inv (pat s)"
  by (induction rule: clinic_reachable.induct) (simp_all add: clinic_init_def pat_inv_init pat_inv_step)



lemma split_path_add_record:
  assumes "r \<noteq> []" "CHR ''/'' \<notin> set r" "CHR ''?'' \<notin> set r"
  shows "split_path (''/add-medical-record/'' @ r) = [''add-medical-record'', r]"
proof -
  have t: "takeWhile (\<lambda>c. c \<noteq> CHR ''?'') r = r"
    using assms(3) by (auto simp: takeWhile_eq_all_conv)
  show ?thesis using assms(1,2) by (simp add: split_path_def t segs_no_slash)
qed

lemma match_route_add_record:
  "split_path p = [''add-medical-record'', r] \<Longrightarrow>
   match_route p = Some \<lparr>r_path = [''add-medical-record'', '':id''], r_page = AddMedicalRecord, r_roles = Some [''ROLE_DOCTOR'']\<rparr>"
  by (simp add: match_route_def routes_def path_match_def seg_match_def)

lemma doctor_options_values:
  "map fst (case doctor_options ds of Some os \<Rightarrow> os | None \<Rightarrow> []) = doctor_values ds"
  by (simp add: doctor_options_def doctor_values_def comp_def)

lemma doctor_record_dialog_same: "doctor_record_dialog = record_dialog"
  by (simp add: fun_eq_iff doctor_record_dialog_def record_dialog_def)

lemma doctor_row_no_startTime:
  "startTime a = JUndefined \<Longrightarrow> dr_date (doctor_row dp lc a) = ''Invalid Date''"
  by (simp add: doctor_row_def js_locale_def)

section \<open>Properties\<close>

text \<open>
  C22: In every state the dashboards and the store reach from a first render, the
  patient's page, once loaded, lists no appointment and shows an error alert: its
  list is never fetched.
\<close>

theorem patient_page_empty:
  assumes "s \<in> clinic_reachable"
  shows "pred_option (\<lambda>v. pp_rows v = [] \<and> pp_error v \<noteq> None) (patient_view dp now lc u (pat s))"
  using reachable_pat_inv[OF assms] by (auto simp: pat_inv_def patient_view_def alert_of_def)

text \<open>
  C18: Every user the router shows the calendar page to has a doctor's or a patient's
  role, so the calendar fetches the appointments of that user by name, never the
  unfiltered list \<open>appointments\<close> and never the throwing role lookup; the page
  then shows exactly the response's appointments as events coloured by status, or
  the error alert when the request fails.
\<close>

theorem calendar_endpoint_scoped:
  assumes "app_view s ''/appointments'' = Show AppointmentsPage"
  shows "\<exists>u ep. user s = Some u \<and> appointments_endpoint u = Some ep \<and>
           (ep = ''appointments/doctor/name/'' @ js_str (u_username u) \<or>
            ep = ''appointments/patient/name/'' @ js_str (u_username u)) \<and>
           calendar_view (calendar_fetch dp u resp calpage_init) =
             Some (case resp ep of
                     Fetched d \<Rightarrow> \<lparr>cp_error = None, cp_events = map (\<lambda>a. (to_event dp a, event_color (status a))) d\<rparr>
                   | FetchFailed \<Rightarrow> \<lparr>cp_error = Some ''Failed to load appointments'', cp_events = []\<rparr>)"
proof -
  obtain u where u: "user s = Some u" "has_role u ''ROLE_DOCTOR'' \<or> has_role u ''ROLE_PATIENT''"
    using assms by (auto simp: app_view_def match_route_bar protectedRoute_def isAuthenticated_def user_has_role_def
                         split: option.splits if_splits guard.splits)
  then obtain ep where ep: "appointments_endpoint u = Some ep"
    "ep = ''appointments/doctor/name/'' @ js_str (u_username u) \<or> ep = ''appointments/patient/name/'' @ js_str (u_username u)"
    by (auto simp: has_role_def appointments_endpoint_def split: option.splits)
  have "calendar_view (calendar_fetch dp u resp calpage_init) =
          Some (case resp ep of
                  Fetched d \<Rightarrow> \<lparr>cp_error = None, cp_events = map (\<lambda>a. (to_event dp a, event_color (status a))) d\<rparr>
                | FetchFailed \<Rightarrow> \<lparr>cp_error = Some ''Failed to load appointments'', cp_events = []\<rparr>)"
    using ep(1) by (simp add: calendar_fetch_def calendar_view_def calpage_init_def alert_of_def to_event_def
                        split: fetched.splits)
  then show ?thesis using u(1) ep by blast
qed

text \<open>
  C19: For a doctor, once loading has ended, the Add Record button of an appointment
  whose id is a plain path segment leads to the page for adding a medical record.
\<close>

theorem doctor_add_record_admitted:
  assumes "\<not> loading s" "user_has_role s ''ROLE_DOCTOR''"
    and "a_id a = JString i" "i \<noteq> []" "CHR ''/'' \<notin> set i" "CHR ''?'' \<notin> set i"
  shows "app_view s (doctor_addRecord a) = Show AddMedicalRecord"
proof -
  have "split_path (doctor_addRecord a) = [''add-medical-record'', i]"
    using split_path_add_record[OF assms(4-6)] assms(3) by (simp add: doctor_addRecord_def)
  then show ?thesis using assms(1,2)
    by (auto simp: app_view_def match_route_add_record protectedRoute_def isAuthenticated_def user_has_role_def
             split: option.splits)
qed

section \<open>Witnesses\<close>

theorem patient_page_empty_witness:
  "clinic_step (clinic_init demo_store) PatLoad \<in> clinic_reachable \<and>
   patient_view demo_parse 0 demo_locale None (pat (clinic_step (clinic_init demo_store) PatLoad)) \<noteq> None \<and>
   pred_option (\<lambda>v. pp_rows v = [] \<and> pp_error v \<noteq> None)
     (patient_view demo_parse 0 demo_locale None (pat (clinic_step (clinic_init demo_store) PatLoad)))"
proof -
  have r: "clinic_step (clinic_init demo_store) PatLoad \<in> clinic_reachable"
    by (intro clinic_reachable.step clinic_reachable.init)
  have "patient_view demo_parse 0 demo_locale None (pat (clinic_step (clinic_init demo_store) PatLoad)) \<noteq> None"
    by code_simp
  then show ?thesis using r patient_page_empty[OF r] by blast
qed

theorem calendar_endpoint_scoped_witness:
  "app_view doctor_session ''/appointments'' = Show AppointmentsPage \<and>
   calendar_view (calendar_fetch demo_parse demo_doctor_user (\<lambda>_. FetchFailed) calpage_init) =
     Some \<lparr>cp_error = Some ''Failed to load appointments'', cp_events = []\<rparr>"
proof -
  have h: "app_view doctor_session ''/appointments'' = Show AppointmentsPage" by code_simp
  have u: "user doctor_session = Some demo_doctor_user" by code_simp
  show ?thesis
    using calendar_endpoint_scoped[OF h, of demo_parse "\<lambda>_. FetchFailed"] h u by auto
qed

theorem doctor_add_record_admitted_witness:
  "app_view doctor_session (doctor_addRecord (demo_appt ''1'' JNull ''CONFIRMED'')) = Show AddMedicalRecord"
proof -
  have h: "\<not> loading doctor_session" "user_has_role doctor_session ''ROLE_DOCTOR''" by code_simp+
  show ?thesis
    using doctor_add_record_admitted[OF h, of "demo_appt ''1'' JNull ''CONFIRMED''" "''1''"]
    by (simp add: demo_appt_def)
qed

end
