(* ===== verification/Spec2Isabelle.thy ===== *)
theory Spec2Isabelle
  imports System Views
begin

text \<open>
  \<^bold>\<open>Verification development of the HealthCareSystem frontend.\<close>

  \<^bold>\<open>The program.\<close> The repository is a React single-page application. Its one
  component with protocol logic is the video call, \<open>src/src/components/VideoCall.jsx\<close>,
  which drives a browser \<open>RTCPeerConnection\<close> through the offer/answer/ICE exchange
  with the other participant, using the signaling transport
  \<open>src/src/services/WebSocketService.js\<close> (a process-wide STOMP-over-SockJS client)
  to publish to and subscribe on the topic of the consultation's room. The doctor's
  browser makes the offer, the patient's browser answers; both publish ICE candidates;
  each ignores its own messages, which the relay echoes back. Around it, the
  authentication context \<open>src/src/context/AuthContext.js\<close> keeps the user and the
  token in \<open>localStorage\<close>, \<open>src/src/components/ProtectedRoute.jsx\<close> guards the
  routes of \<open>src/src/App.jsx\<close> by role, and \<open>src/src/components/Navbar.jsx\<close>
  navigates between them. The dashboards (\<open>src/src/pages/PatientDashboard.jsx\<close>,
  \<open>src/src/pages/DoctorDashboard.jsx\<close>) book, list, cancel and confirm
  appointments over REST and open the video call by a link; the calendar
  (\<open>src/src/pages/Appointments.jsx\<close>) shows the appointments as events.

  \<^bold>\<open>Theories.\<close>
  \<^item> \<open>Prelude\<close>: identifiers (\<open>room\<close>, \<open>user_id\<close>), the rule collections
    \<open>ws_simps\<close>, \<open>pc_simps\<close>, \<open>call_simps\<close>, JavaScript's \<open>includes\<close>
    (\<open>js_includes\<close>), a field of a JSON object (\<open>json_str\<close>: absent, \<open>null\<close> or a
    string) with its template-literal text \<open>js_tmpl\<close> (also what
    \<open>localStorage.setItem\<close> stores) and truthiness, ASCII case folding, and list
    helpers.
  \<^item> \<open>Signaling\<close>: \<open>WebSocketService\<close>. The record \<open>ws_service\<close> holds the
    object's fields \<open>stompClient\<close> (the generation of the current client, or none) and
    \<open>messageHandlers\<close> (a map from room to subscription), plus \<open>relay_subs\<close>, the
    subscriptions the relay still delivers to. \<open>connect\<close>, \<open>subscribe\<close>,
    \<open>unsubscribe\<close>, \<open>sendMessage\<close> and \<open>disconnect\<close> are the methods, each with
    its null-client early return. Lemmas: the well-formedness invariant \<open>ws_wf\<close> and
    its preservation by each method, idempotence of \<open>unsubscribe\<close> and
    \<open>disconnect\<close>, the subscribe/unsubscribe round trip, and the re-subscription leak.
  \<^item> \<open>Media\<close>: tracks in an explicit store (\<open>track_store\<close>), since the stream,
    the peer connection and closures share the track objects; \<open>toggle_tracks\<close> and
    \<open>stop_tracks\<close>; the error classification of \<open>requestMediaPermissions\<close>
    (\<open>media_error_message\<close>, against the spec's taxonomy \<open>media_error_kind\<close>).
  \<^item> \<open>Peer\<close>: the environment, not code of the repository: the WebRTC
    signaling-state machine of \<open>RTCPeerConnection\<close> (stable, have-local-offer,
    have-remote-offer, closed) as far as the component calls it, with the DOM errors as
    \<open>Inl\<close> values.
  \<^item> \<open>VideoCall\<close>: the component. Its state hooks are the record \<open>call\<close>, inside a
    \<open>browser\<close> that also holds the \<open>WebSocketService\<close> singleton and the track store.
    Each handler is one definition returning the new browser and the list of
    publications: \<open>mount\<close> (the effect), \<open>mediaResolved\<close> (the continuation of
    \<open>requestMediaPermissions\<close> into \<open>initializeCall\<close> or \<open>retryCall\<close>),
    \<open>wsConnected\<close> (the \<open>onConnected\<close> callback), \<open>startCall\<close>,
    \<open>createPeerConnection\<close>, \<open>handleSignalingMessage\<close> (cases \<open>on_offer\<close>,
    \<open>on_answer\<close>, \<open>on_ice\<close>), \<open>onIceCandidate\<close>, \<open>onTrack\<close>,
    \<open>toggleAudio\<close>, \<open>toggleVideo\<close>, \<open>cleanup\<close>, \<open>unmount\<close>, \<open>endCall\<close>,
    \<open>retryCall\<close> and \<open>render\<close>. An \<open>await\<close> that hands control back to the event
    loop is an entry of \<open>pending\<close>; awaits on the peer connection are run to
    completion, which the browser's operation queue makes faithful. The
    \<open>cleanup\<close> function takes the \<open>localStream\<close> its closure captured: the first
    render's null for the effect's cleanup, the current one for \<open>endCall\<close>.
  \<^item> \<open>System\<close>: a consultation. Two browsers (\<open>Doc\<close>, \<open>Pat\<close>) and the relay,
    which appends a publication on a room to the inbox of every browser once per live
    subscription of that room (FIFO, as the spec assumes). \<open>sys_step\<close> takes one
    event (a user action, a completion of the browser or relay, the handling of the
    next delivered message), \<open>run\<close> a list of them, and \<open>reachable\<close> is the
    inductive set of states reachable from the first render.
  \<^item> \<open>Auth\<close>: the authentication context as the record \<open>auth\<close> (\<open>user\<close>,
    \<open>loading\<close>, \<open>error\<close>, the stored token, and whether \<open>checkAuth\<close>'s request is
    in flight); the user object's token is a JSON value, so that an absent and a
    \<open>null\<close> token differ; \<open>checkAuth\<close> split at its await (\<open>checkAuth_start\<close>,
    \<open>checkAuth_done\<close>), \<open>login\<close>, \<open>register\<close>, \<open>logout\<close>; the guard
    \<open>protectedRoute\<close>; the route table \<open>routes\<close> with the router's matching
    (\<open>match_route\<close>: path segments, \<open>:param\<close> segments, static segments
    compared with the decoded segment (\<open>decode_seg\<close>) up to ASCII letter case as
    the router's case-insensitive patterns do) and
    \<open>app_view\<close>, what the router shows at a path; the navigation bar's handlers; and
    runs of the context's operations (\<open>auth_run\<close>) for their interleavings.
  \<^item> \<open>Navbar\<close>: the navigation bar as a component: its state hook
    \<open>anchorEl\<close> with the router's location (the record \<open>nav\<close>),
    \<open>handleMenu\<close>, \<open>handleClose\<close>, \<open>navigate\<close> (the location becomes the
    pushed path as the browser's URL parser resolves it, \<open>url_resolve\<close>), and
    \<open>navbar_step\<close>, one click on the
    chip, a button, the avatar, a menu item or the open menu's backdrop. Lemmas: the
    menu is open exactly after a click on the avatar with the menu closed
    (\<open>navbar_menu_state\<close>), every click but the profile chip leads a doctor or a
    patient to a page the router shows (\<open>navbar_links_shown\<close>), and logging out
    hides the bar and shows the landing page (\<open>navbar_logout\<close>); the profile
    chip's link matches no route unless the user name is a double-dot segment, which
    the browser resolves to the landing page (\<open>profile_links_unrouted\<close>).
  \<^item> \<open>Url\<close>: the browser's \<open>encodeURIComponent\<close>, the query parser behind
    \<open>URLSearchParams\<close> (\<open>query_get\<close>) and the split of a link into pathname and
    search, as the environment of the links; their round trip is
    \<open>form_decode_encode\<close>. Also the URL parser's resolution of a pushed path
    (\<open>url_resolve\<close>: tabs and newlines dropped, surrounding spaces and controls
    stripped, \<open>/\<close> and \<open>\\<close> as separators, single- and double-dot segments
    including their \<open>%2e\<close> spellings) and the router's per-segment decoding
    (\<open>decode_seg\<close>).
  \<^item> \<open>Dashboard\<close>: appointments as JSON objects (fields of type \<open>json_str\<close>) with \<open>new Date\<close> over an engine parser given as a parameter; the
    cancellation window \<open>canCancelAppointment\<close>; the doctor's buttons and
    \<open>handleStatusUpdate\<close>, with \<open>ui_transition\<close> the status changes the two
    dashboards request; the list's comparator \<open>sort_cmp\<close>; the calendar's \<open>to_event\<close>; the booking form
    (\<open>booking_validate\<close>, \<open>submit_start\<close>, \<open>submit_done\<close>) with the
    time parsing and date formatting it uses; \<open>fetchAppointments\<close>; and the join
    links \<open>patientJoinVideoCall\<close> and \<open>doctorJoinVideoCall\<close>.
  \<^item> \<open>Clinic\<close>: the two dashboards with the backend's store of appointments. The
    doctor's page state is the record \<open>ddash\<close> (its hooks), with
    \<open>doctor_fetch\<close> (\<open>fetchAppointments\<close> with the records of each appointment),
    \<open>doctor_statusUpdate\<close> (\<open>handleStatusUpdate\<close> and its refetch),
    \<open>doctor_viewRecord\<close> and \<open>doctor_closeRecord\<close>; the patient's page adds
    \<open>fetchDoctors\<close>, \<open>patient_cancel\<close> (\<open>handleCancelAppointment\<close>),
    \<open>patient_viewRecord\<close>, the dialog and form handlers (the doctor and time
    \<open>Select\<close>s emit only their options' values, \<open>doctor_values\<close> and
    \<open>time_options\<close>), \<open>patient_submit\<close> (the
    POST of \<open>handleBookingSubmit\<close>) and \<open>clearSuccessMessage\<close> (its timer). The
    store is the environment: \<open>server_apply\<close> for the status endpoints and
    \<open>server_create\<close> for \<open>POST /appointments\<close>, which stores the request under
    \<open>fresh_id\<close>, one more than the largest numeric id. \<open>clinic_step\<close> composes
    them over the record \<open>clinic\<close> (store, doctor page, patient page), one event per
    click, response or timer, with the outcomes of requests as parameters of the
    event; \<open>clinic_run\<close> and \<open>clinic_trace\<close> run a list of events. Against it
    stands the lifecycle an appointment is meant to follow, the inductive
    \<open>life_step\<close> (pending to confirmed or cancelled, confirmed to completed or
    cancelled), with the abstraction \<open>abs_store\<close> from the store to the status of
    each id and \<open>abs_step\<close>, a step of the abstract store with stuttering.
  \<^item> \<open>Views\<close>: what the pages render, a page being its spinner (\<open>None\<close>) or a
    record of its alerts, table rows (their cells and buttons) and open dialogs:
    \<open>patient_view\<close> with \<open>patient_row\<close>, \<open>doctor_view\<close> with
    \<open>doctor_row\<close> and the Add Record link \<open>doctor_addRecord\<close>; the
    booking form (\<open>booking_form\<close>, with \<open>doctor_options\<close>); the
    medical-record dialog of each page (\<open>record_dialog\<close>,
    \<open>doctor_record_dialog\<close>) over the record as JSON (\<open>med_record\<close> in
    \<open>Dashboard\<close>); the calendar
    page \<open>Appointments.jsx\<close> with its state \<open>calpage\<close>, its fetch
    \<open>calendar_fetch\<close> (endpoint by role, the response per endpoint given, errors
    caught) and \<open>calendar_view\<close>. The four locale formats the pages call are
    the parameter \<open>locale_fmts\<close>. The
    states of the dashboards and the store reachable from a first render by any events
    are the inductive set \<open>clinic_reachable\<close>.
  \<^item> This theory: what \<open>VideoCall\<close> reads from its URL (\<open>video_call_params\<close>,
    \<open>consult_call\<close>), joining the dashboards to the video call.

  \<^bold>\<open>What is proved.\<close> Role exclusivity over all reachable states, by rule induction
  with a strengthened invariant (\<open>sys_inv\<close>: identities fixed, every in-flight offer
  from a doctor and every answer from a patient); loopback suppression; and, against the
  spec, two liveness failures: when the doctor's offer precedes the patient's
  subscription, or when the doctor's first camera request failed and Retry succeeded,
  no sequence of network and browser events ever completes the exchange and no error
  is shown (the predicate \<open>stuck\<close> is an invariant of those events). Per handler:
  the answer is applied only with an offer outstanding, ICE candidates only with a
  remote description, teardown is idempotent and releases the transport and the
  connection, the mute toggle flips the flag and the local audio tracks together,
  keeping them in step, leaves the video alone and is undone by a second click,
  acquisition errors of different kinds give different messages, and the
  defects the manifest lists (stale cleanup closure, media resolved after teardown,
  the first render's crash, exactly when the URL has no role and no user name,
  subscription leak, stale handler map).
  For authentication and routing: a guarded page is shown only to a user holding one
  of its roles once loading has ended, a logged-out visitor is redirected, the
  dashboard button leads to an admitted page, and the session stays consistent (a
  logged-in user has a token stored) by an invariant over serialised runs; against
  the code's intent, the video-call route is unguarded, the profile links match no
  route (or reach the landing page for a double-dot user name), a logout during the
  startup validation, after any logins, registrations and logouts, is undone by its
  response, and a registration whose token is absent or \<open>null\<close> stores the string
  \<open>undefined\<close> or \<open>null\<close> as the token, which \<open>login\<close> would refuse.
  For the dashboards: the cancellation window; no status
  change leaves a cancelled or completed appointment and completion needs a
  confirmation; an accepted booking satisfies every check and carries the picked
  day, whose date is formatted as fixed-width YYYY-MM-DD for a four-digit year and
  reads back as that day; every calendar event starts
  within the range of a Date and ends one hour later, clipped at that range; and,
  against the code's intent, appointments without \<open>startTime\<close> cannot be
  cancelled, the calendar shows one-hour events for 30-minute bookings, and an
  invalid typed date is posted as \<open>NaN-NaN-NaN\<close>.
  For the dashboards with the store: along every reliable run (no refetch after a
  successful status update fails) from
  a state of the invariant \<open>clinic_inv\<close> (store well-typed, the doctor's rows
  showing the store's status, the patient's list empty), every step is a step of the
  abstract lifecycle, a creation of a pending appointment, or no change
  (\<open>lifecycle_refinement\<close>, a simulation with stuttering); each appointment id
  changes status at most three times (\<open>status_changes_bounded\<close>); an accepted
  booking creates exactly one pending appointment under a fresh id, which the
  patient's page never shows. Against the code's intent, the doctor's error message
  is never cleared (\<open>doctor_error_sticky\<close>).
  For what the pages render: in every reachable state the patient's page, once
  loaded, lists no appointment and shows an error (\<open>patient_page_empty\<close>, by rule
  induction over \<open>clinic_reachable\<close> with the invariant \<open>pat_inv\<close>); every user
  the router shows the calendar to fetches their own appointments by name, and the
  page shows exactly the response's events or the error alert
  (\<open>calendar_endpoint_scoped\<close>); a doctor's Add Record button leads to the page
  that adds a record (\<open>doctor_add_record_admitted\<close>); and the doctor's table shows
  \<open>Invalid Date\<close> for an appointment without \<open>startTime\<close>, which the
  patient's table dates from its other fields (\<open>doctor_row_no_startTime\<close>).
  Across components: the two dashboards' links for an
  appointment open the (unguarded) video-call page and start the doctor's and the
  patient's calls in the same room with their roles and ids; the user id travels
  unencoded, so users without an id can collide.

  \<^bold>\<open>Bounds and fuel.\<close> None is needed: every handler runs a bounded amount of
  code (structural recursion over the track list in \<open>add_tracks\<close>, over strings
  in the parsers, and \<open>nat_str\<close> by the measure of its argument); unbounded
  behaviour (waiting for a peer, for the relay, for the user) is the absence of an
  event in a run, and the liveness results quantify over all event lists. The
  appointment lifecycle terminates by a potential, \<open>pot\<close>: three for an id not in
  the store, then two, one and zero along pending, confirmed and the final statuses;
  every abstract step lowers it at the id it changes, so at most three changes. Times
  are integers clipped to the Date range of 8.64e15 milliseconds (\<open>time_clip\<close>),
  the bound \<open>calendar_event_bounds\<close> states.

  \<^bold>\<open>Not modelled.\<close> Logging, the DOM video elements, SDP contents (a description is
  its type and origin), STOMP frames before the CONNECTED frame (the component never
  sends them), the JSON parse failure in \<open>subscribe\<close>'s callback (the relay's
  messages are the component's own), and the timing between the awaits of one
  handler; the HTTP requests of the authentication context are given by their
  outcomes; the \<open>useAuth\<close> misuse error is left out. In the dashboards the REST requests are given by their outcomes and each
  handler runs to completion, as its awaits only wait for those outcomes; what the
  pages render is modelled down to the text of each cell and the presence of each
  button and alert, not the MUI layout and styling, nor the fixed headings, units and
  bullet of the record dialog. The MUI theme of \<open>App.jsx\<close> and the
  ICE server list of \<open>VideoCall.jsx\<close> (lines 24-41) are constants handed to
  libraries and are not modelled. The backend's own checks are not known
  to the repository, so the store applies every status update it is sent.
  \<open>handleBookAppointment\<close> in the patient's page is never called, and the
  \<open>videoCallError\<close> state of both pages is never set but to the empty string, so
  neither changes any state. The patient's
  \<open>fetchAppointments\<close> names an undefined identifier and never gets past it, so
  of its sort and detail requests only the comparator is modelled, not
  \<open>Array.prototype.sort\<close>. Dates are wall-clock milliseconds of the local calendar
  (\<open>days_from_civil\<close>) without daylight-saving changes; \<open>Number\<close> is modelled
  on digit strings, the only ones the time values produce; URLs on code points below
  256 with the UTF-8 decoding step stated for ASCII; \<open>url_resolve\<close> leaves out
  the percent-encoding of characters such as spaces in a path (it creates and
  removes no segment) and resolves only the absolute paths the navigation bar pushes;
  the router is modelled as react-router 6 with its per-segment decoding.
\<close>

section \<open>The video call opened from a dashboard\<close>

text \<open>
  What \<open>VideoCall\<close> reads from its URL (\<open>VideoCall.jsx\<close> lines 7-10): the route
  parameter \<open>roomId\<close>, decoded, and the search parameters \<open>role\<close>, \<open>userId\<close>
  and \<open>userName\<close>.
\<close>

definition video_call_params :: "string \<Rightarrow> (room \<times> string option \<times> string option \<times> string option) option" where
  "video_call_params url =
     (case split_path url of
        [v, r] \<Rightarrow> (if v = ''video-call'' then Some (percent_decode r, query_get (url_search url) ''role'',
                    query_get (url_search url) ''userId'', query_get (url_search url) ''userName'') else None)
      | _ \<Rightarrow> None)"

text \<open>The first render of the call a link opens (\<open>VideoCall.jsx\<close> lines 6-23).\<close>

definition consult_call :: "location \<Rightarrow> string \<Rightarrow> call option" where
  "consult_call l url =
     (case video_call_params url of
        Some (r, rl, uid, un) \<Rightarrow> call_init l r rl uid un
      | None \<Rightarrow> None)"

section \<open>Properties across components\<close>

lemma video_call_params_join:
  assumes "a_id a = JString i" "i \<noteq> []" "list_all uri_unreserved i"
    "u_id u = Some d" "d \<noteq> []" "list_all uri_unreserved d"
    "u_username u = Some n" "is_ascii n" "rl \<noteq> []" "list_all uri_unreserved rl"
  shows "app_view s (join_link rl a u) = Show VideoCallPage \<and>
         video_call_params (join_link rl a u) = Some (i, Some rl, Some d, Some n)"
proof -
  note jp = join_link_params[OF assms]
  have "percent_decode i = i"
    using unreserved_no_special[OF assms(3)] by (intro percent_decode_no_pct) auto
  then show ?thesis using jp app_view_video_call[of "join_link rl a u" i s]
    by (simp add: video_call_params_def query_get_def)
qed

lemma role_names_unreserved:
  "list_all uri_unreserved ''doctor''" "list_all uri_unreserved ''patient''"
  by (simp_all add: uri_unreserved_def is_alnum_def)

text \<open>
  C11: the Start Video Call links of the two dashboards for one appointment open the
  consultation page, unguarded, and start the doctor's and the patient's calls in the
  same room, the appointment's id, with the roles and ids of the two users.
\<close>

theorem join_links_meet:
  assumes "a_id a = JString i" "i \<noteq> []" "list_all uri_unreserved i"
    "u_id du = Some dd" "dd \<noteq> []" "list_all uri_unreserved dd" "u_username du = Some dn" "is_ascii dn"
    "u_id pu = Some pd" "pd \<noteq> []" "list_all uri_unreserved pd" "u_username pu = Some pn" "is_ascii pn"
  shows "app_view s (doctorJoinVideoCall a du) = Show VideoCallPage \<and>
         app_view s (patientJoinVideoCall a pu) = Show VideoCallPage \<and>
         (\<exists>cd cp. consult_call l (doctorJoinVideoCall a du) = Some cd \<and>
                  consult_call l (patientJoinVideoCall a pu) = Some cp \<and>
                  roomId cd = i \<and> roomId cp = i \<and> role cd = Some ''doctor'' \<and> role cp = Some ''patient'' \<and>
                  userId cd = Some dd \<and> userId cp = Some pd)"
proof -
  note d = video_call_params_join[OF assms(1-8), of "''doctor''" s] role_names_unreserved
  note p = video_call_params_join[OF assms(1-3,9-13), of "''patient''" s] role_names_unreserved
  show ?thesis using d p
    by (simp add: doctorJoinVideoCall_def patientJoinVideoCall_def consult_call_def call_init_def
        userName_of_def split: option.splits)
qed

text \<open>
  The user id in the link is not encoded: two users without an id whose names
  differ only after an ampersand start their calls with the same user id, the one
  value the loopback check of \<open>handleSignalingMessage\<close> compares.
\<close>

theorem join_userId_collision:
  "video_call_params (doctorJoinVideoCall (demo_appt ''42'' JNull ''CONFIRMED'')
      \<lparr>u_token = JString ''t1'', u_username = Some ''ann&lee'', u_id = None, u_roles = Some [''ROLE_DOCTOR''],
       u_success = True\<rparr>) =
     Some (''42'', Some ''doctor'', Some ''ann'', Some ''ann&lee'') \<and>
   video_call_params (patientJoinVideoCall (demo_appt ''42'' JNull ''CONFIRMED'')
      \<lparr>u_token = JString ''t2'', u_username = Some ''ann&roe'', u_id = None, u_roles = Some [''ROLE_PATIENT''],
       u_success = True\<rparr>) =
     Some (''42'', Some ''patient'', Some ''ann'', Some ''ann&roe'')"
  by code_simp

section \<open>Witnesses\<close>

lemma join_sample_facts:
  "list_all uri_unreserved ''42''" "list_all uri_unreserved ''7''" "list_all uri_unreserved ''9''"
  "is_ascii ''drsmith''" "is_ascii ''jane''"
  by code_simp+

theorem join_links_meet_witness:
  "\<exists>cd cp. consult_call demo_loc (doctorJoinVideoCall (demo_appt ''42'' JNull ''CONFIRMED'') demo_doctor_user) = Some cd \<and>
     consult_call demo_loc (patientJoinVideoCall (demo_appt ''42'' JNull ''CONFIRMED'') demo_patient_user) = Some cp \<and>
     roomId cd = roomId cp"
proof -
  have "a_id (demo_appt ''42'' JNull ''CONFIRMED'') = JString ''42''"
    "u_id demo_doctor_user = Some ''7''" "u_username demo_doctor_user = Some ''drsmith''"
    "u_id demo_patient_user = Some ''9''" "u_username demo_patient_user = Some ''jane''"
    by (simp_all add: demo_appt_def demo_doctor_user_def demo_patient_user_def)
  then show ?thesis
    using join_links_meet[of "demo_appt ''42'' JNull ''CONFIRMED''" "''42''" demo_doctor_user "''7''" "''drsmith''"
        demo_patient_user "''9''" "''jane''" "auth_init None" demo_loc] join_sample_facts
    by auto
qed

end
